(* ===== verification/Prelude.thy ===== *)
theory Prelude
  imports Complex_Main "HOL-Library.Word"
begin

text \<open>
  Shared vocabulary of the development: the JavaScript values and library
  operations that \<open>src/iappslx/presentation/app.js\<close> relies on, modelled
  once here so that every component theory uses the same reading.
  \<^item> \<open>list_elem\<close>: the rows the list views append to their container;
  \<^item> \<open>json\<close>: a parsed JSON value (numbers are integers: the console only
    handles integral sizes, counts and statuses);
  \<^item> \<open>js_slice\<close>: \<open>String.prototype.slice\<close> and \<open>Blob.prototype.slice\<close>,
    which share their index arithmetic (negative indices count from the end);
  \<^item> \<open>string_of_int\<close>: how a template literal prints an integral number;
  \<^item> \<open>split_on\<close> and \<open>join_with\<close>: \<open>String.prototype.split\<close> and
    \<open>Array.prototype.join\<close> with a one-character separator;
  \<^item> \<open>obj_set\<close>: assignment \<open>obj[k] = v\<close> on a plain object with string keys,
    as an association list in property order (an existing key keeps its place,
    a new one is appended).
  The named collection \<open>js_simps\<close> gathers the evaluation rules of these
  operations; component proofs use it with \<open>simp add: js_simps\<close>.
\<close>

named_theorems js_simps "evaluation rules for the JavaScript library model"

type_synonym byte = "8 word"

datatype json =
    JNull
  | JBool bool
  | JNum int
  | JStr string
  | JArr "json list"
  | JObj "(string \<times> json) list"

text \<open>
  The list views (applications, tasks, templates) are sequences of elements
  appended to a container: a header row, a divider (\<open><hr>\<close>, possibly
  striped) and a row of cells (possibly striped).
\<close>

datatype list_elem = Header "string list" | Divider bool | Row bool "string list"

subsection \<open>slice\<close>

definition js_rel_index :: "int \<Rightarrow> int \<Rightarrow> int" where
  "js_rel_index n i = (if i < 0 then max (n + i) 0 else min i n)"

definition js_slice :: "'a list \<Rightarrow> int \<Rightarrow> int \<Rightarrow> 'a list" where
  "js_slice xs s e =
     (let n = int (length xs); a = js_rel_index n s; b = js_rel_index n e
      in take (nat (b - a)) (drop (nat a) xs))"

subsection \<open>Printing integers\<close>

fun string_of_nat :: "nat \<Rightarrow> string" where
  "string_of_nat n =
     (if n < 10 then [''0123456789'' ! n]
      else string_of_nat (n div 10) @ [''0123456789'' ! (n mod 10)])"

declare string_of_nat.simps [simp del]

definition string_of_int :: "int \<Rightarrow> string" where
  "string_of_int i =
     (if i < 0 then CHR ''-'' # string_of_nat (nat (- i)) else string_of_nat (nat i))"

subsection \<open>split and join\<close>

fun split_on :: "char \<Rightarrow> string \<Rightarrow> string list" where
  "split_on c [] = [[]]"
| "split_on c (x # xs) =
     (if x = c then [] # split_on c xs
      else (case split_on c xs of w # ws \<Rightarrow> (x # w) # ws | [] \<Rightarrow> [[x]]))"

fun join_with :: "char \<Rightarrow> string list \<Rightarrow> string" where
  "join_with c [] = []"
| "join_with c [w] = w"
| "join_with c (w # ws) = w @ c # join_with c ws"

subsection \<open>Plain objects as association lists\<close>

fun obj_set :: "('k \<times> 'v) list \<Rightarrow> 'k \<Rightarrow> 'v \<Rightarrow> ('k \<times> 'v) list" where
  "obj_set [] k v = [(k, v)]"
| "obj_set ((k', v') # xs) k v =
     (if k' = k then (k, v) # xs else (k', v') # obj_set xs k v)"

subsection \<open>Shared lemmas\<close>

lemma js_slice_nonneg [js_simps]:
  "0 \<le> s \<Longrightarrow> s \<le> e \<Longrightarrow> e \<le> int (length xs) \<Longrightarrow>
   js_slice xs s e = take (nat (e - s)) (drop (nat s) xs)"
  by (simp add: js_slice_def js_rel_index_def)

lemma length_js_slice_nonneg:
  "0 \<le> s \<Longrightarrow> s \<le> e \<Longrightarrow> e \<le> int (length xs) \<Longrightarrow>
   length (js_slice xs s e) = nat (e - s)"
  by (simp add: js_slice_nonneg)

lemma split_on_nonempty [simp]: "split_on c s \<noteq> []"
  by (induction s) (auto split: list.split)

lemma join_with_Cons_head: "join_with c ((x # w) # ws) = x # join_with c (w # ws)"
  by (cases ws) auto

lemma join_split_on [js_simps]: "join_with c (split_on c s) = s"
proof (induction s)
  case Nil
  then show ?case by simp
next
  case (Cons x xs)
  show ?case
  proof (cases "x = c")
    case True
    then show ?thesis using Cons.IH
      by (cases "split_on c xs") auto
  next
    case False
    then show ?thesis using Cons.IH
      by (cases "split_on c xs") (simp_all add: join_with_Cons_head)
  qed
qed

lemma split_on_no_sep: "c \<notin> set s \<Longrightarrow> split_on c s = [s]"
  by (induction s) auto

lemma map_of_obj_set [js_simps]: "map_of (obj_set xs k v) = (map_of xs)(k \<mapsto> v)"
  by (induction xs) (auto simp: fun_upd_twist)

lemma keys_obj_set [js_simps]:
  "map fst (obj_set xs k v) =
     (if k \<in> set (map fst xs) then map fst xs else map fst xs @ [k])"
  by (induction xs) (auto simp: rev_image_eqI)

lemma distinct_obj_set:
  "distinct (map fst xs) \<Longrightarrow> distinct (map fst (obj_set xs k v))"
  by (simp add: keys_obj_set)

lemma length_string_of_nat_pos: "string_of_nat n \<noteq> []"
  by (subst string_of_nat.simps) simp

end
