(* ===== verification/Http.thy ===== *)
theory Http
  imports Prelude
begin

text \<open>
  The HTTP client helper and the output sink of \<open>app.js\<close>.
  \<^item> Requests are records (\<open>http_request\<close>): method, URL, headers and body,
    as the code builds them for \<open>fetch\<close>.
  \<^item> The backend is a black box: a \<open>server\<close> maps a request to the outcome
    of \<open>fetch\<close>, either a network failure (the promise rejects with a
    \<open>TypeError\<close>) or a response with a status, a status text and a body that
    \<open>response.json()\<close> either parses (\<open>Inr\<close>) or rejects (\<open>Inl\<close>,
    the runtime's \<open>SyntaxError\<close> message).
  \<^item> A rejected promise is the \<open>Inl\<close> branch of \<open>js_error + 'a\<close>.
  \<^item> \<open>getJSON\<close> (lines 13-18) and \<open>dispOutput\<close> (lines 24-29), the latter
    over the module's \<open>outputElem\<close> and the console.
\<close>

datatype http_method = GET | POST | DELETE

datatype req_body = NoBody | BlobBody "byte list" | JsonBody json

record http_request =
  req_method :: http_method
  req_url :: string
  req_headers :: "(string \<times> string) list"
  req_body :: req_body

record 'a http_response =
  resp_status :: int
  resp_status_text :: string
  resp_json :: "string + 'a"

datatype 'a fetch_outcome = Net_Error string | Response "'a http_response"

type_synonym 'a server = "http_request \<Rightarrow> 'a fetch_outcome"

datatype js_error = Error string | TypeError string | SyntaxError string

primrec err_message :: "js_error \<Rightarrow> string" where
  "err_message (Error m) = m"
| "err_message (TypeError m) = m"
| "err_message (SyntaxError m) = m"

definition resp_ok :: "'a http_response \<Rightarrow> bool" where
  "resp_ok r \<longleftrightarrow> 200 \<le> resp_status r \<and> resp_status r \<le> 299"

subsection \<open>getJSON\<close>

definition endPointUrl :: string where
  "endPointUrl = ''/mgmt/shared/fast''"

definition api_url :: "string \<Rightarrow> string" where
  "api_url ep = endPointUrl @ ''/'' @ ep"

definition simple_request :: "http_method \<Rightarrow> string \<Rightarrow> http_request" where
  "simple_request m url = \<lparr>req_method = m, req_url = url, req_headers = [], req_body = NoBody\<rparr>"

definition json_request :: "string \<Rightarrow> json \<Rightarrow> http_request" where
  "json_request url j =
     \<lparr>req_method = POST, req_url = url,
      req_headers = [(''Content-Type'', ''application/json'')], req_body = JsonBody j\<rparr>"

text \<open>\<open>response.json()\<close>: the parsed body, or the parser's rejection.\<close>

definition response_json :: "'a http_response \<Rightarrow> js_error + 'a" where
  "response_json r = (case resp_json r of Inl m \<Rightarrow> Inl (SyntaxError m) | Inr v \<Rightarrow> Inr v)"

definition getJSON :: "'a server \<Rightarrow> string \<Rightarrow> js_error + 'a" where
  "getJSON srv ep =
     (case srv (simple_request GET (api_url ep)) of
        Net_Error m \<Rightarrow> Inl (TypeError m)
      | Response r \<Rightarrow>
          if \<not> resp_ok r then
            Inl (Error (''Failed to get data from '' @ api_url ep @ '': '' @
                        string_of_int (resp_status r) @ '' '' @ resp_status_text r))
          else response_json r)"

subsection \<open>dispOutput\<close>

text \<open>
  The module-level \<open>outputElem\<close> is unset until a page controller assigns it;
  \<open>dispOutput\<close> always logs to the console and writes the element only when set.
\<close>

record console =
  console_log :: "string list"
  output_set :: bool
  output_text :: string

definition dispOutput :: "string \<Rightarrow> console \<Rightarrow> console" where
  "dispOutput s c =
     (if output_set c then c\<lparr>console_log := console_log c @ [s], output_text := s\<rparr>
      else c\<lparr>console_log := console_log c @ [s]\<rparr>)"

definition set_outputElem :: "console \<Rightarrow> console" where
  "set_outputElem c = c\<lparr>output_set := True\<rparr>"

subsection \<open>Lemmas\<close>

lemma getJSON_ok [simp]:
  "srv (simple_request GET (api_url ep)) = Response r \<Longrightarrow> resp_ok r \<Longrightarrow>
   getJSON srv ep = response_json r"
  by (simp add: getJSON_def)

lemma getJSON_not_ok:
  "srv (simple_request GET (api_url ep)) = Response r \<Longrightarrow> \<not> resp_ok r \<Longrightarrow>
   getJSON srv ep = Inl (Error (''Failed to get data from '' @ api_url ep @ '': '' @
                        string_of_int (resp_status r) @ '' '' @ resp_status_text r))"
  by (simp add: getJSON_def)

lemma getJSON_net_error [simp]:
  "srv (simple_request GET (api_url ep)) = Net_Error m \<Longrightarrow> getJSON srv ep = Inl (TypeError m)"
  by (simp add: getJSON_def)

lemma getJSON_cong:
  "srv (simple_request GET (api_url ep)) = srv' (simple_request GET (api_url ep)) \<Longrightarrow>
   getJSON srv ep = getJSON srv' ep"
  by (simp add: getJSON_def)

lemma dispOutput_log [simp]: "console_log (dispOutput s c) = console_log c @ [s]"
  by (simp add: dispOutput_def)

lemma dispOutput_set [simp]: "output_set (dispOutput s c) = output_set c"
  by (simp add: dispOutput_def)

lemma dispOutput_text:
  "output_text (dispOutput s c) = (if output_set c then s else output_text c)"
  by (simp add: dispOutput_def)

text \<open>
  C40: \<open>getJSON ep\<close> resolves with a value exactly when the GET request to
  \<open>/mgmt/shared/fast/ep\<close> answered with a 2xx status and a body that parses to
  that value; every other outcome (network failure, non-2xx status, unparsable
  body) rejects.
\<close>

theorem getJSON_success_iff:
  "getJSON srv ep = Inr v \<longleftrightarrow>
   (\<exists>r. srv (simple_request GET (''/mgmt/shared/fast/'' @ ep)) = Response r \<and>
        resp_ok r \<and> resp_json r = Inr v)"
  by (auto simp: getJSON_def api_url_def endPointUrl_def response_json_def
           split: fetch_outcome.splits sum.splits)

end
