(* ===== verification/Upload.thy ===== *)
theory Upload
  imports Http
begin

text \<open>
  The chunked uploader, \<open>multipartUpload\<close> (\<open>app.js\<close> lines 31-65).
  A file is a record of its name and its bytes; the inner \<open>uploadPart(start, end)\<close>
  is \<open>upload_part\<close>, a recursive function over the byte offsets whose
  termination measure is the distance of \<open>end\<close> to the last byte. One
  POST is \<open>upload_request\<close>; the \<open>.then\<close> that checks \<open>response.ok\<close> is
  \<open>upload_response_check\<close>. The result pairs the requests issued, in order,
  with the outcome of the promise.

  The abstract specification is \<open>run_requests srv (chunk_requests f)\<close>: the
  precomputed list of chunk requests (\<open>chunk_ranges\<close>, ranges of at most
  \<open>CHUNK_SIZE\<close> bytes) issued one after the other, stopping at the first one
  the server rejects. \<open>multipartUpload_refines\<close> proves the loop implements it;
  the remaining lemmas are about the chunk list: count, contiguity, bodies and
  headers.
\<close>

definition CHUNK_SIZE :: int where "CHUNK_SIZE = 1000000"

record js_file =
  file_name :: string
  file_data :: "byte list"

definition file_size :: "js_file \<Rightarrow> int" where
  "file_size f = int (length (file_data f))"

definition uploads_url :: "string \<Rightarrow> string" where
  "uploads_url n = ''/mgmt/shared/file-transfer/uploads/'' @ n"

definition upload_request :: "js_file \<Rightarrow> int \<Rightarrow> int \<Rightarrow> http_request" where
  "upload_request f s e =
     \<lparr>req_method = POST, req_url = uploads_url (file_name f),
      req_headers =
        [(''Content-Type'', ''application/octet-stream''),
         (''Content-Range'', string_of_int s @ ''-'' @ string_of_int e @ ''/'' @ string_of_int (file_size f)),
         (''Content-Length'', string_of_int ((e - s) + 1)),
         (''Connection'', ''keep-alive'')],
      req_body = BlobBody (js_slice (file_data f) s (e + 1))\<rparr>"

definition upload_response_check :: "'a fetch_outcome \<Rightarrow> js_error + unit" where
  "upload_response_check out =
     (case out of
        Net_Error m \<Rightarrow> Inl (TypeError m)
      | Response r \<Rightarrow>
          if \<not> resp_ok r then Inl (Error ''Failed to upload file: {}'') else Inr ())"

function upload_part ::
  "'a server \<Rightarrow> js_file \<Rightarrow> int \<Rightarrow> int \<Rightarrow> http_request list \<times> (js_error + unit)" where
  "upload_part srv f s e =
     (let r = upload_request f s e in
      case upload_response_check (srv r) of
        Inl err \<Rightarrow> ([r], Inl err)
      | Inr _ \<Rightarrow>
          if e = file_size f - 1 then ([r], Inr ())
          else
            (let ne = (if e + CHUNK_SIZE > file_size f - 1 then file_size f - 1 else e + CHUNK_SIZE);
                 rest = upload_part srv f (s + CHUNK_SIZE) ne
             in (r # fst rest, snd rest)))"
  by pat_completeness auto
termination
  by (relation "measure (\<lambda>(srv, f, s, e). if e < file_size f then nat (file_size f - e) else 2)")
     (auto simp: CHUNK_SIZE_def)

declare upload_part.simps [simp del]

definition multipartUpload :: "'a server \<Rightarrow> js_file \<Rightarrow> http_request list \<times> (js_error + unit)" where
  "multipartUpload srv f =
     (if CHUNK_SIZE < file_size f then upload_part srv f 0 (CHUNK_SIZE - 1)
      else upload_part srv f 0 (file_size f - 1))"

definition chunk_count :: "nat \<Rightarrow> nat" where
  "chunk_count n = (if n = 0 then 1 else (n + nat CHUNK_SIZE - 1) div nat CHUNK_SIZE)"

definition chunk_range :: "nat \<Rightarrow> nat \<Rightarrow> int \<times> int" where
  "chunk_range n k = (int k * CHUNK_SIZE, min (int (Suc k) * CHUNK_SIZE) (int n) - 1)"

definition chunk_ranges :: "nat \<Rightarrow> (int \<times> int) list" where
  "chunk_ranges n = map (chunk_range n) [0..<chunk_count n]"

definition chunk_requests :: "js_file \<Rightarrow> http_request list" where
  "chunk_requests f = map (\<lambda>(s, e). upload_request f s e) (chunk_ranges (length (file_data f)))"

fun run_requests :: "'a server \<Rightarrow> http_request list \<Rightarrow> http_request list \<times> (js_error + unit)" where
  "run_requests srv [] = ([], Inr ())"
| "run_requests srv (r # rs) =
     (case upload_response_check (srv r) of
        Inl err \<Rightarrow> ([r], Inl err)
      | Inr _ \<Rightarrow> (let rest = run_requests srv rs in (r # fst rest, snd rest)))"

primrec blob_of :: "req_body \<Rightarrow> byte list" where
  "blob_of NoBody = []"
| "blob_of (BlobBody b) = b"
| "blob_of (JsonBody j) = []"

definition header_value :: "string \<Rightarrow> http_request \<Rightarrow> string option" where
  "header_value h r = map_of (req_headers r) h"

lemma int_chunk_less: "int k * CHUNK_SIZE < int n \<longleftrightarrow> k * 1000000 < n"
proof -
  have "int k * CHUNK_SIZE = int (k * 1000000)" by (simp add: CHUNK_SIZE_def)
  then show ?thesis by (simp only: of_nat_less_iff)
qed

lemma chunk_count_iff_nat:
  assumes "0 < n" shows "k < chunk_count n \<longleftrightarrow> k * 1000000 < n"
proof -
  have "k < chunk_count n \<longleftrightarrow> Suc k * 1000000 \<le> n + 999999"
    using assms by (simp add: chunk_count_def CHUNK_SIZE_def less_eq_div_iff_mult_less_eq
                        Suc_le_eq[symmetric] add.commute del: mult_Suc)
  also have "\<dots> \<longleftrightarrow> k * 1000000 < n" by (simp add: Suc_le_eq)
  finally show ?thesis .
qed

lemma chunk_count_iff:
  assumes "0 < n" shows "k < chunk_count n \<longleftrightarrow> int k * CHUNK_SIZE < int n"
  by (simp only: chunk_count_iff_nat[OF assms] int_chunk_less)

lemma upload_part_last:
  "e = file_size f - 1 \<Longrightarrow> upload_part srv f s e = run_requests srv [upload_request f s e]"
  by (subst upload_part.simps) (simp split: sum.split)

lemma upload_part_next:
  assumes "e \<noteq> file_size f - 1"
    and "upload_part srv f (s + CHUNK_SIZE)
           (if e + CHUNK_SIZE > file_size f - 1 then file_size f - 1 else e + CHUNK_SIZE)
         = run_requests srv rs"
  shows "upload_part srv f s e = run_requests srv (upload_request f s e # rs)"
  using assms by (subst upload_part.simps) (simp add: Let_def split del: if_split split: sum.split)

lemma upload_part_chunks:
  assumes n: "n = length (file_data f)" "0 < n" and k: "k < chunk_count n"
  shows "upload_part srv f (fst (chunk_range n k)) (snd (chunk_range n k)) =
         run_requests srv
           (map (\<lambda>k. upload_request f (fst (chunk_range n k)) (snd (chunk_range n k)))
              [k..<chunk_count n])"
  using k
proof (induction "chunk_count n - k" arbitrary: k)
  case 0
  then show ?case by simp
next
  case (Suc d)
  have size: "file_size f = int n" using n by (simp add: file_size_def)
  have upt: "[k..<chunk_count n] = k # [Suc k..<chunk_count n]"
    using Suc.prems by (simp add: upt_conv_Cons)
  show ?case
  proof (cases "Suc k < chunk_count n")
    case True
    then have lt: "int (Suc k) * CHUNK_SIZE < int n" using chunk_count_iff[OF n(2)] by blast
    have ne: "snd (chunk_range n k) \<noteq> file_size f - 1"
      using lt size by (simp add: chunk_range_def)
    have next_e: "(if snd (chunk_range n k) + CHUNK_SIZE > file_size f - 1 then file_size f - 1
                   else snd (chunk_range n k) + CHUNK_SIZE) = snd (chunk_range n (Suc k))"
      using lt size by (simp add: chunk_range_def CHUNK_SIZE_def)
    have next_s: "fst (chunk_range n k) + CHUNK_SIZE = fst (chunk_range n (Suc k))"
      by (simp add: chunk_range_def algebra_simps)
    have IH: "upload_part srv f (fst (chunk_range n (Suc k))) (snd (chunk_range n (Suc k))) =
         run_requests srv
           (map (\<lambda>k. upload_request f (fst (chunk_range n k)) (snd (chunk_range n k)))
              [Suc k..<chunk_count n])"
      using Suc.hyps(1)[of "Suc k"] Suc.hyps(2) True by simp
    show ?thesis
      unfolding upt using ne IH by (simp add: upload_part_next next_e next_s)
  next
    case False
    then have "\<not> int (Suc k) * CHUNK_SIZE < int n" using chunk_count_iff[OF n(2)] by blast
    then have last: "snd (chunk_range n k) = file_size f - 1"
      using size by (simp add: chunk_range_def)
    have nil: "[Suc k..<chunk_count n] = []" using False by simp
    show ?thesis unfolding upt nil using last by (simp add: upload_part_last)
  qed
qed

theorem multipartUpload_refines:
  "multipartUpload srv f = run_requests srv (chunk_requests f)"
proof (cases "file_data f = []")
  case True
  then show ?thesis
    by (simp add: multipartUpload_def chunk_requests_def chunk_ranges_def chunk_count_def
                  chunk_range_def file_size_def CHUNK_SIZE_def upload_part_last)
next
  case False
  let ?n = "length (file_data f)"
  have pos: "0 < ?n" using False by simp
  have k0: "0 < chunk_count ?n" using chunk_count_iff[OF pos, of 0] pos by simp
  have start: "multipartUpload srv f = upload_part srv f (fst (chunk_range ?n 0)) (snd (chunk_range ?n 0))"
    by (simp add: multipartUpload_def chunk_range_def file_size_def min_def)
  show ?thesis
    unfolding start chunk_requests_def chunk_ranges_def
    by (simp add: upload_part_chunks[OF refl pos k0] case_prod_beta comp_def)
qed

lemma run_requests_all_ok:
  "\<forall>r \<in> set rs. upload_response_check (srv r) = Inr () \<Longrightarrow> run_requests srv rs = (rs, Inr ())"
  by (induction rs) auto

lemma run_requests_first_failure:
  "j < length rs \<Longrightarrow> \<forall>i < j. upload_response_check (srv (rs ! i)) = Inr () \<Longrightarrow>
   upload_response_check (srv (rs ! j)) = Inl err \<Longrightarrow>
   run_requests srv rs = (take (Suc j) rs, Inl err)"
proof (induction rs arbitrary: j)
  case Nil
  then show ?case by simp
next
  case (Cons r rs)
  show ?case
  proof (cases j)
    case 0
    with Cons.prems show ?thesis by simp
  next
    case (Suc j')
    with Cons.prems have ok: "upload_response_check (srv r) = Inr ()" by auto
    from Cons.prems Suc have "run_requests srv rs = (take (Suc j') rs, Inl err)"
      by (intro Cons.IH) auto
    with ok Suc show ?thesis by simp
  qed
qed

lemma run_requests_success:
  "snd (run_requests srv rs) = Inr () \<Longrightarrow>
   fst (run_requests srv rs) = rs \<and> (\<forall>r \<in> set rs. upload_response_check (srv r) = Inr ())"
  by (induction rs) (auto simp: Let_def split: sum.splits)

lemma run_requests_prefix:
  "fst (run_requests srv rs) = take (length (fst (run_requests srv rs))) rs"
proof (induction rs)
  case Nil
  then show ?case by simp
next
  case (Cons r rs)
  then show ?case by (simp add: Let_def split: sum.split)
qed

lemma length_chunk_requests: "length (chunk_requests f) = chunk_count (length (file_data f))"
  by (simp add: chunk_requests_def chunk_ranges_def)

lemma chunk_count_pos: "0 < chunk_count n"
  by (simp add: chunk_count_def CHUNK_SIZE_def div_greater_zero_iff)

lemma chunk_count_ceiling:
  assumes "0 < n"
  shows "(chunk_count n - 1) * 1000000 < n \<and> n \<le> chunk_count n * 1000000"
proof -
  have a: "chunk_count n - 1 < chunk_count n" using chunk_count_pos[of n] by simp
  have b: "\<not> chunk_count n < chunk_count n" by simp
  show ?thesis
    using chunk_count_iff_nat[OF assms, of "chunk_count n - 1"]
          chunk_count_iff_nat[OF assms, of "chunk_count n"] a b by linarith
qed

lemma chunk_range_body:
  assumes "k < chunk_count n" "n = length xs"
  shows "js_slice xs (fst (chunk_range n k)) (snd (chunk_range n k) + 1) =
         take 1000000 (drop (k * 1000000) xs)"
proof (cases "n = 0")
  case True
  with assms show ?thesis by (simp add: chunk_range_def js_slice_def js_rel_index_def)
next
  case False
  then have "int k * CHUNK_SIZE < int n" using chunk_count_iff assms(1) by blast
  then have lt: "k * 1000000 < n" by (simp only: int_chunk_less)
  have "js_slice xs (int k * CHUNK_SIZE) (min (int (Suc k) * CHUNK_SIZE) (int n)) =
        take (nat (min (int (Suc k) * CHUNK_SIZE) (int n) - int k * CHUNK_SIZE)) (drop (nat (int k * CHUNK_SIZE)) xs)"
    using lt assms(2) by (intro js_slice_nonneg) (auto simp: CHUNK_SIZE_def)
  also have "\<dots> = take 1000000 (drop (k * 1000000) xs)"
    using lt assms(2) by (auto simp: CHUNK_SIZE_def min_def nat_mult_distrib)
  finally show ?thesis by (simp add: chunk_range_def)
qed

lemma concat_chunks_from:
  "length xs \<le> m * 1000000 \<Longrightarrow>
   concat (map (\<lambda>k. take 1000000 (drop (k * 1000000) xs)) [i..<m]) = drop (i * 1000000) xs"
proof (induction "m - i" arbitrary: i)
  case 0
  then show ?case by simp
next
  case (Suc d)
  then have "i < m" by simp
  then have "[i..<m] = i # [Suc i..<m]" by (simp add: upt_conv_Cons)
  moreover have "concat (map (\<lambda>k. take 1000000 (drop (k * 1000000) xs)) [Suc i..<m]) =
                 drop (Suc i * 1000000) xs"
    using Suc by simp
  moreover have "take 1000000 (drop (i * 1000000) xs) @ drop (Suc i * 1000000) xs =
                 drop (i * 1000000) xs"
    by (metis append_take_drop_id drop_drop mult_Suc)
  ultimately show ?case by (simp del: mult_Suc)
qed

lemma chunk_count_real_ceiling:
  assumes "0 < n" shows "chunk_count n = nat \<lceil>real n / 1000000\<rceil>"
proof -
  let ?c = "chunk_count n"
  have c: "(?c - 1) * 1000000 < n" "n \<le> ?c * 1000000" using chunk_count_ceiling[OF assms] by auto
  have pos: "0 < ?c" by (rule chunk_count_pos)
  have "real (?c - 1) * 1000000 < real n" using c(1) by (metis of_nat_less_iff of_nat_mult of_nat_numeral)
  then have lo: "real_of_int (int ?c) - 1 < real n / 1000000" using pos by (simp add: field_simps of_nat_diff)
  have "real n \<le> real ?c * 1000000" using c(2) by (metis of_nat_le_iff of_nat_mult of_nat_numeral)
  then have hi: "real n / 1000000 \<le> real_of_int (int ?c)" by (simp add: field_simps)
  have "\<lceil>real n / 1000000\<rceil> = int ?c" by (rule ceiling_unique[OF lo hi])
  then show ?thesis by simp
qed

lemma chunk_ranges_nth:
  "k < chunk_count n \<Longrightarrow> chunk_ranges n ! k = chunk_range n k"
  by (simp add: chunk_ranges_def)

lemma length_chunk_ranges [simp]: "length (chunk_ranges n) = chunk_count n"
  by (simp add: chunk_ranges_def)

lemma last_chunk_range: "snd (chunk_range n (chunk_count n - 1)) = int n - 1"
proof (cases "n = 0")
  case True
  then show ?thesis by (simp add: chunk_count_def chunk_range_def CHUNK_SIZE_def)
next
  case False
  then have "n \<le> chunk_count n * 1000000" using chunk_count_ceiling by blast
  moreover have "Suc (chunk_count n - 1) = chunk_count n" using chunk_count_pos[of n] by simp
  ultimately have "int n \<le> int (Suc (chunk_count n - 1) * 1000000)"
    by (simp only: of_nat_le_iff)
  also have "\<dots> = int (Suc (chunk_count n - 1)) * CHUNK_SIZE"
    by (simp only: of_nat_mult CHUNK_SIZE_def of_nat_numeral)
  finally show ?thesis by (simp add: chunk_range_def min_absorb2)
qed

lemma chunk_range_width:
  "k < chunk_count n \<Longrightarrow>
   snd (chunk_range n k) - fst (chunk_range n k) + 1 = int (min 1000000 (n - k * 1000000))"
proof (cases "n = 0")
  case True
  moreover assume "k < chunk_count n"
  ultimately show ?thesis by (simp add: chunk_count_def chunk_range_def CHUNK_SIZE_def)
next
  case False
  assume "k < chunk_count n"
  then have "k * 1000000 < n" using chunk_count_iff_nat False by blast
  then show ?thesis by (simp add: chunk_range_def CHUNK_SIZE_def min_def; arith)
qed

lemma chunk_requests_bodies:
  "map (\<lambda>r. blob_of (req_body r)) (chunk_requests f) =
   map (\<lambda>k. take 1000000 (drop (k * 1000000) (file_data f))) [0..<chunk_count (length (file_data f))]"
  by (simp add: chunk_requests_def chunk_ranges_def upload_request_def chunk_range_body case_prod_beta)

lemma chunk_requests_headers:
  "map (header_value h) (chunk_requests f) =
   map (\<lambda>k. header_value h (upload_request f (fst (chunk_range (length (file_data f)) k))
                                            (snd (chunk_range (length (file_data f)) k))))
       [0..<chunk_count (length (file_data f))]"
  by (simp add: chunk_requests_def chunk_ranges_def case_prod_beta)

lemmas upload_eval =
  chunk_requests_def chunk_ranges_def chunk_count_def CHUNK_SIZE_def chunk_range_def
  upload_request_def header_value_def string_of_int_def string_of_nat.simps file_size_def
  upload_response_check_def resp_ok_def

subsection \<open>Properties of the uploader\<close>

text \<open>
  C9: the recursive \<open>uploadPart(start, end)\<close> loop of \<open>multipartUpload\<close>
  refines a plain sequential run over the precomputed chunk requests: it issues
  exactly the requests of \<open>chunk_requests\<close>, in order, one after the other,
  and stops at the first one whose response is not accepted.
\<close>

theorem multipartUpload_sequential:
  "multipartUpload srv f = run_requests srv (chunk_requests f)"
  by (rule multipartUpload_refines)

text \<open>
  C10: when the server accepts every chunk, the upload resolves successfully
  after issuing every chunk request.
\<close>

theorem multipartUpload_all_ok:
  "\<forall>r \<in> set (chunk_requests f). upload_response_check (srv r) = Inr () \<Longrightarrow>
   multipartUpload srv f = (chunk_requests f, Inr ())"
  by (simp add: multipartUpload_refines run_requests_all_ok)

text \<open>
  C11: a failed chunk aborts the whole sequence: if chunk \<open>j\<close> is the first
  one the server rejects, the upload issues chunks \<open>0..j\<close> only and rejects
  with that chunk's error.
\<close>

theorem multipartUpload_first_failure:
  "j < length (chunk_requests f) \<Longrightarrow>
   \<forall>i < j. upload_response_check (srv (chunk_requests f ! i)) = Inr () \<Longrightarrow>
   upload_response_check (srv (chunk_requests f ! j)) = Inl err \<Longrightarrow>
   multipartUpload srv f = (take (Suc j) (chunk_requests f), Inl err)"
  by (simp add: multipartUpload_refines run_requests_first_failure)

text \<open>
  The upload resolves successfully only after every chunk was accepted,
  the last of them being the one that ends at byte \<open>size - 1\<close>.
\<close>

theorem multipartUpload_resolves_after_last:
  "snd (multipartUpload srv f) = Inr () \<Longrightarrow>
   fst (multipartUpload srv f) = chunk_requests f \<and>
   (\<forall>r \<in> set (chunk_requests f). upload_response_check (srv r) = Inr ()) \<and>
   last (chunk_requests f) =
     upload_request f (fst (last (chunk_ranges (length (file_data f))))) (file_size f - 1)"
proof -
  assume ok: "snd (multipartUpload srv f) = Inr ()"
  let ?n = "length (file_data f)"
  have ne: "chunk_ranges ?n \<noteq> []" using chunk_count_pos[of ?n] by (simp add: chunk_ranges_def)
  have "last (chunk_ranges ?n) = chunk_range ?n (chunk_count ?n - 1)"
    using ne by (simp add: last_conv_nth chunk_ranges_nth chunk_count_pos)
  then have "snd (last (chunk_ranges ?n)) = file_size f - 1"
    using last_chunk_range[of ?n] by (simp add: file_size_def)
  then have "last (chunk_requests f) =
     upload_request f (fst (last (chunk_ranges ?n))) (file_size f - 1)"
    using ne by (simp add: chunk_requests_def last_map case_prod_beta)
  with ok show ?thesis
    using run_requests_success[of srv "chunk_requests f"] by (simp add: multipartUpload_refines)
qed

text \<open>
  Concatenating the bodies of the chunk requests in order gives back the
  file's bytes, with no gap and no overlap.
\<close>

lemma chunk_requests_concat:
  "concat (map (\<lambda>r. blob_of (req_body r)) (chunk_requests f)) = file_data f"
proof (cases "file_data f = []")
  case True
  then show ?thesis by (simp add: chunk_requests_bodies chunk_count_def)
next
  case False
  then have "length (file_data f) \<le> chunk_count (length (file_data f)) * 1000000"
    using chunk_count_ceiling by simp
  then show ?thesis by (simp add: chunk_requests_bodies concat_chunks_from)
qed

text \<open>
  A file of \<open>S > 0\<close> bytes is uploaded in \<open>\<lceil>S / 1000000\<rceil>\<close>
  requests; an empty file still costs one request.
\<close>

lemma chunk_requests_length_ceiling:
  "length (chunk_requests f) =
     (if file_data f = [] then 1 else nat \<lceil>real (length (file_data f)) / 1000000\<rceil>)"
proof (cases "file_data f = []")
  case True
  then show ?thesis by (simp add: length_chunk_requests chunk_count_def)
next
  case False
  then show ?thesis by (simp add: length_chunk_requests chunk_count_real_ceiling)
qed

text \<open>
  The chunk ranges start at byte 0, end at byte \<open>S - 1\<close>, and each range
  starts right after the previous one ends.
\<close>

lemma chunk_ranges_shape:
  "chunk_ranges n \<noteq> [] \<and> fst (hd (chunk_ranges n)) = 0 \<and>
   snd (last (chunk_ranges n)) = int n - 1 \<and>
   map fst (tl (chunk_ranges n)) = map (\<lambda>r. snd r + 1) (butlast (chunk_ranges n))"
proof (intro conjI)
  have pos: "0 < chunk_count n" by (rule chunk_count_pos)
  show ne: "chunk_ranges n \<noteq> []" using pos by (simp add: chunk_ranges_def)
  show "fst (hd (chunk_ranges n)) = 0"
    using ne pos by (simp add: hd_conv_nth chunk_ranges_nth chunk_range_def)
  show "snd (last (chunk_ranges n)) = int n - 1"
    using ne pos last_chunk_range[of n] by (simp add: last_conv_nth chunk_ranges_nth)
  show "map fst (tl (chunk_ranges n)) = map (\<lambda>r. snd r + 1) (butlast (chunk_ranges n))"
  proof (rule nth_equalityI)
    show "length (map fst (tl (chunk_ranges n))) =
          length (map (\<lambda>r. snd r + 1) (butlast (chunk_ranges n)))" by simp
  next
    fix i assume "i < length (map fst (tl (chunk_ranges n)))"
    then have i: "Suc i < chunk_count n" by simp
    then have "n \<noteq> 0" by (auto simp: chunk_count_def split: if_splits)
    with i have "int (Suc i) * CHUNK_SIZE < int n" using chunk_count_iff by blast
    moreover have "i < length (butlast (chunk_ranges n))" using i by simp
    ultimately have r: "map (\<lambda>r. snd r + 1) (butlast (chunk_ranges n)) ! i = int (Suc i) * CHUNK_SIZE"
      using i by (simp add: nth_butlast chunk_ranges_nth chunk_range_def)
    have l: "map fst (tl (chunk_ranges n)) ! i = int (Suc i) * CHUNK_SIZE"
      using i by (simp add: nth_tl chunk_ranges_nth chunk_range_def)
    show "map fst (tl (chunk_ranges n)) ! i = map (\<lambda>r. snd r + 1) (butlast (chunk_ranges n)) ! i"
      by (simp only: l r)
  qed
qed

text \<open>
  Every chunk request declares a \<open>Content-Length\<close> equal to the length of
  the bytes it carries, and carries at most \<open>CHUNK_SIZE\<close> bytes.
\<close>

lemma chunk_requests_lengths:
  "list_all (\<lambda>r. header_value ''Content-Length'' r =
                    Some (string_of_int (int (length (blob_of (req_body r))))) \<and>
                  length (blob_of (req_body r)) \<le> nat CHUNK_SIZE)
            (chunk_requests f)"
proof -
  let ?n = "length (file_data f)"
  have "\<And>k. k < chunk_count ?n \<Longrightarrow>
     header_value ''Content-Length'' (chunk_requests f ! k) =
       Some (string_of_int (int (length (blob_of (req_body (chunk_requests f ! k)))))) \<and>
     length (blob_of (req_body (chunk_requests f ! k))) \<le> nat CHUNK_SIZE"
  proof -
    fix k assume k: "k < chunk_count ?n"
    have body: "blob_of (req_body (chunk_requests f ! k)) = take 1000000 (drop (k * 1000000) (file_data f))"
      using k chunk_range_body[OF k refl]
      by (simp add: chunk_requests_def chunk_ranges_nth upload_request_def case_prod_beta)
    have hdr: "header_value ''Content-Length'' (chunk_requests f ! k) =
               Some (string_of_int (int (min 1000000 (?n - k * 1000000))))"
      using k chunk_range_width[OF k]
      by (simp add: chunk_requests_def chunk_ranges_nth upload_request_def header_value_def case_prod_beta)
    show "?thesis k" using body hdr by (simp add: CHUNK_SIZE_def min.commute)
  qed
  then show ?thesis by (simp add: list_all_length length_chunk_requests)
qed

text \<open>
  C12: once the upload has resolved, the bytes the issued requests carried,
  concatenated in order, are exactly the file's bytes.
\<close>

theorem multipartUpload_roundtrip:
  "snd (multipartUpload srv f) = Inr () \<Longrightarrow>
   concat (map (\<lambda>r. blob_of (req_body r)) (fst (multipartUpload srv f))) = file_data f"
  using run_requests_success[of srv "chunk_requests f"]
  by (simp add: multipartUpload_refines chunk_requests_concat)

text \<open>
  C13: when every chunk is accepted, a file of \<open>S > 0\<close> bytes costs
  \<open>\<lceil>S / 1000000\<rceil>\<close> requests, and an empty file one request.
\<close>

theorem multipartUpload_request_count:
  "\<forall>r \<in> set (chunk_requests f). upload_response_check (srv r) = Inr () \<Longrightarrow>
   length (fst (multipartUpload srv f)) =
     (if file_data f = [] then 1 else nat \<lceil>real (length (file_data f)) / 1000000\<rceil>)"
  by (simp add: multipartUpload_refines run_requests_all_ok chunk_requests_length_ceiling)

text \<open>
  C14: whatever the server answers, the requests issued are the first ones of the
  chunk ranges; those ranges start at byte 0, end at byte \<open>S - 1\<close>, and each
  starts right after the previous one ends.
\<close>

theorem multipartUpload_ranges:
  "fst (multipartUpload srv f) =
     map (\<lambda>(s, e). upload_request f s e)
       (take (length (fst (multipartUpload srv f))) (chunk_ranges (length (file_data f)))) \<and>
   chunk_ranges (length (file_data f)) \<noteq> [] \<and>
   fst (hd (chunk_ranges (length (file_data f)))) = 0 \<and>
   snd (last (chunk_ranges (length (file_data f)))) = int (length (file_data f)) - 1 \<and>
   map fst (tl (chunk_ranges (length (file_data f)))) =
     map (\<lambda>r. snd r + 1) (butlast (chunk_ranges (length (file_data f))))"
proof -
  have "fst (multipartUpload srv f) = take (length (fst (multipartUpload srv f))) (chunk_requests f)"
    unfolding multipartUpload_refines by (rule run_requests_prefix)
  then show ?thesis
    using chunk_ranges_shape[of "length (file_data f)"] by (simp add: chunk_requests_def take_map)
qed

text \<open>
  C15: every request the upload issues declares a \<open>Content-Length\<close> equal to
  the number of bytes it carries, and carries at most \<open>CHUNK_SIZE\<close> bytes.
\<close>

theorem multipartUpload_content_length:
  "list_all (\<lambda>r. header_value ''Content-Length'' r =
                    Some (string_of_int (int (length (blob_of (req_body r))))) \<and>
                  length (blob_of (req_body r)) \<le> nat CHUNK_SIZE)
            (fst (multipartUpload srv f))"
proof -
  have "fst (multipartUpload srv f) = take (length (fst (multipartUpload srv f))) (chunk_requests f)"
    unfolding multipartUpload_refines by (rule run_requests_prefix)
  then have "set (fst (multipartUpload srv f)) \<subseteq> set (chunk_requests f)"
    by (metis set_take_subset)
  then show ?thesis using chunk_requests_lengths[of f] by (auto simp: list_all_iff)
qed

text \<open>
  C16: a file of at most \<open>CHUNK_SIZE\<close> bytes is sent as one request for the
  range \<open>0\<close> to \<open>size - 1\<close>, whatever the server answers; for an empty file
  that range is \<open>0--1\<close> and the request is still sent, where the spec's count
  \<open>\<lceil>0 / C\<rceil>\<close> would be zero.
\<close>

theorem multipartUpload_single_chunk:
  "length (file_data f) \<le> 1000000 \<Longrightarrow>
   fst (multipartUpload srv f) = [upload_request f 0 (int (length (file_data f)) - 1)]"
proof -
  assume small: "length (file_data f) \<le> 1000000"
  have "\<not> 1 < chunk_count (length (file_data f))"
  proof (cases "file_data f = []")
    case True
    then show ?thesis by (simp add: chunk_count_def)
  next
    case False
    then show ?thesis using small chunk_count_iff_nat[of "length (file_data f)" 1] by simp
  qed
  then have "chunk_count (length (file_data f)) = 1"
    using chunk_count_pos[of "length (file_data f)"] by linarith
  then have "chunk_requests f = [upload_request f 0 (int (length (file_data f)) - 1)]"
    using small by (simp add: chunk_requests_def chunk_ranges_def chunk_range_def CHUNK_SIZE_def min_def)
  then show ?thesis by (simp add: multipartUpload_refines Let_def split: sum.split)
qed

subsection \<open>Witnesses\<close>

theorem multipartUpload_all_ok_witness:
  "multipartUpload (\<lambda>_. Response \<lparr>resp_status = 200, resp_status_text = ''OK'', resp_json = Inr ()\<rparr>)
     \<lparr>file_name = ''ts.zip'', file_data = [1, 2, 3]\<rparr> =
   (chunk_requests \<lparr>file_name = ''ts.zip'', file_data = [1, 2, 3]\<rparr>, Inr ())"
  using multipartUpload_all_ok[of "\<lparr>file_name = ''ts.zip'', file_data = [1, 2, 3]\<rparr>"
          "\<lambda>_. Response \<lparr>resp_status = 200, resp_status_text = ''OK'', resp_json = Inr ()\<rparr>"]
  by (simp add: upload_response_check_def resp_ok_def)

theorem multipartUpload_first_failure_witness:
  "0 < length (chunk_requests \<lparr>file_name = ''ts.zip'', file_data = [1, 2, 3]\<rparr>) \<and>
   upload_response_check
     ((\<lambda>_. Response \<lparr>resp_status = 500, resp_status_text = ''Error'', resp_json = Inr ()\<rparr>)
        (chunk_requests \<lparr>file_name = ''ts.zip'', file_data = [1, 2, 3]\<rparr> ! 0)) =
     Inl (Error ''Failed to upload file: {}'') \<and>
   multipartUpload (\<lambda>_. Response \<lparr>resp_status = 500, resp_status_text = ''Error'', resp_json = Inr ()\<rparr>)
     \<lparr>file_name = ''ts.zip'', file_data = [1, 2, 3]\<rparr> =
   (take 1 (chunk_requests \<lparr>file_name = ''ts.zip'', file_data = [1, 2, 3]\<rparr>),
    Inl (Error ''Failed to upload file: {}''))"
  using multipartUpload_first_failure[of 0 "\<lparr>file_name = ''ts.zip'', file_data = [1, 2, 3]\<rparr>"
          "\<lambda>_. Response \<lparr>resp_status = 500, resp_status_text = ''Error'', resp_json = Inr ()\<rparr>"
          "Error ''Failed to upload file: {}''"]
  by (simp add: upload_response_check_def resp_ok_def length_chunk_requests chunk_count_pos)

theorem multipartUpload_resolves_after_last_witness:
  "snd (multipartUpload (\<lambda>_. Response \<lparr>resp_status = 204, resp_status_text = '''', resp_json = Inr ()\<rparr>)
          \<lparr>file_name = ''ts.zip'', file_data = [1, 2, 3]\<rparr>) = Inr () \<and>
   last (chunk_requests \<lparr>file_name = ''ts.zip'', file_data = [1, 2, 3]\<rparr>) =
     upload_request \<lparr>file_name = ''ts.zip'', file_data = [1, 2, 3]\<rparr> 0 2"
proof -
  have ok: "snd (multipartUpload (\<lambda>_. Response \<lparr>resp_status = 204, resp_status_text = '''', resp_json = Inr ()\<rparr>)
          \<lparr>file_name = ''ts.zip'', file_data = [1, 2, 3]\<rparr>) = Inr ()"
    by (simp add: multipartUpload_refines run_requests_all_ok upload_response_check_def resp_ok_def)
  show ?thesis
    using ok multipartUpload_resolves_after_last[OF ok]
    by (simp add: file_size_def chunk_ranges_def chunk_count_def chunk_range_def CHUNK_SIZE_def)
qed

theorem multipartUpload_roundtrip_witness:
  "snd (multipartUpload (\<lambda>_. Response \<lparr>resp_status = 200, resp_status_text = ''OK'', resp_json = Inr ()\<rparr>)
          \<lparr>file_name = ''ts.zip'', file_data = [7, 8, 9]\<rparr>) = Inr () \<and>
   concat (map (\<lambda>r. blob_of (req_body r))
     (fst (multipartUpload (\<lambda>_. Response \<lparr>resp_status = 200, resp_status_text = ''OK'', resp_json = Inr ()\<rparr>)
             \<lparr>file_name = ''ts.zip'', file_data = [7, 8, 9]\<rparr>))) = [7, 8, 9]"
proof -
  have ok: "snd (multipartUpload (\<lambda>_. Response \<lparr>resp_status = 200, resp_status_text = ''OK'', resp_json = Inr ()\<rparr>)
          \<lparr>file_name = ''ts.zip'', file_data = [7, 8, 9]\<rparr>) = Inr ()"
    by (simp add: multipartUpload_refines run_requests_all_ok upload_response_check_def resp_ok_def)
  show ?thesis using ok multipartUpload_roundtrip[OF ok] by simp
qed

theorem multipartUpload_request_count_witness:
  "length (fst (multipartUpload (\<lambda>_. Response \<lparr>resp_status = 200, resp_status_text = ''OK'', resp_json = Inr ()\<rparr>)
               \<lparr>file_name = ''big.zip'', file_data = replicate 2500000 (0 :: byte)\<rparr>)) = 3"
proof -
  have "nat \<lceil>real 2500000 / 1000000\<rceil> = 3" by simp
  then show ?thesis
    using multipartUpload_request_count[of "\<lparr>file_name = ''big.zip'', file_data = replicate 2500000 (0 :: byte)\<rparr>"
            "\<lambda>_. Response \<lparr>resp_status = 200, resp_status_text = ''OK'', resp_json = Inr ()\<rparr>"]
    by (simp add: upload_response_check_def resp_ok_def)
qed

theorem multipartUpload_single_chunk_witness:
  "length (file_data \<lparr>file_name = ''empty.zip'', file_data = []\<rparr>) \<le> 1000000 \<and>
   map (header_value ''Content-Range'')
     (fst (multipartUpload (\<lambda>_. Net_Error ''offline'' :: unit fetch_outcome)
             \<lparr>file_name = ''empty.zip'', file_data = []\<rparr>)) = [Some ''0--1/0'']"
  using multipartUpload_single_chunk[of "\<lparr>file_name = ''empty.zip'', file_data = []\<rparr>"
          "\<lambda>_. Net_Error ''offline'' :: unit fetch_outcome"]
  by (simp add: upload_request_def header_value_def string_of_int_def string_of_nat.simps file_size_def)

end
