(* ===== verification/Router.thy ===== *)
theory Router
  imports Http
begin

text \<open>
  The hash router of \<open>app.js\<close> (lines 160-231). The route table and the
  navigation titles are plain objects filled at startup by \<open>route\<close> and
  \<open>addRouteToHeader\<close>; they are association lists here, updated by
  \<open>obj_set\<close>. A controller is left abstract (the type variable \<open>'c\<close>):
  the router only looks it up and calls it; what a controller does is modelled
  by its own theory.

  \<open>router\<close> is one call of the \<open>hashchange\<close>/\<open>load\<close> listener: it parses the
  hash, redraws the navigation bar, clears the content region and either reports
  an unknown route or instantiates the page template, hides content and nav bar,
  calls the controller and registers the \<open>finally\<close> continuation that shows
  them again. A registered continuation is a pending navigation: its id and the
  nav-bar display value captured when the router ran. The \<open>Settle\<close> event is
  the controller's promise settling (fulfilled or rejected: \<open>finally\<close> runs in
  both cases), which runs that continuation.
\<close>

subsection \<open>Route table and navigation titles\<close>

record 'c route_info =
  pageName :: string
  pageFunc :: "'c option"

definition route ::
  "(string \<times> 'c route_info) list \<Rightarrow> string \<Rightarrow> string \<Rightarrow> 'c option \<Rightarrow>
   (string \<times> 'c route_info) list" where
  "route routes path name func = obj_set routes path \<lparr>pageName = name, pageFunc = func\<rparr>"

definition addRouteToHeader ::
  "(string \<times> string) list \<Rightarrow> string \<Rightarrow> string \<Rightarrow> (string \<times> string) list" where
  "addRouteToHeader navTitles topRoute title = obj_set navTitles topRoute title"

text \<open>
  Property lookup \<open>routes[key]\<close> on an object created by \<open>{}\<close>: an own
  property, or a property inherited from \<open>Object.prototype\<close> (truthy, with no
  \<open>pageName\<close>), or \<open>undefined\<close>.
\<close>

datatype 'c lookup = Own "'c route_info" | Inherited | Missing

definition object_prototype_keys :: "string list" where
  "object_prototype_keys =
     [''constructor'', ''__defineGetter__'', ''__defineSetter__'', ''hasOwnProperty'',
      ''__lookupGetter__'', ''__lookupSetter__'', ''isPrototypeOf'', ''propertyIsEnumerable'',
      ''toString'', ''valueOf'', ''__proto__'', ''toLocaleString'']"

definition obj_get :: "(string \<times> 'c route_info) list \<Rightarrow> string \<Rightarrow> 'c lookup" where
  "obj_get routes k =
     (case map_of routes k of
        Some info \<Rightarrow> Own info
      | None \<Rightarrow> if k \<in> set object_prototype_keys then Inherited else Missing)"

subsection \<open>Parsing the hash\<close>

text \<open>
  \<open>rawUrl.replace(/\/application.*?\/edit/, '')\<close>: the leftmost occurrence of
  \<open>/application\<close> followed, through the shortest run of characters other than
  line terminators, by \<open>/edit\<close> is removed; only the first match is replaced.
\<close>

definition starts_with :: "string \<Rightarrow> string \<Rightarrow> bool" where
  "starts_with p s \<longleftrightarrow> take (length p) s = p"

definition line_terminator :: "char \<Rightarrow> bool" where
  "line_terminator c \<longleftrightarrow> c = CHR 0x0A \<or> c = CHR 0x0D"

fun find_edit :: "string \<Rightarrow> nat option" where
  "find_edit s =
     (if starts_with ''/edit'' s then Some 0
      else (case s of
              [] \<Rightarrow> None
            | c # cs \<Rightarrow> if line_terminator c then None else map_option Suc (find_edit cs)))"

fun strip_app_edit :: "string \<Rightarrow> string" where
  "strip_app_edit [] = []"
| "strip_app_edit (c # cs) =
     (if starts_with ''/application'' (c # cs) then
        (case find_edit (drop 12 (c # cs)) of
           Some j \<Rightarrow> drop (12 + j + 5) (c # cs)
         | None \<Rightarrow> c # strip_app_edit cs)
      else c # strip_app_edit cs)"

definition raw_url :: "string \<Rightarrow> string" where
  "raw_url hash = js_slice hash 1 (int (length hash))"

definition url_of :: "string \<Rightarrow> string" where
  "url_of hash = strip_app_edit (raw_url hash)"

definition url_parts :: "string \<Rightarrow> string list" where
  "url_parts hash = split_on CHR ''/'' (url_of hash)"

definition route_key :: "string \<Rightarrow> string" where
  "route_key hash = hd (url_parts hash)"

definition route_arg :: "string \<Rightarrow> string" where
  "route_arg hash = join_with CHR ''/'' (tl (url_parts hash))"

subsection \<open>Router state and the listener\<close>

datatype nav_item = NavLink string string | NavSelected string

datatype content = Cleared | Text string | Page string

record 'c router_config =
  routes :: "(string \<times> 'c route_info) list"
  navTitles :: "(string \<times> string) list"
  page_templates :: "string list"

record 'c router_state =
  nav_items :: "nav_item list"
  nav_display :: string
  app_content :: content
  app_display :: string
  console_errors :: "string list"
  uncaught :: "js_error list"
  invoked :: "('c option \<times> string) list"
  pending :: "(nat \<times> string) list"
  next_nav :: nat

definition render_nav :: "(string \<times> string) list \<Rightarrow> string \<Rightarrow> nav_item list" where
  "render_nav titles key =
     map (\<lambda>(k, t). if k \<noteq> key then NavLink (''#'' @ k) t else NavSelected t) titles"

definition not_found_msg :: "(string \<times> 'c route_info) list \<Rightarrow> string \<Rightarrow> string" where
  "not_found_msg rs hash =
     ''Could not find route info for url: '' @ url_of hash @ '' (raw was '' @ raw_url hash @
     '', routes: '' @ join_with CHR '','' (map fst rs) @ '')''"

definition router :: "'c router_config \<Rightarrow> string \<Rightarrow> 'c router_state \<Rightarrow> 'c router_state" where
  "router cfg hash s =
     (let key = route_key hash;
          navBarDisplay = nav_display s;
          s1 = s\<lparr>nav_items := render_nav (navTitles cfg) key, app_content := Cleared\<rparr>
      in case obj_get (routes cfg) key of
           Missing \<Rightarrow>
             (let msg = not_found_msg (routes cfg) hash
              in s1\<lparr>app_content := Text msg, console_errors := console_errors s @ [msg]\<rparr>)
         | Inherited \<Rightarrow>
             s1\<lparr>uncaught := uncaught s @ [TypeError ''Cannot read properties of null (reading 'content')'']\<rparr>
         | Own info \<Rightarrow>
             if pageName info \<notin> set (page_templates cfg) then
               s1\<lparr>uncaught := uncaught s @ [TypeError ''Cannot read properties of null (reading 'content')'']\<rparr>
             else
               s1\<lparr>app_content := Page (pageName info), app_display := ''none'', nav_display := ''none'',
                  invoked := invoked s @ [(pageFunc info, route_arg hash)],
                  pending := pending s @ [(next_nav s, navBarDisplay)],
                  next_nav := Suc (next_nav s)\<rparr>)"

text \<open>The \<open>finally\<close> continuation of navigation \<open>i\<close>, when its controller's promise settles.\<close>

definition settle :: "nat \<Rightarrow> 'c router_state \<Rightarrow> 'c router_state" where
  "settle i s =
     (case map_of (pending s) i of
        None \<Rightarrow> s
      | Some d \<Rightarrow> s\<lparr>app_display := ''block'', nav_display := d,
                   pending := filter (\<lambda>p. fst p \<noteq> i) (pending s)\<rparr>)"

datatype event = Navigate string | Settle nat

primrec router_step :: "'c router_config \<Rightarrow> event \<Rightarrow> 'c router_state \<Rightarrow> 'c router_state" where
  "router_step cfg (Navigate h) s = router cfg h s"
| "router_step cfg (Settle i) s = settle i s"

fun router_run :: "'c router_config \<Rightarrow> event list \<Rightarrow> 'c router_state \<Rightarrow> 'c router_state" where
  "router_run cfg [] s = s"
| "router_run cfg (e # es) s = router_run cfg es (router_step cfg e s)"

subsection \<open>The startup configuration\<close>

text \<open>
  The controllers the startup code registers (the \<open>pageFunc\<close> arguments of the
  six \<open>route\<close> calls), named so that the router's table can be written out.
\<close>

datatype page_controller =
    AppsController | CreateController | ModifyController | TasksController
  | ApiController | TemplatesController

definition startup_navTitles :: "(string \<times> string) list" where
  "startup_navTitles =
     addRouteToHeader
       (addRouteToHeader
         (addRouteToHeader
           (addRouteToHeader
             (addRouteToHeader [] '''' ''Application List'')
             ''create'' ''Deploy'')
           ''templates'' ''Templates'')
         ''tasks'' ''Deploy Log'')
       ''api'' ''API''"

definition startup_routes :: "(string \<times> page_controller route_info) list" where
  "startup_routes =
     route
       (route
         (route
           (route
             (route
               (route [] '''' ''apps'' (Some AppsController))
               ''create'' ''create'' (Some CreateController))
             ''modify'' ''create'' (Some ModifyController))
           ''tasks'' ''tasks'' (Some TasksController))
         ''api'' ''api'' (Some ApiController))
       ''templates'' ''templates'' (Some TemplatesController)"

text \<open>
  The page templates live in the HTML page, not in the script; the router's
  configuration takes the ids it can find as a parameter.
\<close>

definition startup_config :: "string list \<Rightarrow> page_controller router_config" where
  "startup_config pages =
     \<lparr>routes = startup_routes, navTitles = startup_navTitles, page_templates = pages\<rparr>"

definition console_pages :: "string list" where
  "console_pages = [''apps'', ''create'', ''tasks'', ''api'', ''templates'']"

fun has_infix :: "string \<Rightarrow> string \<Rightarrow> bool" where
  "has_infix p [] = (p = [])"
| "has_infix p (c # cs) = (starts_with p (c # cs) \<or> has_infix p cs)"

definition init_state :: "string \<Rightarrow> string \<Rightarrow> 'c router_state" where
  "init_state d0 a0 =
     \<lparr>nav_items = [], nav_display = d0, app_content = Cleared, app_display = a0,
      console_errors = [], uncaught = [], invoked = [], pending = [], next_nav = 0\<rparr>"

definition ids_fresh :: "'c router_state \<Rightarrow> bool" where
  "ids_fresh s \<longleftrightarrow> list_all (\<lambda>p. fst p < next_nav s) (pending s)"

subsection \<open>The three outcomes of a navigation\<close>

lemma router_own:
  "obj_get (routes cfg) (route_key h) = Own info \<Longrightarrow> pageName info \<in> set (page_templates cfg) \<Longrightarrow>
   router cfg h s =
     s\<lparr>nav_items := render_nav (navTitles cfg) (route_key h), app_content := Page (pageName info),
       app_display := ''none'', nav_display := ''none'',
       invoked := invoked s @ [(pageFunc info, route_arg h)],
       pending := pending s @ [(next_nav s, nav_display s)], next_nav := Suc (next_nav s)\<rparr>"
  by (simp add: router_def Let_def)

lemma router_missing:
  "obj_get (routes cfg) (route_key h) = Missing \<Longrightarrow>
   router cfg h s =
     s\<lparr>nav_items := render_nav (navTitles cfg) (route_key h),
       app_content := Text (not_found_msg (routes cfg) h),
       console_errors := console_errors s @ [not_found_msg (routes cfg) h]\<rparr>"
  by (simp add: router_def Let_def)

lemma router_crash:
  "obj_get (routes cfg) (route_key h) = Inherited \<or>
   (\<exists>info. obj_get (routes cfg) (route_key h) = Own info \<and> pageName info \<notin> set (page_templates cfg)) \<Longrightarrow>
   router cfg h s =
     s\<lparr>nav_items := render_nav (navTitles cfg) (route_key h), app_content := Cleared,
       uncaught := uncaught s @ [TypeError ''Cannot read properties of null (reading 'content')'']\<rparr>"
  by (auto simp: router_def Let_def)

lemma router_cases:
  obtains (own) info where "obj_get (routes cfg) (route_key h) = Own info"
      "pageName info \<in> set (page_templates cfg)"
  | (missing) "obj_get (routes cfg) (route_key h) = Missing"
  | (crash) "obj_get (routes cfg) (route_key h) = Inherited \<or>
      (\<exists>info. obj_get (routes cfg) (route_key h) = Own info \<and> pageName info \<notin> set (page_templates cfg))"
  by (cases "obj_get (routes cfg) (route_key h)") auto

lemma settle_pending:
  "map_of (pending s) i = Some d \<Longrightarrow>
   settle i s = s\<lparr>app_display := ''block'', nav_display := d,
                   pending := filter (\<lambda>p. fst p \<noteq> i) (pending s)\<rparr>"
  by (simp add: settle_def)

lemma settle_other: "map_of (pending s) i = None \<Longrightarrow> settle i s = s"
  by (simp add: settle_def)

lemma ids_fresh_step: "ids_fresh s \<Longrightarrow> ids_fresh (router_step cfg e s)"
proof (cases e)
  case (Navigate h)
  assume "ids_fresh s"
  then show ?thesis using Navigate
    by (cases rule: router_cases[of cfg h])
       (auto simp: ids_fresh_def router_own router_missing router_crash list_all_iff)
next
  case (Settle i)
  assume "ids_fresh s"
  then show ?thesis using Settle
    by (cases "map_of (pending s) i")
       (auto simp: ids_fresh_def settle_pending settle_other list_all_iff)
qed

lemma ids_fresh_run: "ids_fresh s \<Longrightarrow> ids_fresh (router_run cfg es s)"
  by (induction es arbitrary: s) (auto simp: ids_fresh_step)

lemma map_of_fresh_append:
  "list_all (\<lambda>p. fst p < (n :: nat)) ps \<Longrightarrow> map_of (ps @ [(n, d)]) n = Some d"
  by (induction ps) auto

lemma filter_fresh:
  "list_all (\<lambda>p. fst p < (n :: nat)) ps \<Longrightarrow> filter (\<lambda>p. fst p \<noteq> n) ps = ps"
  by (induction ps) auto

lemma filter_fresh_append:
  "list_all (\<lambda>p. fst p < (n :: nat)) ps \<Longrightarrow> filter (\<lambda>p. fst p \<noteq> n) (ps @ [(n, d)]) = ps"
  by (simp add: filter_fresh)

lemma strip_app_edit_id: "\<not> has_infix ''/application'' s \<Longrightarrow> strip_app_edit s = s"
  by (induction s) auto

lemma raw_url_hash: "raw_url (CHR ''#'' # u) = u"
  by (simp add: raw_url_def js_slice_def js_rel_index_def)

lemma split_on_append_sep:
  "c \<notin> set k \<Longrightarrow> split_on c (k @ c # a) = k # split_on c a"
  by (induction k) auto

lemma router_run_append:
  "router_run cfg (es1 @ es2) s = router_run cfg es2 (router_run cfg es1 s)"
  by (induction es1 arbitrary: s) auto

lemma nav_items_router: "nav_items (router cfg h s) = render_nav (navTitles cfg) (route_key h)"
  by (cases rule: router_cases[of cfg h]) (auto simp: router_own router_missing router_crash)

lemma nav_hidden_step:
  "nav_display s = ''none'' \<Longrightarrow> list_all (\<lambda>p. snd p = ''none'') (pending s) \<Longrightarrow>
   nav_display (router_step cfg e s) = ''none'' \<and>
   list_all (\<lambda>p. snd p = ''none'') (pending (router_step cfg e s))"
proof (cases e)
  case (Navigate h)
  assume "nav_display s = ''none''" "list_all (\<lambda>p. snd p = ''none'') (pending s)"
  then show ?thesis using Navigate
    by (cases rule: router_cases[of cfg h]) (auto simp: router_own router_missing router_crash)
next
  case (Settle i)
  assume a: "nav_display s = ''none''" "list_all (\<lambda>p. snd p = ''none'') (pending s)"
  show ?thesis
  proof (cases "map_of (pending s) i")
    case None
    with a Settle show ?thesis by (simp add: settle_other)
  next
    case (Some d)
    then have "(i, d) \<in> set (pending s)" by (rule map_of_SomeD)
    with a have "d = ''none''" by (auto simp: list_all_iff)
    with a Some Settle show ?thesis by (auto simp: settle_pending list_all_iff)
  qed
qed

lemma nav_hidden_run:
  "nav_display s = ''none'' \<Longrightarrow> list_all (\<lambda>p. snd p = ''none'') (pending s) \<Longrightarrow>
   nav_display (router_run cfg es s) = ''none''"
proof (induction es arbitrary: s)
  case Nil
  then show ?case by simp
next
  case (Cons e es)
  then show ?case using nav_hidden_step[OF Cons.prems] by simp
qed

definition seq_inv :: "string \<Rightarrow> 'c router_state \<Rightarrow> bool" where
  "seq_inv d0 s \<longleftrightarrow>
     (case pending s of
        [] \<Rightarrow> nav_display s = d0 \<and> app_display s \<noteq> ''none''
      | [p] \<Rightarrow> snd p = d0 \<and> nav_display s = ''none'' \<and> app_display s = ''none''
      | _ \<Rightarrow> False)"

inductive seq_reach :: "'c router_config \<Rightarrow> string \<Rightarrow> string \<Rightarrow> 'c router_state \<Rightarrow> bool"
  for cfg d0 a0 where
  start: "seq_reach cfg d0 a0 (init_state d0 a0)"
| navigate: "seq_reach cfg d0 a0 s \<Longrightarrow> pending s = [] \<Longrightarrow> seq_reach cfg d0 a0 (router cfg h s)"
| settled: "seq_reach cfg d0 a0 s \<Longrightarrow> seq_reach cfg d0 a0 (settle i s)"

lemma seq_inv_router:
  "seq_inv d0 s \<Longrightarrow> pending s = [] \<Longrightarrow> seq_inv d0 (router cfg h s)"
  by (cases rule: router_cases[of cfg h])
     (auto simp: seq_inv_def router_own router_missing router_crash)

lemma seq_inv_settle: "seq_inv d0 s \<Longrightarrow> seq_inv d0 (settle i s)"
  by (cases "map_of (pending s) i")
     (auto simp: seq_inv_def settle_other settle_pending split: list.splits if_splits)

lemma seq_reach_inv: "seq_reach cfg d0 a0 s \<Longrightarrow> a0 \<noteq> ''none'' \<Longrightarrow> seq_inv d0 s"
proof (induction rule: seq_reach.induct)
  case start
  then show ?case by (simp add: seq_inv_def init_state_def)
next
  case (navigate s h)
  then show ?case by (simp add: seq_inv_router)
next
  case (settled s i)
  then show ?case by (simp add: seq_inv_settle)
qed

subsection \<open>Properties of the router\<close>

text \<open>
  C1: navigating to a hash whose top-level segment is a registered route (with
  its page template present) invokes exactly that route's controller, once, with
  the rest of the path as argument; the page template is instantiated, content
  and nav bar are hidden, and the \<open>finally\<close> continuation is registered with
  the nav bar's display captured before hiding it.
\<close>

theorem router_known_route:
  "obj_get (routes cfg) (route_key h) = Own info \<Longrightarrow> pageName info \<in> set (page_templates cfg) \<Longrightarrow>
   invoked (router cfg h s) = invoked s @ [(pageFunc info, route_arg h)] \<and>
   app_content (router cfg h s) = Page (pageName info) \<and>
   app_display (router cfg h s) = ''none'' \<and> nav_display (router cfg h s) = ''none'' \<and>
   pending (router cfg h s) = pending s @ [(next_nav s, nav_display s)]"
  by (simp add: router_own)

text \<open>
  C2: navigating to an unregistered route invokes no controller and registers no
  continuation: the content region shows the "Could not find route info" message,
  which is also logged as a console error.
\<close>

theorem router_unknown_route:
  "obj_get (routes cfg) (route_key h) = Missing \<Longrightarrow>
   invoked (router cfg h s) = invoked s \<and> pending (router cfg h s) = pending s \<and>
   app_content (router cfg h s) = Text (not_found_msg (routes cfg) h) \<and>
   console_errors (router cfg h s) = console_errors s @ [not_found_msg (routes cfg) h]"
  by (simp add: router_missing)

text \<open>
  C3: when the controller's promise settles (fulfilled or rejected), the
  content region is shown again and the nav bar gets back the display it had
  before the navigation; the continuation is consumed.
\<close>

theorem router_settle_restores:
  "ids_fresh s \<Longrightarrow>
   obj_get (routes cfg) (route_key h) = Own info \<Longrightarrow> pageName info \<in> set (page_templates cfg) \<Longrightarrow>
   app_display (settle (next_nav s) (router cfg h s)) = ''block'' \<and>
   nav_display (settle (next_nav s) (router cfg h s)) = nav_display s \<and>
   pending (settle (next_nav s) (router cfg h s)) = pending s"
proof -
  assume f: "ids_fresh s"
    and r: "obj_get (routes cfg) (route_key h) = Own info" "pageName info \<in> set (page_templates cfg)"
  let ?t = "router cfg h s"
  have p: "pending ?t = pending s @ [(next_nav s, nav_display s)]" using r by (simp add: router_own)
  have "map_of (pending ?t) (next_nav s) = Some (nav_display s)"
    using f p by (simp add: ids_fresh_def map_of_fresh_append del: map_of_append)
  then have "settle (next_nav s) ?t =
      ?t\<lparr>app_display := ''block'', nav_display := nav_display s,
          pending := filter (\<lambda>p. fst p \<noteq> next_nav s) (pending ?t)\<rparr>"
    by (rule settle_pending)
  then show ?thesis using f p by (simp add: ids_fresh_def filter_fresh)
qed

text \<open>
  C4: as long as every navigation waits for the previous controller to settle,
  the content region is hidden exactly while a controller is pending, at most one
  controller is pending, and with none pending the nav bar has its original display.
\<close>

theorem sequential_navigation_invariant:
  "seq_reach cfg d0 a0 s \<Longrightarrow> a0 \<noteq> ''none'' \<Longrightarrow>
   (app_display s = ''none'' \<longleftrightarrow> pending s \<noteq> []) \<and> length (pending s) \<le> 1 \<and>
   (pending s = [] \<longrightarrow> nav_display s = d0)"
proof -
  assume "seq_reach cfg d0 a0 s" "a0 \<noteq> ''none''"
  then have "seq_inv d0 s" by (rule seq_reach_inv)
  then show ?thesis by (auto simp: seq_inv_def split: list.splits)
qed

text \<open>
  C5: navigations are not cancelled. Two overlapping navigations to registered
  routes, the first settling first, show the content region while the second
  controller is still pending, and then leave the nav bar hidden for good: the
  second navigation captured the display value \<open>none\<close> and every later
  navigation captures it again.
\<close>

theorem overlapping_navigations_hide_nav_bar:
  "obj_get (routes cfg) (route_key h1) = Own i1 \<Longrightarrow> pageName i1 \<in> set (page_templates cfg) \<Longrightarrow>
   obj_get (routes cfg) (route_key h2) = Own i2 \<Longrightarrow> pageName i2 \<in> set (page_templates cfg) \<Longrightarrow>
   app_display (router_run cfg [Navigate h1, Navigate h2, Settle 0] (init_state d0 a0)) = ''block'' \<and>
   pending (router_run cfg [Navigate h1, Navigate h2, Settle 0] (init_state d0 a0)) \<noteq> [] \<and>
   nav_display (router_run cfg ([Navigate h1, Navigate h2, Settle 0, Settle 1] @ es) (init_state d0 a0)) = ''none''"
proof -
  assume r: "obj_get (routes cfg) (route_key h1) = Own i1" "pageName i1 \<in> set (page_templates cfg)"
    "obj_get (routes cfg) (route_key h2) = Own i2" "pageName i2 \<in> set (page_templates cfg)"
  let ?s = "router_run cfg [Navigate h1, Navigate h2, Settle 0, Settle 1] (init_state d0 a0)"
  have three: "app_display (router_run cfg [Navigate h1, Navigate h2, Settle 0] (init_state d0 a0)) = ''block'' \<and>
     pending (router_run cfg [Navigate h1, Navigate h2, Settle 0] (init_state d0 a0)) \<noteq> []"
    using r by (simp add: router_own settle_def init_state_def)
  have "nav_display ?s = ''none'' \<and> pending ?s = []"
    using r by (simp add: router_own settle_def init_state_def)
  then have "nav_display (router_run cfg es ?s) = ''none''" by (simp add: nav_hidden_run)
  with three show ?thesis by (simp add: router_run_append)
qed

text \<open>
  C6: the route table is a plain object, so a hash naming a property of
  \<open>Object.prototype\<close> (such as \<open>#constructor\<close>) is found as a route. The router
  then throws a \<open>TypeError\<close> after clearing the content region: no controller
  runs, and no "Could not find route" message is shown or logged.
\<close>

theorem router_prototype_key:
  "route_key h \<in> set object_prototype_keys \<Longrightarrow> map_of (routes cfg) (route_key h) = None \<Longrightarrow>
   invoked (router cfg h s) = invoked s \<and> pending (router cfg h s) = pending s \<and>
   app_content (router cfg h s) = Cleared \<and> console_errors (router cfg h s) = console_errors s \<and>
   uncaught (router cfg h s) = uncaught s @ [TypeError ''Cannot read properties of null (reading 'content')'']"
proof -
  assume "route_key h \<in> set object_prototype_keys" "map_of (routes cfg) (route_key h) = None"
  then have "obj_get (routes cfg) (route_key h) = Inherited" by (simp add: obj_get_def)
  then show ?thesis by (simp add: router_crash)
qed

text \<open>
  C7: every navigation, to a known route or not, redraws the nav bar with one
  entry per title in insertion order: the entry of the current top-level
  segment is the only one rendered as selected, every other one is a link to
  \<open>#key\<close>.
\<close>

theorem router_nav_bar:
  "distinct (map fst (navTitles cfg)) \<Longrightarrow>
   nav_items (router cfg h s) =
     map (\<lambda>(k, t). if k = route_key h then NavSelected t else NavLink (''#'' @ k) t) (navTitles cfg) \<and>
   filter (\<lambda>i. case i of NavSelected _ \<Rightarrow> True | NavLink _ _ \<Rightarrow> False) (nav_items (router cfg h s)) =
     (case map_of (navTitles cfg) (route_key h) of None \<Rightarrow> [] | Some t \<Rightarrow> [NavSelected t])"
proof -
  assume d: "distinct (map fst (navTitles cfg))"
  have sel: "filter (\<lambda>i. case i of NavSelected _ \<Rightarrow> True | NavLink _ _ \<Rightarrow> False) (render_nav ts k) =
             (case map_of ts k of None \<Rightarrow> [] | Some t \<Rightarrow> [NavSelected t])"
    if "distinct (map fst ts)" for ts :: "(string \<times> string) list" and k
    using that by (induction ts) (force simp: render_nav_def split: option.splits)+
  show ?thesis using sel[OF d] by (auto simp: nav_items_router render_nav_def)
qed

text \<open>
  C8: hash parsing: for \<open>#key/rest\<close> with no \<open>/application\<close> in it, the
  route looked up is \<open>key\<close> and the controller's argument is \<open>rest\<close>, with its
  own slashes kept; splitting and re-joining loses nothing.
\<close>

theorem route_key_arg_roundtrip:
  "CHR ''/'' \<notin> set k \<Longrightarrow> \<not> has_infix ''/application'' (k @ CHR ''/'' # a) \<Longrightarrow>
   route_key (CHR ''#'' # k @ CHR ''/'' # a) = k \<and> route_arg (CHR ''#'' # k @ CHR ''/'' # a) = a"
  by (simp add: route_key_def route_arg_def url_parts_def url_of_def raw_url_hash
                strip_app_edit_id split_on_append_sep join_split_on)

subsection \<open>Witnesses\<close>

lemmas router_eval =
  startup_config_def startup_routes_def route_def startup_navTitles_def addRouteToHeader_def
  console_pages_def route_key_def route_arg_def url_parts_def url_of_def raw_url_hash
  starts_with_def obj_get_def object_prototype_keys_def init_state_def

theorem router_known_route_witness:
  "invoked (router (startup_config console_pages) ''#modify/t1/app1'' (init_state '''' '''')) =
     [(Some ModifyController, ''t1/app1'')] \<and>
   app_display (router (startup_config console_pages) ''#modify/t1/app1'' (init_state '''' '''')) = ''none''"
  using router_known_route[of "startup_config console_pages" "''#modify/t1/app1''"
          "\<lparr>pageName = ''create'', pageFunc = Some ModifyController\<rparr>" "init_state '''' ''''"]
  by (simp add: router_eval)

theorem router_unknown_route_witness:
  "invoked (router (startup_config console_pages) ''#nowhere'' (init_state '''' '''')) = [] \<and>
   console_errors (router (startup_config console_pages) ''#nowhere'' (init_state '''' '''')) =
     [not_found_msg startup_routes ''#nowhere'']"
  using router_unknown_route[of "startup_config console_pages" "''#nowhere''" "init_state '''' ''''"]
  by (simp add: router_eval)

theorem router_settle_restores_witness:
  "nav_display (settle 0 (router (startup_config console_pages) ''#tasks'' (init_state ''flex'' ''''))) = ''flex'' \<and>
   app_display (settle 0 (router (startup_config console_pages) ''#tasks'' (init_state ''flex'' ''''))) = ''block''"
  using router_settle_restores[of "init_state ''flex'' ''''" "startup_config console_pages" "''#tasks''"
          "\<lparr>pageName = ''tasks'', pageFunc = Some TasksController\<rparr>"]
  by (simp add: router_eval ids_fresh_def)

theorem sequential_navigation_invariant_witness:
  "app_display (router (startup_config console_pages) ''#tasks'' (init_state ''flex'' '''')) = ''none'' \<and>
   pending (router (startup_config console_pages) ''#tasks'' (init_state ''flex'' '''')) \<noteq> []"
proof -
  have r: "seq_reach (startup_config console_pages) ''flex'' ''''
             (router (startup_config console_pages) ''#tasks'' (init_state ''flex'' ''''))"
    by (rule seq_reach.navigate[OF seq_reach.start]) (simp add: init_state_def)
  have "app_display (router (startup_config console_pages) ''#tasks'' (init_state ''flex'' '''')) = ''none''"
    by (simp add: router_eval router_def Let_def)
  then show ?thesis using sequential_navigation_invariant[OF r] by simp
qed

theorem overlapping_navigations_hide_nav_bar_witness:
  "nav_display (router_run (startup_config console_pages)
     [Navigate ''#tasks'', Navigate ''#create'', Settle 0, Settle 1, Navigate ''#api'', Settle 2]
     (init_state ''flex'' '''')) = ''none''"
  using overlapping_navigations_hide_nav_bar[of "startup_config console_pages" "''#tasks''"
          "\<lparr>pageName = ''tasks'', pageFunc = Some TasksController\<rparr>" "''#create''"
          "\<lparr>pageName = ''create'', pageFunc = Some CreateController\<rparr>" "''flex''" "''''"
          "[Navigate ''#api'', Settle 2]"]
  by (simp add: router_eval)

theorem router_prototype_key_witness:
  "invoked (router (startup_config console_pages) ''#constructor'' (init_state '''' '''')) = [] \<and>
   console_errors (router (startup_config console_pages) ''#constructor'' (init_state '''' '''')) = [] \<and>
   app_content (router (startup_config console_pages) ''#constructor'' (init_state '''' '''')) = Cleared"
  using router_prototype_key[of "''#constructor''" "startup_config console_pages" "init_state '''' ''''"]
  by (simp add: router_eval)

theorem router_nav_bar_witness:
  "nav_items (router (startup_config console_pages) ''#tasks'' (init_state '''' '''')) =
     [NavLink ''#'' ''Application List'', NavLink ''#create'' ''Deploy'',
      NavLink ''#templates'' ''Templates'', NavSelected ''Deploy Log'', NavLink ''#api'' ''API'']"
  using router_nav_bar[of "startup_config console_pages" "''#tasks''" "init_state '''' ''''"]
  by (simp add: router_eval)

theorem route_key_arg_roundtrip_witness:
  "route_key ''#modify/tenant/app'' = ''modify'' \<and> route_arg ''#modify/tenant/app'' = ''tenant/app''"
  using route_key_arg_roundtrip[of "''modify''" "''tenant/app''"]
  by (simp add: starts_with_def)

end
