(* ===== verification/Tasks.thy ===== *)
theory Tasks
  imports Http
begin

text \<open>
  The tasks page (\<open>app.js\<close> lines 356-402). \<open>renderTaskList\<close> fetches
  \<open>/tasks\<close>, redraws the task list, and when some task's message is the literal
  \<open>in progress\<close> schedules itself again after 5000 ms. The timer is never
  cancelled, so the loop is unbounded: it is \<open>poll\<close>, a
  \<open>partial_function (option)\<close> over the rounds \<open>k, k+1, ...\<close>, where
  \<open>None\<close> is polling forever. The backend's answer may change between rounds:
  round \<open>k\<close> asks the server \<open>srvs k\<close>; whether the \<open>task-list\<close> element
  still exists when round \<open>k\<close> renders (the user may have left the page) is
  \<open>present k\<close>.
\<close>

record task =
  task_id :: string
  task_tenant :: string
  task_application :: string
  task_message :: string

definition task_header :: "list_elem list" where
  "task_header = [Header [''Task ID'', ''Tenant'', ''Result''], Divider False]"

fun task_rows :: "nat \<Rightarrow> task list \<Rightarrow> list_elem list" where
  "task_rows count [] = []"
| "task_rows count (t # ts) =
     Row (odd (Suc count)) [task_id t, task_tenant t @ ''/'' @ task_application t, task_message t] #
     Divider False # task_rows (Suc count) ts"

definition render_tasks :: "task list \<Rightarrow> list_elem list" where
  "render_tasks ts = task_header @ task_rows 0 ts"

definition inProgressJob :: "task list \<Rightarrow> bool" where
  "inProgressJob ts \<longleftrightarrow> filter (\<lambda>x. task_message x = ''in progress'') ts \<noteq> []"

text \<open>
  The \<open>.then\<close> handler of one round: with the element present it yields the new
  content of the task list and whether \<open>setTimeout(renderTaskList, 5000)\<close> was
  called; without it, \<open>taskList.innerHTML = ...\<close> throws.
\<close>

definition task_list_then :: "bool \<Rightarrow> task list \<Rightarrow> js_error + (list_elem list \<times> bool)" where
  "task_list_then present ts =
     (if \<not> present then Inl (TypeError ''Cannot set properties of null (setting 'innerHTML')'')
      else Inr (render_tasks ts, inProgressJob ts))"

partial_function (option) poll ::
  "(nat \<Rightarrow> task list server) \<Rightarrow> (nat \<Rightarrow> bool) \<Rightarrow> nat \<Rightarrow> (list_elem list list \<times> js_error option) option"
where
  "poll srvs present k =
     (case getJSON (srvs k) ''tasks'' of
        Inl e \<Rightarrow> Some ([], Some e)
      | Inr ts \<Rightarrow>
          (case task_list_then (present k) ts of
             Inl e \<Rightarrow> Some ([], Some e)
           | Inr (view, again) \<Rightarrow>
               if again then Option.bind (poll srvs present (Suc k)) (\<lambda>(vs, r). Some (view # vs, r))
               else Some ([view], None)))"

text \<open>
  The promise the controller returns to the router is the first round's:
  it settles after round 0, whatever the later rounds do.
\<close>

definition tasks_controller :: "(nat \<Rightarrow> task list server) \<Rightarrow> (nat \<Rightarrow> bool) \<Rightarrow> js_error + list_elem list" where
  "tasks_controller srvs present =
     (case getJSON (srvs 0) ''tasks'' of
        Inl e \<Rightarrow> Inl e
      | Inr ts \<Rightarrow> (case task_list_then (present 0) ts of Inl e \<Rightarrow> Inl e | Inr (view, _) \<Rightarrow> Inr view))"

definition poll_stops :: "(nat \<Rightarrow> task list server) \<Rightarrow> (nat \<Rightarrow> bool) \<Rightarrow> nat \<Rightarrow> bool" where
  "poll_stops srvs present j \<longleftrightarrow>
     (case getJSON (srvs j) ''tasks'' of
        Inl _ \<Rightarrow> True
      | Inr ts \<Rightarrow> \<not> present j \<or> \<not> inProgressJob ts)"

lemma inProgressJob_iff: "inProgressJob ts \<longleftrightarrow> (\<exists>t \<in> set ts. task_message t = ''in progress'')"
  by (auto simp: inProgressJob_def filter_empty_conv)

lemma poll_stop_step:
  "poll_stops srvs present k \<Longrightarrow> \<exists>r. poll srvs present k = Some r"
  by (subst poll.simps) (auto simp: poll_stops_def task_list_then_def split: sum.splits)

lemma poll_continue_step:
  "\<not> poll_stops srvs present k \<Longrightarrow>
   \<exists>ts. getJSON (srvs k) ''tasks'' = Inr ts \<and> present k \<and> inProgressJob ts \<and>
        poll srvs present k =
          Option.bind (poll srvs present (Suc k)) (\<lambda>(vs, r). Some (render_tasks ts # vs, r))"
  by (subst poll.simps) (auto simp: poll_stops_def task_list_then_def split: sum.splits)

lemma poll_returns_if_stops:
  "k \<le> j \<Longrightarrow> poll_stops srvs present j \<Longrightarrow> \<exists>r. poll srvs present k = Some r"
proof (induction "j - k" arbitrary: k)
  case 0
  then have "k = j" by simp
  with "0.prems" poll_stop_step show ?case by blast
next
  case (Suc d)
  show ?case
  proof (cases "poll_stops srvs present k")
    case True
    then show ?thesis by (rule poll_stop_step)
  next
    case False
    from Suc.hyps(2) Suc.prems have "\<exists>r. poll srvs present (Suc k) = Some r"
      by (intro Suc.hyps(1)) auto
    with poll_continue_step[OF False] show ?thesis by auto
  qed
qed

lemma poll_stops_if_returns:
  assumes ret: "poll srvs present k = Some r"
  shows "\<exists>j \<ge> k. poll_stops srvs present j"
proof (rule poll.raw_induct [where P = "\<lambda>srvs present k r. \<exists>j \<ge> k. poll_stops srvs present j", OF _ ret])
  fix f :: "(nat \<Rightarrow> task list server) \<Rightarrow> (nat \<Rightarrow> bool) \<Rightarrow> nat \<Rightarrow> (list_elem list list \<times> js_error option) option"
    and srvs present k r
  assume IH: "\<And>srvs present k r. f srvs present k = Some r \<Longrightarrow> \<exists>j \<ge> k. poll_stops srvs present j"
    and eq: "(case getJSON (srvs k) ''tasks'' of
        Inl e \<Rightarrow> Some ([], Some e)
      | Inr ts \<Rightarrow>
          (case task_list_then (present k) ts of
             Inl e \<Rightarrow> Some ([], Some e)
           | Inr (view, again) \<Rightarrow>
               if again then Option.bind (f srvs present (Suc k)) (\<lambda>(vs, r). Some (view # vs, r))
               else Some ([view], None))) = Some r"
  show "\<exists>j \<ge> k. poll_stops srvs present j"
  proof (cases "poll_stops srvs present k")
    case True
    then show ?thesis by auto
  next
    case False
    then obtain ts where ts: "getJSON (srvs k) ''tasks'' = Inr ts" "present k" "inProgressJob ts"
      by (auto simp: poll_stops_def split: sum.splits)
    with eq obtain r' where "f srvs present (Suc k) = Some r'"
      by (auto simp: task_list_then_def bind_eq_Some_conv)
    then obtain j where "j \<ge> Suc k" "poll_stops srvs present j" using IH by blast
    then show ?thesis by (intro exI[of _ j]) auto
  qed
qed

lemma poll_prefix:
  "k \<le> j \<Longrightarrow>
   \<forall>i. k \<le> i \<and> i < j \<longrightarrow> getJSON (srvs i) ''tasks'' = Inr (tss i) \<and> present i \<and> inProgressJob (tss i) \<Longrightarrow>
   poll srvs present k =
     Option.bind (poll srvs present j) (\<lambda>(vs, r). Some (map (\<lambda>i. render_tasks (tss i)) [k..<j] @ vs, r))"
proof (induction "j - k" arbitrary: k)
  case 0
  then have "k = j" by simp
  then show ?case by (cases "poll srvs present j") auto
next
  case (Suc d)
  then have kj: "k < j" by simp
  with Suc.prems have r: "getJSON (srvs k) ''tasks'' = Inr (tss k)" "present k" "inProgressJob (tss k)" by auto
  have IH: "poll srvs present (Suc k) =
     Option.bind (poll srvs present j) (\<lambda>(vs, r). Some (map (\<lambda>i. render_tasks (tss i)) [Suc k..<j] @ vs, r))"
    using Suc.hyps(2) Suc.prems kj by (intro Suc.hyps(1)) auto
  have "poll srvs present k =
          Option.bind (poll srvs present (Suc k)) (\<lambda>(vs, r). Some (render_tasks (tss k) # vs, r))"
    using r by (subst poll.simps) (simp add: task_list_then_def)
  also have "\<dots> = Option.bind (poll srvs present j)
                     (\<lambda>(vs, r). Some (map (\<lambda>i. render_tasks (tss i)) [k..<j] @ vs, r))"
    using kj by (cases "poll srvs present j") (auto simp: IH upt_conv_Cons)
  finally show ?case .
qed

subsection \<open>Properties of the tasks page\<close>

text \<open>
  C17: one round of \<open>renderTaskList\<close> on a fetched task list redraws the list
  and schedules the next fetch exactly when some task's message is the literal
  \<open>in progress\<close>.
\<close>

theorem task_round_schedules_iff:
  "task_list_then True ts = Inr (render_tasks ts, \<exists>t \<in> set ts. task_message t = ''in progress'')"
  by (simp add: task_list_then_def inProgressJob_iff)

text \<open>
  C18: the polling loop has no bound: it returns exactly when some round, now or
  later, fails to fetch, finds the task list gone, or sees no task in progress;
  while every round sees a task in progress it polls forever.
\<close>

theorem poll_returns_iff:
  "(\<exists>r. poll srvs present k = Some r) \<longleftrightarrow> (\<exists>j \<ge> k. poll_stops srvs present j)"
  using poll_returns_if_stops poll_stops_if_returns by blast

text \<open>
  C19: if rounds \<open>k..j-1\<close> all see a task in progress and round \<open>j\<close> sees
  none, the loop fetches exactly rounds \<open>k..j\<close>, renders each of their lists
  in order, and stops without error.
\<close>

theorem poll_rounds:
  "k \<le> j \<Longrightarrow>
   \<forall>i. k \<le> i \<and> i < j \<longrightarrow> getJSON (srvs i) ''tasks'' = Inr (tss i) \<and> present i \<and> inProgressJob (tss i) \<Longrightarrow>
   getJSON (srvs j) ''tasks'' = Inr (tss j) \<Longrightarrow> present j \<Longrightarrow> \<not> inProgressJob (tss j) \<Longrightarrow>
   poll srvs present k = Some (map (\<lambda>i. render_tasks (tss i)) [k..<Suc j], None)"
proof -
  assume kj: "k \<le> j"
    and pre: "\<forall>i. k \<le> i \<and> i < j \<longrightarrow> getJSON (srvs i) ''tasks'' = Inr (tss i) \<and> present i \<and> inProgressJob (tss i)"
    and last: "getJSON (srvs j) ''tasks'' = Inr (tss j)" "present j" "\<not> inProgressJob (tss j)"
  have "poll srvs present j = Some ([render_tasks (tss j)], None)"
    using last by (subst poll.simps) (simp add: task_list_then_def)
  then show ?thesis using poll_prefix[OF kj pre] kj by simp
qed

text \<open>
  C20: leaving the page does not cancel the poll: if the \<open>task-list\<close> element is
  gone by round \<open>j\<close>, that round's GET is still issued and its handler throws a
  \<open>TypeError\<close>, which ends the loop as an unhandled rejection.
\<close>

theorem poll_after_leaving_page:
  "k \<le> j \<Longrightarrow>
   \<forall>i. k \<le> i \<and> i < j \<longrightarrow> getJSON (srvs i) ''tasks'' = Inr (tss i) \<and> present i \<and> inProgressJob (tss i) \<Longrightarrow>
   getJSON (srvs j) ''tasks'' = Inr ts \<Longrightarrow> \<not> present j \<Longrightarrow>
   poll srvs present k =
     Some (map (\<lambda>i. render_tasks (tss i)) [k..<j],
           Some (TypeError ''Cannot set properties of null (setting 'innerHTML')''))"
proof -
  assume kj: "k \<le> j"
    and pre: "\<forall>i. k \<le> i \<and> i < j \<longrightarrow> getJSON (srvs i) ''tasks'' = Inr (tss i) \<and> present i \<and> inProgressJob (tss i)"
    and last: "getJSON (srvs j) ''tasks'' = Inr ts" "\<not> present j"
  have "poll srvs present j = Some ([], Some (TypeError ''Cannot set properties of null (setting 'innerHTML')''))"
    using last by (subst poll.simps) (simp add: task_list_then_def)
  then show ?thesis using poll_prefix[OF kj pre] by simp
qed

subsection \<open>Witnesses\<close>

theorem poll_rounds_witness:
  "poll (\<lambda>i _. Response \<lparr>resp_status = 200, resp_status_text = ''OK'',
            resp_json = Inr (if i = 0 then [\<lparr>task_id = ''1'', task_tenant = ''t'', task_application = ''a'',
                                             task_message = ''in progress''\<rparr>]
                             else [\<lparr>task_id = ''1'', task_tenant = ''t'', task_application = ''a'',
                                    task_message = ''success''\<rparr>])\<rparr>)
        (\<lambda>_. True) 0 =
   Some ([render_tasks [\<lparr>task_id = ''1'', task_tenant = ''t'', task_application = ''a'', task_message = ''in progress''\<rparr>],
          render_tasks [\<lparr>task_id = ''1'', task_tenant = ''t'', task_application = ''a'', task_message = ''success''\<rparr>]],
         None)"
proof -
  let ?t0 = "\<lparr>task_id = ''1'', task_tenant = ''t'', task_application = ''a'', task_message = ''in progress''\<rparr>"
  let ?t1 = "\<lparr>task_id = ''1'', task_tenant = ''t'', task_application = ''a'', task_message = ''success''\<rparr>"
  let ?srvs = "\<lambda>i (_ :: http_request). Response \<lparr>resp_status = 200, resp_status_text = ''OK'',
                  resp_json = Inr (if i = (0 :: nat) then [?t0] else [?t1])\<rparr>"
  have "poll ?srvs (\<lambda>_. True) 0 = Some (map (\<lambda>i. render_tasks (if i = 0 then [?t0] else [?t1])) [0..<Suc 1], None)"
    by (rule poll_rounds) (auto simp: getJSON_def resp_ok_def response_json_def inProgressJob_def)
  then show ?thesis by simp
qed

theorem poll_after_leaving_page_witness:
  "poll (\<lambda>i _. Response \<lparr>resp_status = 200, resp_status_text = ''OK'',
            resp_json = Inr [\<lparr>task_id = ''1'', task_tenant = ''t'', task_application = ''a'',
                              task_message = ''in progress''\<rparr>]\<rparr>)
        (\<lambda>i. i = 0) 0 =
   Some ([render_tasks [\<lparr>task_id = ''1'', task_tenant = ''t'', task_application = ''a'', task_message = ''in progress''\<rparr>]],
         Some (TypeError ''Cannot set properties of null (setting 'innerHTML')''))"
proof -
  let ?t0 = "\<lparr>task_id = ''1'', task_tenant = ''t'', task_application = ''a'', task_message = ''in progress''\<rparr>"
  let ?srvs = "\<lambda>(i :: nat) (_ :: http_request). Response \<lparr>resp_status = 200, resp_status_text = ''OK'', resp_json = Inr [?t0]\<rparr>"
  have g: "getJSON (?srvs i) ''tasks'' = Inr [?t0]" for i
    by (simp add: getJSON_def resp_ok_def response_json_def)
  have "poll ?srvs (\<lambda>i. i = 0) 0 =
          Some (map (\<lambda>i. render_tasks [?t0]) [0..<1],
                Some (TypeError ''Cannot set properties of null (setting 'innerHTML')''))"
    by (rule poll_after_leaving_page[where tss = "\<lambda>_. [?t0]"]) (auto simp: g inProgressJob_def)
  then show ?thesis by simp
qed

end
