(* ===== verification/AppList.thy ===== *)
theory AppList
  imports Http
begin

text \<open>
  The application list page (\<open>app.js\<close> lines 242-316): the controller of route
  \<open>''''\<close> fetches \<open>/applications\<close> and appends one row per application to
  \<open>#applist\<close>, with a divider before the row whenever the tenant differs from
  the previous row's (the first row is compared with \<open>''''\<close>), striping by the
  running \<open>count\<close>, a Modify link and a Delete button. \<open>render_apps\<close> is the
  \<open>forEach\<close> with its two mutable variables \<open>count\<close> and \<open>lastTenant\<close> as
  accumulators. The Delete button's click handler is \<open>delete_app\<close>.
\<close>

record application =
  app_tenant :: string
  app_name :: string
  app_template :: string

record app_row =
  ar_zebra :: bool
  ar_tenant :: string
  ar_name :: string
  ar_template :: string
  ar_modify :: string
  ar_delete :: string

datatype app_elem = AppHeader | AppDivider bool | AppRow app_row

fun render_apps :: "nat \<Rightarrow> string \<Rightarrow> application list \<Rightarrow> app_elem list" where
  "render_apps count lastTenant [] = []"
| "render_apps count lastTenant (app # apps) =
     (let c = Suc count;
          appPairStr = app_tenant app @ ''/'' @ app_name app;
          changed = app_tenant app \<noteq> lastTenant;
          row = \<lparr>ar_zebra = odd c, ar_tenant = (if changed then app_tenant app else ''''),
                 ar_name = app_name app, ar_template = app_template app,
                 ar_modify = ''#modify/'' @ appPairStr, ar_delete = appPairStr\<rparr>
      in (if changed then [AppDivider (odd c)] else []) @
         AppRow row # render_apps c (if changed then app_tenant app else lastTenant) apps)"

definition apps_view :: "application list \<Rightarrow> app_elem list" where
  "apps_view apps = AppHeader # render_apps 0 '''' apps"

text \<open>
  The controller: it assigns \<open>outputElem\<close>, announces the fetch, and on success
  replaces the list and clears the output; the \<open>.catch\<close> writes the error, so
  the returned promise always fulfils. \<open>None\<close> is the list left untouched.
\<close>

definition apps_controller ::
  "application list server \<Rightarrow> console \<Rightarrow> console \<times> app_elem list option" where
  "apps_controller srv c =
     (let c1 = dispOutput ''Fetching applications list'' (set_outputElem c)
      in case getJSON srv ''applications'' of
           Inl e \<Rightarrow> (dispOutput (''Error fetching applications: '' @ err_message e) c1, None)
         | Inr apps \<Rightarrow> (dispOutput '''' c1, Some (apps_view apps)))"

text \<open>
  The Delete click handler: it announces the deletion, sends one DELETE, and when
  the fetch resolves, whatever the status, sets \<open>window.location.href\<close> to
  \<open>#tasks\<close>; a rejected fetch leaves the location unchanged.
\<close>

definition delete_app ::
  "unit server \<Rightarrow> string \<Rightarrow> console \<Rightarrow> http_request list \<times> console \<times> string option" where
  "delete_app srv appPairStr c =
     (let r = simple_request DELETE (api_url (''applications/'' @ appPairStr));
          c1 = dispOutput (''Deleting '' @ appPairStr) c
      in case srv r of
           Net_Error _ \<Rightarrow> ([r], c1, None)
         | Response _ \<Rightarrow> ([r], c1, Some ''#tasks''))"

primrec is_divider :: "app_elem \<Rightarrow> bool" where
  "is_divider AppHeader = False"
| "is_divider (AppDivider z) = True"
| "is_divider (AppRow r) = False"

primrec row_of :: "app_elem \<Rightarrow> app_row list" where
  "row_of AppHeader = []"
| "row_of (AppDivider z) = []"
| "row_of (AppRow r) = [r]"

lemma render_apps_rows:
  "map (\<lambda>r. (ar_name r, ar_template r, ar_modify r, ar_delete r))
       (concat (map row_of (render_apps c l apps))) =
   map (\<lambda>a. (app_name a, app_template a, ''#modify/'' @ app_tenant a @ ''/'' @ app_name a,
             app_tenant a @ ''/'' @ app_name a)) apps"
  by (induction apps arbitrary: c l) (auto simp: Let_def)

lemma render_apps_zebra:
  "map ar_zebra (concat (map row_of (render_apps c l apps))) =
   map odd [Suc c..<Suc (c + length apps)]"
proof (induction apps arbitrary: c l)
  case Nil
  then show ?case by simp
next
  case (Cons a apps)
  have "[Suc c..<Suc (c + length (a # apps))] = Suc c # [Suc (Suc c)..<Suc (Suc c + length apps)]"
    by (subst upt_conv_Cons) simp_all
  then show ?case using Cons by (simp add: Let_def)
qed

lemma render_apps_dividers:
  "length (filter is_divider (render_apps c l apps)) =
   length (remdups_adj (l # map app_tenant apps)) - 1"
proof (induction apps arbitrary: c l)
  case Nil
  then show ?case by simp
next
  case (Cons a apps)
  have pos: "0 < length (remdups_adj (app_tenant a # map app_tenant apps))"
    by (cases "map app_tenant apps") auto
  show ?case using Cons pos by (cases "app_tenant a = l") (auto simp: Let_def)
qed

lemma remdups_adj_fresh_head:
  "x \<notin> set xs \<Longrightarrow> remdups_adj (x # xs) = x # remdups_adj xs"
  by (cases xs) auto

lemma length_remdups_adj_distinct:
  "distinct (remdups_adj xs) \<Longrightarrow> length (remdups_adj xs) = card (set xs)"
  using distinct_card[of "remdups_adj xs"] by simp

lemma apps_view_rows_nth:
  assumes "i < length apps"
  shows "ar_delete (concat (map row_of (apps_view apps)) ! i) = app_tenant (apps ! i) @ ''/'' @ app_name (apps ! i)"
proof -
  let ?rows = "concat (map row_of (render_apps 0 '''' apps))"
  let ?f = "\<lambda>r. (ar_name r, ar_template r, ar_modify r, ar_delete r)"
  let ?g = "\<lambda>a. (app_name a, app_template a, ''#modify/'' @ app_tenant a @ ''/'' @ app_name a,
               app_tenant a @ ''/'' @ app_name a)"
  have eq: "map ?f ?rows = map ?g apps" by (rule render_apps_rows)
  have len: "length ?rows = length apps" using arg_cong[OF eq, of length] by simp
  have "map ?f ?rows ! i = map ?g apps ! i" using eq by (rule arg_cong)
  then have "?f (?rows ! i) = ?g (apps ! i)" using assms len by (simp only: nth_map)
  then show ?thesis by (simp add: apps_view_def)
qed

subsection \<open>Properties of the application list\<close>

text \<open>
  C21: the list shows one row per application, in the order received, with its
  name and template, a Modify link to \<open>#modify/tenant/name\<close> and a Delete
  button for \<open>tenant/name\<close>; rows alternate striping, starting striped.
\<close>

theorem apps_view_rows:
  "map (\<lambda>r. (ar_name r, ar_template r, ar_modify r, ar_delete r)) (concat (map row_of (apps_view apps))) =
   map (\<lambda>a. (app_name a, app_template a, ''#modify/'' @ app_tenant a @ ''/'' @ app_name a,
             app_tenant a @ ''/'' @ app_name a)) apps \<and>
   map ar_zebra (concat (map row_of (apps_view apps))) = map odd [1..<Suc (length apps)]"
  using render_apps_rows[of 0 "''''" apps] render_apps_zebra[of 0 "''''" apps]
  by (simp add: apps_view_def)

text \<open>
  C22: a divider is drawn each time the tenant differs from the previous row's;
  when the applications arrive grouped by tenant and no tenant is empty, there is
  exactly one divider per tenant. (Without grouping a tenant gets a divider per
  group, which is the spec's open question about ordering.)
\<close>

theorem apps_view_dividers:
  "'''' \<notin> set (map app_tenant apps) \<Longrightarrow> distinct (remdups_adj (map app_tenant apps)) \<Longrightarrow>
   length (filter is_divider (apps_view apps)) = card (set (map app_tenant apps))"
proof -
  assume e: "'''' \<notin> set (map app_tenant apps)" and g: "distinct (remdups_adj (map app_tenant apps))"
  have "length (filter is_divider (apps_view apps)) = length (remdups_adj ('''' # map app_tenant apps)) - 1"
    using render_apps_dividers[of 0 "''''" apps] by (simp add: apps_view_def)
  also have "\<dots> = length (remdups_adj (map app_tenant apps))"
    using e by (simp add: remdups_adj_fresh_head)
  also have "\<dots> = card (set (map app_tenant apps))"
    using g by (rule length_remdups_adj_distinct)
  finally show ?thesis .
qed

text \<open>
  C23: the Delete button of row \<open>i\<close> sends exactly one request, a DELETE to
  \<open>/mgmt/shared/fast/applications/tenant/name\<close> of application \<open>i\<close>, and
  once it resolves navigates to \<open>#tasks\<close>, whatever the response status.
\<close>

theorem delete_row_then_tasks:
  "i < length apps \<Longrightarrow>
   srv (simple_request DELETE (''/mgmt/shared/fast/applications/'' @ app_tenant (apps ! i) @ ''/'' @ app_name (apps ! i)))
     = Response r \<Longrightarrow>
   delete_app srv (ar_delete (concat (map row_of (apps_view apps)) ! i)) c =
     ([simple_request DELETE (''/mgmt/shared/fast/applications/'' @ app_tenant (apps ! i) @ ''/'' @ app_name (apps ! i))],
      dispOutput (''Deleting '' @ app_tenant (apps ! i) @ ''/'' @ app_name (apps ! i)) c, Some ''#tasks'')"
  by (simp add: apps_view_rows_nth delete_app_def api_url_def endPointUrl_def)

text \<open>
  C24: when fetching the applications fails, the list is left untouched and the
  output shows \<open>Error fetching applications: \<close> followed by the error message;
  the controller's promise still fulfils.
\<close>

theorem apps_controller_error:
  "getJSON srv ''applications'' = Inl e \<Longrightarrow>
   snd (apps_controller srv c) = None \<and>
   output_text (fst (apps_controller srv c)) = ''Error fetching applications: '' @ err_message e"
  by (simp add: apps_controller_def dispOutput_def set_outputElem_def)

subsection \<open>Witnesses\<close>

theorem apps_view_dividers_witness:
  "length (filter is_divider (apps_view
     [\<lparr>app_tenant = ''t1'', app_name = ''a'', app_template = ''x/y''\<rparr>,
      \<lparr>app_tenant = ''t1'', app_name = ''b'', app_template = ''x/y''\<rparr>,
      \<lparr>app_tenant = ''t2'', app_name = ''c'', app_template = ''x/z''\<rparr>])) = 2"
  using apps_view_dividers[of "[\<lparr>app_tenant = ''t1'', app_name = ''a'', app_template = ''x/y''\<rparr>,
      \<lparr>app_tenant = ''t1'', app_name = ''b'', app_template = ''x/y''\<rparr>,
      \<lparr>app_tenant = ''t2'', app_name = ''c'', app_template = ''x/z''\<rparr>]"]
  by simp

theorem delete_row_then_tasks_witness:
  "delete_app (\<lambda>_. Response \<lparr>resp_status = 500, resp_status_text = ''Error'', resp_json = Inr ()\<rparr>)
     (ar_delete (concat (map row_of (apps_view [\<lparr>app_tenant = ''t1'', app_name = ''a'', app_template = ''x/y''\<rparr>])) ! 0))
     \<lparr>console_log = [], output_set = True, output_text = ''''\<rparr> =
   ([simple_request DELETE ''/mgmt/shared/fast/applications/t1/a''],
    \<lparr>console_log = [''Deleting t1/a''], output_set = True, output_text = ''Deleting t1/a''\<rparr>, Some ''#tasks'')"
  using delete_row_then_tasks[of 0 "[\<lparr>app_tenant = ''t1'', app_name = ''a'', app_template = ''x/y''\<rparr>]"
          "\<lambda>_. Response \<lparr>resp_status = 500, resp_status_text = ''Error'', resp_json = Inr ()\<rparr>"]
  by (simp add: dispOutput_def)

theorem apps_controller_error_witness:
  "output_text (fst (apps_controller (\<lambda>_. Net_Error ''Failed to fetch'')
     \<lparr>console_log = [], output_set = False, output_text = ''''\<rparr>)) =
   ''Error fetching applications: Failed to fetch''"
  using apps_controller_error[of "\<lambda>_. Net_Error ''Failed to fetch''" "TypeError ''Failed to fetch''"]
  by simp

end
