(* ===== verification/Templates.thy ===== *)
theory Templates
  imports Upload AppList
begin

text \<open>
  The templates page (\<open>app.js\<close> lines 406-541). The controller wires the
  upload input, fetches the applications and the template sets together
  (\<open>Promise.all\<close>), indexes the sets by name (\<open>setMap\<close>) and the
  applications by template (\<open>appDict\<close>), both as \<open>reduce\<close> over a plain
  object, and appends a row per template set followed by a row per template
  of the set, listing the applications that use it. The set row's actions are
  \<open>Remove\<close> and, when an update is available, \<open>Update\<close>. The upload input's
  \<open>onchange\<close> handler uploads the chosen file with \<open>multipartUpload\<close> and
  then asks the backend to install it.
\<close>

record template_desc =
  tmpl_name :: string

record template_set =
  ts_name :: string
  ts_templates :: "template_desc list"
  ts_supported :: bool
  ts_updateAvailable :: bool

subsection \<open>The two reductions\<close>

definition setMap :: "template_set list \<Rightarrow> (string \<times> template_set) list" where
  "setMap templatesets = fold (\<lambda>curr acc. obj_set acc (ts_name curr) curr) templatesets []"

text \<open>\<open>if (c.template)\<close>: the empty string is falsy.\<close>

definition appDict_step ::
  "application \<Rightarrow> (string \<times> application list) list \<Rightarrow> (string \<times> application list) list" where
  "appDict_step c a =
     (if app_template c \<noteq> '''' then
        obj_set a (app_template c)
          ((case map_of a (app_template c) of None \<Rightarrow> [] | Some l \<Rightarrow> l) @ [c])
      else a)"

definition appDict :: "application list \<Rightarrow> (string \<times> application list) list" where
  "appDict applications = fold appDict_step applications []"

subsection \<open>Rows\<close>

record tmpl_row =
  tr_zebra :: bool
  tr_name :: string
  tr_items :: "string list"
  tr_actions :: "string list"

definition set_actions :: "template_set \<Rightarrow> string list" where
  "set_actions s = [''Remove''] @ (if ts_updateAvailable s then [''Update''] else [])"

definition template_rows_of ::
  "(string \<times> application list) list \<Rightarrow> template_set \<Rightarrow> (string \<times> string list \<times> string list) list" where
  "template_rows_of dict s =
     (ts_name s, (if ts_supported s then [''supported''] else []), set_actions s) #
     map (\<lambda>t. (''&nbsp;&nbsp;&nbsp;&nbsp;/'' @ tmpl_name t,
               map (\<lambda>app. app_tenant app @ '' '' @ app_name app)
                 (case map_of dict (ts_name s @ ''/'' @ tmpl_name t) of None \<Rightarrow> [] | Some l \<Rightarrow> l),
               []))
         (ts_templates s)"

text \<open>\<open>createRow\<close>: each call bumps the shared \<open>count\<close> and appends an \<open><hr>\<close> and the row.\<close>

fun createRows :: "nat \<Rightarrow> (string \<times> string list \<times> string list) list \<Rightarrow> (bool \<times> tmpl_row) list" where
  "createRows count [] = []"
| "createRows count ((n, items, acts) # rs) =
     (False, \<lparr>tr_zebra = odd (Suc count), tr_name = n, tr_items = items, tr_actions = acts\<rparr>) #
     createRows (Suc count) rs"

definition templates_view :: "application list \<Rightarrow> template_set list \<Rightarrow> tmpl_row list" where
  "templates_view applications templatesets =
     map snd (createRows 0
       (concat (map (template_rows_of (appDict applications)) (map snd (setMap templatesets)))))"

definition templates_controller ::
  "application list server \<Rightarrow> template_set list server \<Rightarrow> bool \<Rightarrow> console \<Rightarrow>
   (js_error + tmpl_row list) \<times> console" where
  "templates_controller srv_apps srv_sets apps_rejects_first c =
     (let c1 = dispOutput ''...Loading Template List...'' (set_outputElem c)
      in case (getJSON srv_apps ''applications'', getJSON srv_sets ''templatesets'') of
           (Inr apps, Inr sets) \<Rightarrow> (Inr (templates_view apps sets), dispOutput '''' c1)
         | (Inl e, Inr _) \<Rightarrow> (Inl e, c1)
         | (Inr _, Inl e) \<Rightarrow> (Inl e, c1)
         | (Inl e1, Inl e2) \<Rightarrow> (Inl (if apps_rejects_first then e1 else e2), c1))"

subsection \<open>Actions\<close>

datatype page_effect = Reload | No_Reload

definition templatesets_url :: "string \<Rightarrow> string" where
  "templatesets_url setName = api_url (''templatesets/'' @ setName)"

definition install_request :: "string \<Rightarrow> http_request" where
  "install_request name = json_request ''/mgmt/shared/fast/templatesets'' (JObj [(''name'', JStr name)])"

text \<open>The Remove action: DELETE, then reload once the request resolves, whatever its status.\<close>

definition remove_set ::
  "unit server \<Rightarrow> string \<Rightarrow> console \<Rightarrow> http_request list \<times> console \<times> page_effect" where
  "remove_set srv setName c =
     (let r = simple_request DELETE (templatesets_url setName);
          c1 = dispOutput (''Deleting '' @ setName) c
      in case srv r of Net_Error _ \<Rightarrow> ([r], c1, No_Reload) | Response _ \<Rightarrow> ([r], c1, Reload))"

text \<open>The Update action: DELETE, then POST the same name, then reload.\<close>

definition update_set ::
  "unit server \<Rightarrow> string \<Rightarrow> console \<Rightarrow> http_request list \<times> console \<times> page_effect" where
  "update_set srv setName c =
     (let r1 = simple_request DELETE (templatesets_url setName);
          r2 = json_request (api_url ''templatesets'') (JObj [(''name'', JStr setName)]);
          c1 = dispOutput (''Updating '' @ setName) c
      in case srv r1 of
           Net_Error _ \<Rightarrow> ([r1], c1, No_Reload)
         | Response _ \<Rightarrow>
             (case srv r2 of Net_Error _ \<Rightarrow> ([r1, r2], c1, No_Reload) | Response _ \<Rightarrow> ([r1, r2], c1, Reload)))"

text \<open>
  \<open>e.stack\<close> starts with the error's name and message; the engine-specific
  trace lines that follow are not represented.
\<close>

primrec err_stack :: "js_error \<Rightarrow> string" where
  "err_stack (Error m) = ''Error: '' @ m"
| "err_stack (TypeError m) = ''TypeError: '' @ m"
| "err_stack (SyntaxError m) = ''SyntaxError: '' @ m"

text \<open>
  The \<open>onchange\<close> handler of the upload input, for the chosen file: the set's
  name is the file name without its last four characters (\<open>slice(0, -4)\<close>).
\<close>

definition install_file ::
  "unit server \<Rightarrow> js_file \<Rightarrow> console \<Rightarrow> http_request list \<times> console \<times> page_effect" where
  "install_file srv file c =
     (let tsName = js_slice (file_name file) 0 (-4);
          c1 = dispOutput (''Uploading file: '' @ file_name file) c;
          up = multipartUpload srv file;
          fail = (\<lambda>rs e c. (rs, dispOutput (''Failed to install template set: '' @ err_stack e) c, No_Reload))
      in case snd up of
           Inl e \<Rightarrow> fail (fst up) e c1
         | Inr _ \<Rightarrow>
             (let c2 = dispOutput (''Installing template set '' @ tsName) c1;
                  post = install_request (js_slice (file_name file) 0 (-4));
                  rs = fst up @ [post]
              in case srv post of
                   Net_Error m \<Rightarrow> fail rs (TypeError m) c2
                 | Response r \<Rightarrow>
                     if \<not> resp_ok r then fail rs (Error (''Failed to install '' @ tsName @ '': {}'')) c2
                     else (rs, dispOutput (tsName @ '' installed successfully'') c2, Reload)))"

subsection \<open>Lemmas\<close>

lemma map_of_appDict_step:
  "map_of (appDict_step c a) =
     (if app_template c \<noteq> '''' then
        (map_of a)(app_template c \<mapsto> (case map_of a (app_template c) of None \<Rightarrow> [] | Some l \<Rightarrow> l) @ [c])
      else map_of a)"
  by (simp add: appDict_step_def map_of_obj_set)

lemma map_of_fold_appDict:
  "map_of (fold appDict_step apps a) t =
     (if t \<noteq> '''' \<and> filter (\<lambda>c. app_template c = t) apps \<noteq> [] then
        Some ((case map_of a t of None \<Rightarrow> [] | Some l \<Rightarrow> l) @ filter (\<lambda>c. app_template c = t) apps)
      else map_of a t)"
proof (induction apps arbitrary: a)
  case Nil
  then show ?case by simp
next
  case (Cons c apps)
  show ?case
  proof (cases "app_template c = t \<and> t \<noteq> ''''")
    case True
    then show ?thesis using Cons[of "appDict_step c a"] by (simp add: map_of_appDict_step)
  next
    case False
    then have "map_of (appDict_step c a) t = map_of a t" by (auto simp: map_of_appDict_step)
    then show ?thesis using Cons[of "appDict_step c a"] False by auto
  qed
qed

lemma remdups_drop_dup:
  "x \<in> set ys \<Longrightarrow> remdups (xs @ x # ys) = remdups (xs @ ys)"
  by (induction xs) auto

lemma keys_fold_obj_set:
  "distinct (map fst acc) \<Longrightarrow>
   map fst (fold (\<lambda>curr acc. obj_set acc (key curr) curr) xs acc) =
   rev (remdups (rev (map fst acc @ map key xs)))"
proof (induction xs arbitrary: acc)
  case Nil
  then show ?case by (simp add: distinct_remdups_id)
next
  case (Cons x xs)
  let ?acc' = "obj_set acc (key x) x"
  have d: "distinct (map fst ?acc')" using Cons.prems by (rule distinct_obj_set)
  have "remdups (rev (map fst ?acc' @ map key xs)) =
        remdups (rev (map key xs) @ key x # rev (map fst acc))"
  proof (cases "key x \<in> set (map fst acc)")
    case True
    then have "map fst ?acc' = map fst acc" by (simp add: keys_obj_set)
    moreover have "key x \<in> set (rev (map fst acc))" using True by simp
    ultimately show ?thesis by (simp add: remdups_drop_dup)
  next
    case False
    then show ?thesis by (simp add: keys_obj_set)
  qed
  then show ?case using Cons.IH[OF d] by simp
qed

lemma map_of_fold_obj_set:
  "map_of (fold (\<lambda>curr acc. obj_set acc (key curr) curr) xs acc) =
   map_of (rev (map (\<lambda>x. (key x, x)) xs) @ acc)"
  by (induction xs arbitrary: acc) (auto simp: map_of_obj_set map_add_def fun_eq_iff split: option.split)

lemma createRows_shape:
  "map (\<lambda>r. (tr_name r, tr_items r, tr_actions r)) (map snd (createRows c rs)) = rs"
  by (induction c rs rule: createRows.induct) auto

lemma createRows_zebra:
  "map (\<lambda>r. tr_zebra r) (map snd (createRows c rs)) = map odd [Suc c..<Suc (c + length rs)]"
proof (induction c rs rule: createRows.induct)
  case (1 count)
  then show ?case by simp
next
  case (2 count n items acts rs)
  have "[Suc count..<Suc (count + length ((n, items, acts) # rs))] =
        Suc count # [Suc (Suc count)..<Suc (Suc count + length rs)]"
    by (subst upt_conv_Cons) simp_all
  then show ?case using 2 by simp
qed

lemma appDict_lookup:
  "map_of (appDict apps) t =
     (if t \<noteq> '''' \<and> filter (\<lambda>c. app_template c = t) apps \<noteq> [] then
        Some (filter (\<lambda>c. app_template c = t) apps) else None)"
  using map_of_fold_appDict[of apps "[]" t] by (simp add: appDict_def)

lemma appDict_list:
  "t \<noteq> '''' \<Longrightarrow>
   (case map_of (appDict apps) t of None \<Rightarrow> [] | Some l \<Rightarrow> l) = filter (\<lambda>c. app_template c = t) apps"
  by (simp add: appDict_lookup)

subsection \<open>Properties of the templates page\<close>

text \<open>
  C25: the \<open>appDict\<close> reduction groups the applications by template: the entry
  of a non-empty template id holds exactly the applications with that template,
  in the order received; applications without a template are left out.
\<close>

theorem appDict_refines:
  "map_of (appDict apps) t =
     (if t \<noteq> '''' \<and> filter (\<lambda>c. app_template c = t) apps \<noteq> [] then
        Some (filter (\<lambda>c. app_template c = t) apps) else None)"
  by (rule appDict_lookup)

text \<open>
  C26: \<open>setMap\<close> keeps one entry per set name, at the position of the name's
  first occurrence, holding the last set received with that name.
\<close>

theorem setMap_order_and_values:
  "map fst (setMap sets) = rev (remdups (rev (map ts_name sets))) \<and>
   map_of (setMap sets) = map_of (rev (map (\<lambda>s. (ts_name s, s)) sets))"
  using keys_fold_obj_set[of "[]" ts_name sets] map_of_fold_obj_set[of ts_name sets "[]"]
  by (simp add: setMap_def)

text \<open>
  C27: the page lists, for each template set in \<open>setMap\<close> order, a row with
  its name, \<open>supported\<close> when flagged and the actions Remove and, only when an
  update is available, Update; then one row per template of the set listing
  \<open>tenant name\<close> of every application whose template is \<open>set/template\<close>.
\<close>

theorem templates_view_rows:
  "map (\<lambda>r. (tr_name r, tr_items r, tr_actions r)) (templates_view apps sets) =
   concat (map (\<lambda>s. (ts_name s, (if ts_supported s then [''supported''] else []),
                      [''Remove''] @ (if ts_updateAvailable s then [''Update''] else [])) #
                   map (\<lambda>t. (''&nbsp;&nbsp;&nbsp;&nbsp;/'' @ tmpl_name t,
                             map (\<lambda>a. app_tenant a @ '' '' @ app_name a)
                               (filter (\<lambda>a. app_template a = ts_name s @ ''/'' @ tmpl_name t) apps),
                             []))
                       (ts_templates s))
               (map snd (setMap sets)))"
proof -
  have "template_rows_of (appDict apps) s =
        (ts_name s, (if ts_supported s then [''supported''] else []),
         [''Remove''] @ (if ts_updateAvailable s then [''Update''] else [])) #
        map (\<lambda>t. (''&nbsp;&nbsp;&nbsp;&nbsp;/'' @ tmpl_name t,
                  map (\<lambda>a. app_tenant a @ '' '' @ app_name a)
                    (filter (\<lambda>a. app_template a = ts_name s @ ''/'' @ tmpl_name t) apps),
                  []))
            (ts_templates s)" for s
    by (simp add: template_rows_of_def set_actions_def appDict_list)
  then show ?thesis unfolding templates_view_def createRows_shape by (simp add: comp_def)
qed

text \<open>
  C30: the Update action sends a DELETE of the set and then a POST installing
  the same name, and reloads the page once both resolved, whatever their status.
\<close>

theorem update_set_requests:
  "srv (simple_request DELETE (''/mgmt/shared/fast/templatesets/'' @ n)) = Response rd \<Longrightarrow>
   srv (json_request ''/mgmt/shared/fast/templatesets'' (JObj [(''name'', JStr n)])) = Response rp \<Longrightarrow>
   update_set srv n c =
     ([simple_request DELETE (''/mgmt/shared/fast/templatesets/'' @ n),
       json_request ''/mgmt/shared/fast/templatesets'' (JObj [(''name'', JStr n)])],
      dispOutput (''Updating '' @ n) c, Reload)"
  by (simp add: update_set_def templatesets_url_def api_url_def endPointUrl_def)

text \<open>
  C28: installing a template-set file whose chunks are all accepted uploads every
  chunk, then POSTs the file name without its last four characters to
  \<open>/mgmt/shared/fast/templatesets\<close>, and on a 2xx answer reports success and
  reloads the page.
\<close>

theorem install_file_success:
  "\<forall>r \<in> set (chunk_requests f). upload_response_check (srv r) = Inr () \<Longrightarrow>
   srv (install_request (js_slice (file_name f) 0 (-4))) = Response r \<Longrightarrow> resp_ok r \<Longrightarrow>
   install_file srv f c =
     (chunk_requests f @ [install_request (js_slice (file_name f) 0 (-4))],
      dispOutput (js_slice (file_name f) 0 (-4) @ '' installed successfully'')
        (dispOutput (''Installing template set '' @ js_slice (file_name f) 0 (-4))
          (dispOutput (''Uploading file: '' @ file_name f) c)),
      Reload)"
  by (simp add: install_file_def multipartUpload_refines run_requests_all_ok Let_def)

text \<open>
  C29: when the upload fails, the install request is never sent: the handler
  reports \<open>Failed to install template set: \<close> with the error's stack text and
  does not reload.
\<close>

theorem install_file_upload_failure:
  "snd (multipartUpload srv f) = Inl e \<Longrightarrow>
   install_file srv f c =
     (fst (multipartUpload srv f),
      dispOutput (''Failed to install template set: '' @ err_stack e)
        (dispOutput (''Uploading file: '' @ file_name f) c),
      No_Reload)"
  by (simp add: install_file_def Let_def)

text \<open>
  C31: the templates controller has no \<open>.catch\<close>: when either fetch fails the
  promise rejects and the output keeps the message \<open>...Loading Template List...\<close>,
  with no error message shown.
\<close>

theorem templates_controller_fetch_failure:
  "getJSON srv_apps ''applications'' = Inl e \<or> getJSON srv_sets ''templatesets'' = Inl e \<Longrightarrow>
   (\<exists>e'. fst (templates_controller srv_apps srv_sets b c) = Inl e') \<and>
   output_text (snd (templates_controller srv_apps srv_sets b c)) = ''...Loading Template List...''"
  by (auto simp: templates_controller_def dispOutput_def set_outputElem_def Let_def split: sum.splits)

theorem update_set_requests_witness:
  "update_set (\<lambda>_. Response \<lparr>resp_status = 404, resp_status_text = ''Not Found'', resp_json = Inr ()\<rparr>)
     ''examples'' \<lparr>console_log = [], output_set = True, output_text = ''''\<rparr> =
   ([simple_request DELETE ''/mgmt/shared/fast/templatesets/examples'',
     json_request ''/mgmt/shared/fast/templatesets'' (JObj [(''name'', JStr ''examples'')])],
    dispOutput ''Updating examples'' \<lparr>console_log = [], output_set = True, output_text = ''''\<rparr>, Reload)"
  using update_set_requests[where srv = "\<lambda>_. Response \<lparr>resp_status = 404, resp_status_text = ''Not Found'', resp_json = Inr ()\<rparr>"
          and n = "''examples''"
          and rd = "\<lparr>resp_status = 404, resp_status_text = ''Not Found'', resp_json = Inr ()\<rparr>"
          and rp = "\<lparr>resp_status = 404, resp_status_text = ''Not Found'', resp_json = Inr ()\<rparr>"
          and c = "\<lparr>console_log = [], output_set = True, output_text = ''''\<rparr>"]
  by simp

theorem install_file_success_witness:
  "install_file (\<lambda>_. Response \<lparr>resp_status = 200, resp_status_text = ''OK'', resp_json = Inr ()\<rparr>)
     \<lparr>file_name = ''ts.zip'', file_data = [1, 2, 3]\<rparr> \<lparr>console_log = [], output_set = True, output_text = ''''\<rparr> =
   (chunk_requests \<lparr>file_name = ''ts.zip'', file_data = [1, 2, 3]\<rparr> @ [install_request ''ts''],
    \<lparr>console_log = [''Uploading file: ts.zip'', ''Installing template set ts'', ''ts installed successfully''],
     output_set = True, output_text = ''ts installed successfully''\<rparr>,
    Reload)"
proof -
  have ts: "js_slice ''ts.zip'' 0 (-4) = ''ts''" by (simp add: js_slice_def js_rel_index_def)
  show ?thesis
    using install_file_success[where srv = "\<lambda>_. Response \<lparr>resp_status = 200, resp_status_text = ''OK'', resp_json = Inr ()\<rparr>"
            and f = "\<lparr>file_name = ''ts.zip'', file_data = [1, 2, 3]\<rparr>"
            and r = "\<lparr>resp_status = 200, resp_status_text = ''OK'', resp_json = Inr ()\<rparr>"
            and c = "\<lparr>console_log = [], output_set = True, output_text = ''''\<rparr>"]
    by (simp add: ts upload_response_check_def resp_ok_def dispOutput_def)
qed

theorem install_file_upload_failure_witness:
  "install_file (\<lambda>_. Response \<lparr>resp_status = 500, resp_status_text = ''Error'', resp_json = Inr ()\<rparr>)
     \<lparr>file_name = ''ts.zip'', file_data = [1, 2, 3]\<rparr> \<lparr>console_log = [], output_set = True, output_text = ''''\<rparr> =
   ([upload_request \<lparr>file_name = ''ts.zip'', file_data = [1, 2, 3]\<rparr> 0 2],
    \<lparr>console_log = [''Uploading file: ts.zip'', ''Failed to install template set: Error: Failed to upload file: {}''],
     output_set = True, output_text = ''Failed to install template set: Error: Failed to upload file: {}''\<rparr>,
    No_Reload)"
proof -
  have up: "multipartUpload (\<lambda>_. Response \<lparr>resp_status = 500, resp_status_text = ''Error'', resp_json = Inr ()\<rparr>)
              \<lparr>file_name = ''ts.zip'', file_data = [1, 2, 3]\<rparr> =
            ([upload_request \<lparr>file_name = ''ts.zip'', file_data = [1, 2, 3]\<rparr> 0 2],
             Inl (Error ''Failed to upload file: {}''))"
    by (simp add: multipartUpload_refines chunk_requests_def chunk_ranges_def chunk_count_def
                  CHUNK_SIZE_def chunk_range_def upload_response_check_def resp_ok_def)
  show ?thesis
    using install_file_upload_failure[where srv = "\<lambda>_. Response \<lparr>resp_status = 500, resp_status_text = ''Error'', resp_json = Inr ()\<rparr>"
            and f = "\<lparr>file_name = ''ts.zip'', file_data = [1, 2, 3]\<rparr>"
            and e = "Error ''Failed to upload file: {}''"
            and c = "\<lparr>console_log = [], output_set = True, output_text = ''''\<rparr>"]
    by (simp add: up dispOutput_def)
qed

theorem templates_controller_fetch_failure_witness:
  "output_text (snd (templates_controller (\<lambda>_. Net_Error ''Failed to fetch'')
      (\<lambda>_. Response \<lparr>resp_status = 200, resp_status_text = ''OK'', resp_json = Inr []\<rparr>) True
      \<lparr>console_log = [], output_set = False, output_text = ''''\<rparr>)) = ''...Loading Template List...''"
  using templates_controller_fetch_failure[where srv_apps = "\<lambda>_. Net_Error ''Failed to fetch''"
          and srv_sets = "\<lambda>_. Response \<lparr>resp_status = 200, resp_status_text = ''OK'', resp_json = Inr []\<rparr>"
          and e = "TypeError ''Failed to fetch''" and b = True
          and c = "\<lparr>console_log = [], output_set = False, output_text = ''''\<rparr>"]
  by simp

end
