(* ===== verification/Editor.thy ===== *)
theory Editor
  imports Templates
begin

text \<open>
  The editor builder \<open>newEditor\<close> (\<open>app.js\<close> lines 68-158) and the create and
  modify controllers that call it (lines 317-354).
  \<^item> The template library (\<open>Template\<close>, \<open>guiUtils\<close> of \<open>@f5devcentral/fast\<close>),
    \<open>yaml.safeLoad\<close> and the validator of the form widget are external: they
    form the interface record \<open>fast_api\<close> over the template type \<open>'t\<close>.
  \<^item> \<open>JSON.stringify\<close>, the truthiness test and the string conversion of
    JavaScript values are written out, since the console messages use them.
  \<^item> The module's \<open>editor\<close> variable, the \<open>JSONEditor\<close> instances it has
    referred to, the five buttons and the handlers installed by the last
    successful load form the state \<open>editor_page\<close>; \<open>newEditor\<close> issues the
    template fetch, and the fetch's completion, the widget's \<open>ready\<close> and
    \<open>change\<close> events, button clicks and the completion of a submit POST are
    events, so that overlapping loads can be stated.
\<close>

subsection \<open>JavaScript values\<close>

definition dq :: char where "dq = CHR 0x22"
definition bs :: char where "bs = CHR 0x5C"
definition nl :: char where "nl = CHR 0x0A"

text \<open>\<open>Array.prototype.join\<close> with a string separator.\<close>

fun join_str :: "string \<Rightarrow> string list \<Rightarrow> string" where
  "join_str sep [] = []"
| "join_str sep [w] = w"
| "join_str sep (w # ws) = w @ sep @ join_str sep ws"

definition hex_digit :: "nat \<Rightarrow> char" where
  "hex_digit n = ''0123456789abcdef'' ! n"

text \<open>\<open>QuoteJSONString\<close> for the 8-bit characters the model has.\<close>

definition json_escape_char :: "char \<Rightarrow> string" where
  "json_escape_char c =
     (let n = (of_char c :: nat) in
      if n = 34 then [bs, dq] else if n = 92 then [bs, bs]
      else if n = 8 then [bs, CHR ''b''] else if n = 12 then [bs, CHR ''f'']
      else if n = 10 then [bs, CHR ''n''] else if n = 13 then [bs, CHR ''r'']
      else if n = 9 then [bs, CHR ''t'']
      else if n < 32 then [bs, CHR ''u'', CHR ''0'', CHR ''0'', hex_digit (n div 16), hex_digit (n mod 16)]
      else [c])"

definition json_quote :: "string \<Rightarrow> string" where
  "json_quote s = dq # concat (map json_escape_char s) @ [dq]"

text \<open>
  \<open>JSON.stringify(v, null, gap)\<close> at indentation \<open>ind\<close>: \<open>gap = ''''\<close> is the
  compact form, \<open>gap = ''  ''\<close> the form \<open>JSON.stringify(v, null, 2)\<close>.
\<close>

fun json_stringify :: "string \<Rightarrow> string \<Rightarrow> json \<Rightarrow> string" where
  "json_stringify gap ind JNull = ''null''"
| "json_stringify gap ind (JBool b) = (if b then ''true'' else ''false'')"
| "json_stringify gap ind (JNum n) = string_of_int n"
| "json_stringify gap ind (JStr s) = json_quote s"
| "json_stringify gap ind (JArr xs) =
     (if xs = [] then ''[]''
      else if gap = [] then ''['' @ join_str '','' (map (json_stringify gap ind) xs) @ '']''
      else ''['' @ nl # ind @ gap @
             join_str ('','' @ nl # ind @ gap) (map (json_stringify gap (ind @ gap)) xs) @
             nl # ind @ '']'')"
| "json_stringify gap ind (JObj ps) =
     (if ps = [] then ''{}''
      else if gap = [] then
        ''{'' @ join_str '','' (map (\<lambda>(k, v). json_quote k @ '':'' @ json_stringify gap ind v) ps) @ ''}''
      else ''{'' @ nl # ind @ gap @
             join_str ('','' @ nl # ind @ gap)
               (map (\<lambda>(k, v). json_quote k @ '': '' @ json_stringify gap (ind @ gap) v) ps) @
             nl # ind @ ''}'')"

abbreviation stringify2 :: "json \<Rightarrow> string" where
  "stringify2 v \<equiv> json_stringify ''  '' '''' v"

fun js_truthy :: "json \<Rightarrow> bool" where
  "js_truthy JNull = False"
| "js_truthy (JBool b) = b"
| "js_truthy (JNum n) = (n \<noteq> 0)"
| "js_truthy (JStr s) = (s \<noteq> [])"
| "js_truthy (JArr xs) = True"
| "js_truthy (JObj ps) = True"

text \<open>\<open>String(v)\<close>, as a template literal converts a value.\<close>

fun js_to_string :: "json \<Rightarrow> string" where
  "js_to_string JNull = ''null''"
| "js_to_string (JBool b) = (if b then ''true'' else ''false'')"
| "js_to_string (JNum n) = string_of_int n"
| "js_to_string (JStr s) = s"
| "js_to_string (JArr xs) = join_str '','' (map (\<lambda>x. if x = JNull then [] else js_to_string x) xs)"
| "js_to_string (JObj ps) = ''[object Object]''"

text \<open>Reading an own property of a value that is not \<open>null\<close>; \<open>None\<close> is \<open>undefined\<close>.\<close>

definition json_prop :: "json \<Rightarrow> string \<Rightarrow> json option" where
  "json_prop v k = (case v of JObj ps \<Rightarrow> map_of ps k | _ \<Rightarrow> None)"

definition template_literal :: "json option \<Rightarrow> string" where
  "template_literal v = (case v of None \<Rightarrow> ''undefined'' | Some x \<Rightarrow> js_to_string x)"

subsection \<open>The external library\<close>

text \<open>
  What \<open>newEditor\<close> uses of the template library and the form widget:
  \<open>Template.fromJson\<close> (which may reject), \<open>getViewSchema\<close>,
  \<open>getCombinedView\<close> (its argument \<open>undefined\<close> is \<open>None\<close>),
  \<open>templateText\<close>, \<open>render\<close>, \<open>guiUtils.modSchemaForJSONEditor\<close> (in
  place, so a function of the schema), \<open>guiUtils.filterExtraProperties\<close>,
  \<open>yaml.safeLoad\<close> (which may throw), the widget's validator, which
  gives the number of \<open>validation_results\<close> of a value under a schema, and
  the exception \<open>JSONEditor.getValue\<close> throws on an instance that is not
  ready (before its \<open>ready\<close> event, or after \<open>destroy()\<close>).
\<close>

record 't fast_api =
  fromJson :: "json \<Rightarrow> js_error + 't"
  getViewSchema :: "'t \<Rightarrow> json"
  getCombinedView :: "'t \<Rightarrow> json option \<Rightarrow> json"
  templateText :: "'t \<Rightarrow> string"
  render :: "'t \<Rightarrow> json \<Rightarrow> string"
  modSchemaForJSONEditor :: "json \<Rightarrow> json"
  filterExtraProperties :: "json \<Rightarrow> json \<Rightarrow> json"
  safeLoad :: "string \<Rightarrow> js_error + json"
  validate :: "json \<Rightarrow> json \<Rightarrow> nat"
  notReadyError :: js_error

subsection \<open>State\<close>

text \<open>
  A \<open>JSONEditor\<close> instance: what it was created with, its value, its
  validation, whether it is ready and whether it was destroyed.
\<close>

record 't editor_widget =
  ew_tmplid :: string
  ew_tmpl :: 't
  ew_schema :: json
  ew_startval :: json
  ew_value :: json
  ew_errors :: nat
  ew_ready :: bool
  ew_destroyed :: bool

text \<open>The \<open>disabled\<close> flags of \<open>view-tmpl-btn\<close>, \<open>view-schema-btn\<close>, \<open>view-view-btn\<close>, \<open>view-render-btn\<close>, \<open>form-btn\<close>.\<close>

record buttons =
  view_tmpl_disabled :: bool
  view_schema_disabled :: bool
  view_view_disabled :: bool
  view_render_disabled :: bool
  form_disabled :: bool

text \<open>The variables the \<open>onclick\<close> closures of the last successful load capture.\<close>

record 't wiring =
  wire_tmplid :: string
  wire_tmpl :: 't
  wire_schema :: json

record 't editor_page =
  ed_console :: console
  widgets :: "'t editor_widget list"
  editor :: "nat option"
  btns :: buttons
  wired :: "'t wiring option"
  loads :: "(nat \<times> string \<times> json option) list"
  posts :: "nat list"
  next_id :: nat
  sent :: "http_request list"
  location :: "string option"
  ed_uncaught :: "js_error list"

subsection \<open>newEditor\<close>

text \<open>
  \<open>if (editor) editor.destroy()\<close>: the instance stops being ready; the
  variable keeps the destroyed instance.
\<close>

definition destroy_editor :: "'t editor_page \<Rightarrow> 't editor_page" where
  "destroy_editor st =
     (case editor st of
        None \<Rightarrow> st
      | Some i \<Rightarrow> st\<lparr>widgets := (widgets st)[i := (widgets st ! i)\<lparr>ew_ready := False, ew_destroyed := True\<rparr>]\<rparr>)"

text \<open>The synchronous part of \<open>newEditor(tmplid, view)\<close>: it ends by issuing the fetch.\<close>

definition newEditor :: "string \<Rightarrow> json option \<Rightarrow> 't editor_page \<Rightarrow> 't editor_page" where
  "newEditor tmplid view st =
     (let st1 = destroy_editor st
      in st1\<lparr>ed_console := dispOutput (''Loading template: '' @ tmplid) (ed_console st1),
             sent := sent st1 @ [simple_request GET (api_url (''templates/'' @ tmplid))],
             loads := loads st1 @ [(next_id st1, tmplid, view)],
             next_id := Suc (next_id st1)\<rparr>)"

text \<open>The first \<open>.then\<close>: \<open>data.code\<close> (a \<open>TypeError\<close> on \<open>null\<close>), then \<open>Template.fromJson\<close>.\<close>

definition template_of_data :: "'t fast_api \<Rightarrow> string \<Rightarrow> json \<Rightarrow> js_error + 't" where
  "template_of_data api tmplid data =
     (if data = JNull then Inl (TypeError ''Cannot read properties of null (reading 'code')'')
      else if (case json_prop data ''code'' of None \<Rightarrow> False | Some c \<Rightarrow> js_truthy c) then
        Inl (Error (''Error loading template '' @ dq # tmplid @ dq # '':'' @ nl #
                    template_literal (json_prop data ''message'')))
      else fromJson api data)"

text \<open>The second \<open>.then\<close>: the schema, the defaults, the widget and the handlers.\<close>

definition create_editor ::
  "'t fast_api \<Rightarrow> string \<Rightarrow> json option \<Rightarrow> 't \<Rightarrow> 't editor_page \<Rightarrow> 't editor_page" where
  "create_editor api tmplid view tmpl st =
     (let schema0 = getViewSchema api tmpl;
          c1 = dispOutput (''Creating editor with schema:'' @ nl # stringify2 schema0) (ed_console st);
          schema = modSchemaForJSONEditor api schema0;
          c2 = dispOutput (''Schema modified for the editor:'' @ nl # stringify2 schema) c1;
          defaults = filterExtraProperties api (getCombinedView api tmpl view) schema;
          w = \<lparr>ew_tmplid = tmplid, ew_tmpl = tmpl, ew_schema = schema, ew_startval = defaults,
               ew_value = defaults, ew_errors = validate api schema defaults, ew_ready = False,
               ew_destroyed = False\<rparr>
      in st\<lparr>ed_console := dispOutput ''Editor loaded'' c2,
            widgets := widgets st @ [w], editor := Some (length (widgets st)),
            wired := Some \<lparr>wire_tmplid = tmplid, wire_tmpl = tmpl, wire_schema = schema\<rparr>\<rparr>)"

text \<open>The template promise of \<open>newEditor\<close>, given the outcome of its fetch.\<close>

definition load_result :: "'t fast_api \<Rightarrow> string \<Rightarrow> json fetch_outcome \<Rightarrow> js_error + 't" where
  "load_result api tmplid out =
     (case getJSON (\<lambda>_. out) (''templates/'' @ tmplid) of
        Inl e \<Rightarrow> Inl e
      | Inr data \<Rightarrow> template_of_data api tmplid data)"

text \<open>The completion of the template fetch of load \<open>i\<close>, with the fetch's outcome.\<close>

definition load_settle ::
  "'t fast_api \<Rightarrow> nat \<Rightarrow> json fetch_outcome \<Rightarrow> 't editor_page \<Rightarrow> 't editor_page" where
  "load_settle api i out st =
     (case map_of (loads st) i of
        None \<Rightarrow> st
      | Some (tmplid, view) \<Rightarrow>
          (let st1 = st\<lparr>loads := filter (\<lambda>p. fst p \<noteq> i) (loads st)\<rparr>
           in case load_result api tmplid out of
                Inl e \<Rightarrow> st1\<lparr>ed_console := dispOutput (''Error loading editor:'' @ nl # err_message e) (ed_console st1)\<rparr>
              | Inr tmpl \<Rightarrow> create_editor api tmplid view tmpl st1))"

subsection \<open>Widget events and buttons\<close>

definition all_enabled :: buttons where
  "all_enabled = \<lparr>view_tmpl_disabled = False, view_schema_disabled = False, view_view_disabled = False,
                  view_render_disabled = False, form_disabled = False\<rparr>"

definition live_widget :: "'t editor_page \<Rightarrow> nat \<Rightarrow> bool" where
  "live_widget st w \<longleftrightarrow> w < length (widgets st) \<and> \<not> ew_destroyed (widgets st ! w)"

text \<open>The widget \<open>w\<close> becomes ready and emits \<open>ready\<close>, running the handler registered on it.\<close>

definition widget_ready :: "nat \<Rightarrow> 't editor_page \<Rightarrow> 't editor_page" where
  "widget_ready w st =
     (if live_widget st w then
        st\<lparr>widgets := (widgets st)[w := (widgets st ! w)\<lparr>ew_ready := True\<rparr>],
           ed_console := dispOutput ''Editor ready'' (ed_console st), btns := all_enabled\<rparr>
      else st)"

text \<open>
  The \<open>change\<close> handler registered on widget \<open>w\<close>, after the widget took the
  value \<open>v\<close> and revalidated it: it reads the module variable \<open>editor\<close>, not \<open>w\<close>.
\<close>

definition widget_change :: "'t fast_api \<Rightarrow> nat \<Rightarrow> json \<Rightarrow> 't editor_page \<Rightarrow> 't editor_page" where
  "widget_change api w v st =
     (if live_widget st w then
        (let ws = (widgets st)[w := (widgets st ! w)\<lparr>ew_value := v, ew_errors := validate api (ew_schema (widgets st ! w)) v\<rparr>]
         in st\<lparr>widgets := ws,
               btns := (btns st)\<lparr>form_disabled :=
                          (case editor st of None \<Rightarrow> form_disabled (btns st) | Some g \<Rightarrow> ew_errors (ws ! g) \<noteq> 0)\<rparr>\<rparr>)
      else st)"

datatype editor_button = ViewTmplBtn | ViewSchemaBtn | ViewViewBtn | ViewRenderBtn | FormBtn

primrec btn_disabled :: "editor_button \<Rightarrow> buttons \<Rightarrow> bool" where
  "btn_disabled ViewTmplBtn b = view_tmpl_disabled b"
| "btn_disabled ViewSchemaBtn b = view_schema_disabled b"
| "btn_disabled ViewViewBtn b = view_view_disabled b"
| "btn_disabled ViewRenderBtn b = view_render_disabled b"
| "btn_disabled FormBtn b = form_disabled b"

text \<open>
  \<open>editor.getValue()\<close> on the instance the module variable refers to: a
  \<open>TypeError\<close> while the variable is still \<open>null\<close> (line 20), the
  library's exception when the instance is not ready.
\<close>

definition cur_value :: "'t fast_api \<Rightarrow> 't editor_page \<Rightarrow> js_error + json" where
  "cur_value api st =
     (case editor st of
        None \<Rightarrow> Inl (TypeError ''Cannot read properties of null (reading 'getValue')'')
      | Some g \<Rightarrow> if ew_ready (widgets st ! g) then Inr (ew_value (widgets st ! g)) else Inl (notReadyError api))"

definition submit_body :: "string \<Rightarrow> json \<Rightarrow> json" where
  "submit_body tmplid v = JObj [(''name'', JStr tmplid), (''parameters'', v)]"

definition submit_data :: "string \<Rightarrow> json \<Rightarrow> json" where
  "submit_data tmplid v =
     JObj [(''method'', JStr ''POST''),
           (''headers'', JObj [(''Content-Type'', JStr ''application/json'')]),
           (''body'', JStr (json_stringify '''' '''' (submit_body tmplid v)))]"

text \<open>The \<open>form-btn\<close> handler up to the \<open>fetch\<close> it issues.\<close>

definition submit :: "string \<Rightarrow> json \<Rightarrow> 't editor_page \<Rightarrow> 't editor_page" where
  "submit tmplid v st =
     st\<lparr>ed_console := dispOutput (stringify2 (submit_data tmplid v)) (ed_console st),
        sent := sent st @ [json_request (api_url ''applications'') (submit_body tmplid v)],
        posts := posts st @ [next_id st], next_id := Suc (next_id st)\<rparr>"

text \<open>
  A click on an enabled button runs the handler the last successful load
  installed; an exception it throws is uncaught.
\<close>

definition click :: "'t fast_api \<Rightarrow> editor_button \<Rightarrow> 't editor_page \<Rightarrow> 't editor_page" where
  "click api b st =
     (if btn_disabled b (btns st) then st
      else case wired st of
        None \<Rightarrow> st
      | Some wr \<Rightarrow>
          (case b of
             ViewTmplBtn \<Rightarrow> st\<lparr>ed_console := dispOutput (templateText api (wire_tmpl wr)) (ed_console st)\<rparr>
           | ViewSchemaBtn \<Rightarrow> st\<lparr>ed_console := dispOutput (stringify2 (wire_schema wr)) (ed_console st)\<rparr>
           | ViewViewBtn \<Rightarrow>
               (case cur_value api st of
                  Inl e \<Rightarrow> st\<lparr>ed_uncaught := ed_uncaught st @ [e]\<rparr>
                | Inr v \<Rightarrow> st\<lparr>ed_console := dispOutput (stringify2 (getCombinedView api (wire_tmpl wr) (Some v)))
                                           (ed_console st)\<rparr>)
           | ViewRenderBtn \<Rightarrow>
               (case cur_value api st of
                  Inl e \<Rightarrow> st\<lparr>ed_uncaught := ed_uncaught st @ [e]\<rparr>
                | Inr v \<Rightarrow>
                    (case safeLoad api (render api (wire_tmpl wr) v) of
                       Inl e \<Rightarrow> st\<lparr>ed_uncaught := ed_uncaught st @ [e]\<rparr>
                     | Inr j \<Rightarrow> st\<lparr>ed_console := dispOutput (stringify2 j) (ed_console st)\<rparr>))
           | FormBtn \<Rightarrow>
               (case cur_value api st of
                  Inl e \<Rightarrow> st\<lparr>ed_uncaught := ed_uncaught st @ [e]\<rparr>
                | Inr v \<Rightarrow> submit (wire_tmplid wr) v st)))"

text \<open>
  The completion of submit \<open>i\<close>: \<open>response.json()\<close>, the result shown, then
  \<open>#tasks\<close>; the status is not looked at and the chain has no \<open>.catch\<close>.
\<close>

definition post_settle :: "nat \<Rightarrow> json fetch_outcome \<Rightarrow> 't editor_page \<Rightarrow> 't editor_page" where
  "post_settle i out st =
     (if i \<notin> set (posts st) then st
      else
        (let st1 = st\<lparr>posts := filter (\<lambda>j. j \<noteq> i) (posts st)\<rparr>
         in case out of
              Net_Error m \<Rightarrow> st1\<lparr>ed_uncaught := ed_uncaught st1 @ [TypeError m]\<rparr>
            | Response r \<Rightarrow>
                (case response_json r of
                   Inl e \<Rightarrow> st1\<lparr>ed_uncaught := ed_uncaught st1 @ [e]\<rparr>
                 | Inr result \<Rightarrow>
                     st1\<lparr>ed_console := dispOutput (stringify2 result) (ed_console st1),
                         location := Some ''#tasks''\<rparr>)))"

datatype editor_event =
    NewEditor string "json option"
  | LoadSettle nat "json fetch_outcome"
  | Ready nat
  | Change nat json
  | Click editor_button
  | PostSettle nat "json fetch_outcome"

primrec editor_step :: "'t fast_api \<Rightarrow> editor_event \<Rightarrow> 't editor_page \<Rightarrow> 't editor_page" where
  "editor_step api (NewEditor tmplid view) st = newEditor tmplid view st"
| "editor_step api (LoadSettle i out) st = load_settle api i out st"
| "editor_step api (Ready w) st = widget_ready w st"
| "editor_step api (Change w v) st = widget_change api w v st"
| "editor_step api (Click b) st = click api b st"
| "editor_step api (PostSettle i out) st = post_settle i out st"

fun editor_run :: "'t fast_api \<Rightarrow> editor_event list \<Rightarrow> 't editor_page \<Rightarrow> 't editor_page" where
  "editor_run api [] st = st"
| "editor_run api (e # es) st = editor_run api es (editor_step api e st)"

subsection \<open>The create and modify controllers\<close>

text \<open>
  \<open>route('create')\<close>: a row of buttons per template set, one per template
  name; a click on button \<open>item\<close> runs \<open>newEditor(item)\<close>, the \<open>view\<close>
  being \<open>undefined\<close>. Rejections end in \<open>dispOutput(e.message)\<close>.
\<close>

definition template_buttons :: "template_set list \<Rightarrow> string list list" where
  "template_buttons sets = map (\<lambda>setData. map tmpl_name (ts_templates setData)) sets"

definition create_controller ::
  "template_set list server \<Rightarrow> 't editor_page \<Rightarrow> string list list \<times> 't editor_page" where
  "create_controller srv st =
     (let c1 = dispOutput ''Fetching templates'' (set_outputElem (ed_console st))
      in case getJSON srv ''templatesets'' of
           Inr data \<Rightarrow> (template_buttons data, st\<lparr>ed_console := dispOutput '''' c1\<rparr>)
         | Inl e \<Rightarrow> ([], st\<lparr>ed_console := dispOutput (err_message e) c1\<rparr>))"

text \<open>
  \<open>appData.constants.fast\<close>, then its \<open>template\<close> and \<open>view\<close>, with the
  \<open>TypeError\<close> a missing or \<open>null\<close> link raises; the template id reaches
  \<open>newEditor\<close> through template literals, so it is its string conversion.
\<close>

definition app_fast_def :: "json \<Rightarrow> js_error + (string \<times> json option)" where
  "app_fast_def appData =
     (if appData = JNull then Inl (TypeError ''Cannot read properties of null (reading 'constants')'')
      else case json_prop appData ''constants'' of
        None \<Rightarrow> Inl (TypeError ''Cannot read properties of undefined (reading 'fast')'')
      | Some cs \<Rightarrow>
          if cs = JNull then Inl (TypeError ''Cannot read properties of null (reading 'fast')'')
          else case json_prop cs ''fast'' of
            None \<Rightarrow> Inl (TypeError ''Cannot read properties of undefined (reading 'template')'')
          | Some d \<Rightarrow>
              if d = JNull then Inl (TypeError ''Cannot read properties of null (reading 'template')'')
              else Inr (template_literal (json_prop d ''template''), json_prop d ''view''))"

text \<open>\<open>route('modify')\<close> with the route argument \<open>appID\<close>.\<close>

definition modify_controller :: "json server \<Rightarrow> string \<Rightarrow> 't editor_page \<Rightarrow> 't editor_page" where
  "modify_controller srv appID st =
     (let st1 = st\<lparr>ed_console := dispOutput (''Fetching app data for '' @ appID) (set_outputElem (ed_console st))\<rparr>;
          r = (case getJSON srv (''applications/'' @ appID) of Inl e \<Rightarrow> Inl e | Inr appData \<Rightarrow> app_fast_def appData)
      in case r of
           Inl e \<Rightarrow> st1\<lparr>ed_console := dispOutput (err_message e) (ed_console st1)\<rparr>
         | Inr (tmplid, view) \<Rightarrow> newEditor tmplid view st1)"

subsection \<open>The library functions as the specification describes them\<close>

text \<open>
  \<open>getCombinedView\<close> combines the template's own view with the supplied one,
  the supplied values winning (\<open>Object.assign\<close> order); \<open>filterExtraProperties\<close>
  keeps the properties the schema's \<open>properties\<close> recognises. These are the
  behaviours of the external library stated in the specification, used to run
  the model on its example.
\<close>

definition spec_getCombinedView :: "json \<Rightarrow> json option \<Rightarrow> json" where
  "spec_getCombinedView defaults view =
     (case (defaults, view) of
        (JObj d, Some (JObj v)) \<Rightarrow> JObj (fold (\<lambda>(k, x) acc. obj_set acc k x) v d)
      | _ \<Rightarrow> defaults)"

definition spec_filterExtraProperties :: "json \<Rightarrow> json \<Rightarrow> json" where
  "spec_filterExtraProperties v schema =
     (case (v, json_prop schema ''properties'') of
        (JObj ps, Some (JObj props)) \<Rightarrow> JObj (filter (\<lambda>(k, _). k \<in> set (map fst props)) ps)
      | _ \<Rightarrow> v)"

subsection \<open>Initial page\<close>

definition init_page :: "console \<Rightarrow> buttons \<Rightarrow> 't editor_page" where
  "init_page c b =
     \<lparr>ed_console = c, widgets = [], editor = None, btns = b, wired = None, loads = [], posts = [],
      next_id = 0, sent = [], location = None, ed_uncaught = []\<rparr>"

text \<open>
  Sequential use of the editor: a new load is started only once the previous
  one has completed; every other event may happen at any time.
\<close>

inductive seq_editor :: "'t fast_api \<Rightarrow> 't editor_page \<Rightarrow> 't editor_page \<Rightarrow> bool"
  for api s0 where
  start: "seq_editor api s0 s0"
| new: "seq_editor api s0 st \<Longrightarrow> loads st = [] \<Longrightarrow> seq_editor api s0 (newEditor tmplid view st)"
| settle: "seq_editor api s0 st \<Longrightarrow> seq_editor api s0 (load_settle api i out st)"
| ready: "seq_editor api s0 st \<Longrightarrow> seq_editor api s0 (widget_ready w st)"
| change: "seq_editor api s0 st \<Longrightarrow> seq_editor api s0 (widget_change api w v st)"
| click: "seq_editor api s0 st \<Longrightarrow> seq_editor api s0 (click api b st)"
| posted: "seq_editor api s0 st \<Longrightarrow> seq_editor api s0 (post_settle i out st)"

text \<open>
  The invariant of sequential use: every live widget is the one the module
  variable refers to, no widget is live while a load is pending, at most one load
  is pending, and the variable refers to an existing widget.
\<close>

definition editor_inv :: "'t editor_page \<Rightarrow> bool" where
  "editor_inv st \<longleftrightarrow>
     (let ds = map ew_destroyed (widgets st) in
      (\<forall>j < length ds. \<not> ds ! j \<longrightarrow> editor st = Some j) \<and>
      (loads st \<noteq> [] \<longrightarrow> list_all id ds) \<and> length (loads st) \<le> 1 \<and>
      (case editor st of None \<Rightarrow> True | Some g \<Rightarrow> g < length ds))"

definition live_count :: "'t editor_page \<Rightarrow> nat" where
  "live_count st = length (filter (\<lambda>w. \<not> ew_destroyed w) (widgets st))"

text \<open>The page as first loaded: an empty console and the five buttons disabled.\<close>

definition blank_console :: console where
  "blank_console = \<lparr>console_log = [], output_set = False, output_text = []\<rparr>"

definition disabled_buttons :: buttons where
  "disabled_buttons = \<lparr>view_tmpl_disabled = True, view_schema_disabled = True, view_view_disabled = True,
                        view_render_disabled = True, form_disabled = True\<rparr>"


subsection \<open>Lemmas\<close>

lemma load_settle_ok:
  "map_of (loads st) i = Some (tmplid, view) \<Longrightarrow> load_result api tmplid out = Inr tmpl \<Longrightarrow>
   load_settle api i out st = create_editor api tmplid view tmpl (st\<lparr>loads := filter (\<lambda>p. fst p \<noteq> i) (loads st)\<rparr>)"
  by (simp add: load_settle_def)

lemma load_settle_error:
  "map_of (loads st) i = Some (tmplid, view) \<Longrightarrow> load_result api tmplid out = Inl e \<Longrightarrow>
   load_settle api i out st =
     st\<lparr>loads := filter (\<lambda>p. fst p \<noteq> i) (loads st),
        ed_console := dispOutput (''Error loading editor:'' @ nl # err_message e) (ed_console st)\<rparr>"
  by (simp add: load_settle_def)

lemma load_settle_none: "map_of (loads st) i = None \<Longrightarrow> load_settle api i out st = st"
  by (simp add: load_settle_def)

lemma load_result_ok:
  "resp_ok r \<Longrightarrow> resp_json r = Inr data \<Longrightarrow> data \<noteq> JNull \<Longrightarrow>
   \<not> (case json_prop data ''code'' of None \<Rightarrow> False | Some c \<Rightarrow> js_truthy c) \<Longrightarrow>
   load_result api tmplid (Response r) = fromJson api data"
  by (simp add: load_result_def getJSON_def response_json_def template_of_data_def)

lemma load_result_code:
  "resp_ok r \<Longrightarrow> resp_json r = Inr data \<Longrightarrow> json_prop data ''code'' = Some c \<Longrightarrow> js_truthy c \<Longrightarrow>
   load_result api tmplid (Response r) =
     Inl (Error (''Error loading template '' @ dq # tmplid @ dq # '':'' @ nl #
                 template_literal (json_prop data ''message'')))"
  by (auto simp: load_result_def getJSON_def response_json_def template_of_data_def json_prop_def)

lemma widgets_destroy_editor:
  "widgets (destroy_editor st) =
     (case editor st of
        None \<Rightarrow> widgets st
      | Some i \<Rightarrow> (widgets st)[i := (widgets st ! i)\<lparr>ew_ready := False, ew_destroyed := True\<rparr>])"
  by (simp add: destroy_editor_def split: option.split)

lemma destroy_editor_other [simp]:
  "editor (destroy_editor st) = editor st" "btns (destroy_editor st) = btns st"
  "wired (destroy_editor st) = wired st" "loads (destroy_editor st) = loads st"
  "posts (destroy_editor st) = posts st" "next_id (destroy_editor st) = next_id st"
  "sent (destroy_editor st) = sent st" "ed_console (destroy_editor st) = ed_console st"
  "length (widgets (destroy_editor st)) = length (widgets st)"
  by (simp_all add: destroy_editor_def split: option.split)

lemma editor_inv_cong:
  "map ew_destroyed (widgets t) = map ew_destroyed (widgets s) \<Longrightarrow> editor t = editor s \<Longrightarrow>
   loads t = loads s \<Longrightarrow> editor_inv t = editor_inv s"
  by (simp add: editor_inv_def Let_def)

lemma shape_widget_ready:
  "map ew_destroyed (widgets (widget_ready w st)) = map ew_destroyed (widgets st) \<and>
   editor (widget_ready w st) = editor st \<and> loads (widget_ready w st) = loads st"
  by (auto simp: widget_ready_def live_widget_def map_update list_eq_iff_nth_eq nth_list_update)

lemma shape_widget_change:
  "map ew_destroyed (widgets (widget_change api w v st)) = map ew_destroyed (widgets st) \<and>
   editor (widget_change api w v st) = editor st \<and> loads (widget_change api w v st) = loads st"
  by (auto simp: widget_change_def Let_def live_widget_def map_update list_eq_iff_nth_eq nth_list_update)

lemma shape_click:
  "widgets (click api b st) = widgets st \<and> editor (click api b st) = editor st \<and>
   loads (click api b st) = loads st"
  by (simp add: click_def submit_def split: option.split editor_button.split sum.split)

lemma shape_post_settle:
  "widgets (post_settle i out st) = widgets st \<and> editor (post_settle i out st) = editor st \<and>
   loads (post_settle i out st) = loads st"
  by (simp add: post_settle_def Let_def split: fetch_outcome.split sum.split)

lemma editor_inv_newEditor:
  assumes "editor_inv st" "loads st = []"
  shows "editor_inv (newEditor tmplid view st)"
proof -
  let ?ds = "map ew_destroyed (widgets st)"
  have ds': "map ew_destroyed (widgets (newEditor tmplid view st)) =
             (case editor st of None \<Rightarrow> ?ds | Some g \<Rightarrow> ?ds[g := True])"
    by (simp add: newEditor_def Let_def widgets_destroy_editor map_update split: option.split)
  have "list_all id (case editor st of None \<Rightarrow> ?ds | Some g \<Rightarrow> ?ds[g := True])"
    using assms(1) by (auto simp: editor_inv_def list_all_length nth_list_update split: option.splits)
  moreover have "editor (newEditor tmplid view st) = editor st"
    and "loads (newEditor tmplid view st) = [(next_id st, tmplid, view)]"
    using assms(2) by (simp_all add: newEditor_def Let_def)
  ultimately show ?thesis
    using assms(1) unfolding editor_inv_def Let_def ds'
    by (auto simp: list_all_length split: option.splits)
qed

lemma loads_single:
  "length (loads st) \<le> 1 \<Longrightarrow> map_of (loads st) i = Some p \<Longrightarrow> filter (\<lambda>q. fst q \<noteq> i) (loads st) = []"
  by (cases "loads st") (auto split: if_splits)

lemma editor_inv_load_settle:
  assumes inv: "editor_inv st"
  shows "editor_inv (load_settle api i out st)"
proof (cases "map_of (loads st) i")
  case None
  then show ?thesis using inv by (simp add: load_settle_none)
next
  case (Some p)
  obtain tmplid view where p: "p = (tmplid, view)" by (cases p)
  have empty: "filter (\<lambda>q. fst q \<noteq> i) (loads st) = []"
    using inv Some by (intro loads_single) (simp_all add: editor_inv_def Let_def)
  have dead: "list_all id (map ew_destroyed (widgets st))"
    using inv Some by (auto simp: editor_inv_def Let_def)
  show ?thesis
  proof (cases "load_result api tmplid out")
    case (Inl e)
    then show ?thesis using inv Some p empty
      by (simp add: load_settle_error editor_inv_def Let_def)
  next
    case (Inr tmpl)
    then show ?thesis using Some p empty dead
      by (auto simp: load_settle_ok create_editor_def Let_def editor_inv_def list_all_length nth_append)
  qed
qed

lemma editor_inv_init: "editor_inv (init_page c b)"
  by (simp add: editor_inv_def init_page_def)

lemma seq_editor_inv: "seq_editor api s0 st \<Longrightarrow> editor_inv s0 \<Longrightarrow> editor_inv st"
proof (induction rule: seq_editor.induct)
  case start
  then show ?case .
next
  case (new st tmplid view)
  then show ?case by (simp add: editor_inv_newEditor)
next
  case (settle st i out)
  then show ?case by (simp add: editor_inv_load_settle)
next
  case (ready st w)
  then show ?case using editor_inv_cong[of "widget_ready w st" st] by (simp add: shape_widget_ready)
next
  case (change st w v)
  then show ?case using editor_inv_cong[of "widget_change api w v st" st] by (simp add: shape_widget_change)
next
  case (click st b)
  then show ?case using editor_inv_cong[of "click api b st" st] by (simp add: shape_click)
next
  case (posted st i out)
  then show ?case using editor_inv_cong[of "post_settle i out st" st] by (simp add: shape_post_settle)
qed

lemma live_count_le_1:
  assumes "\<forall>j < length (widgets st). \<not> ew_destroyed (widgets st ! j) \<longrightarrow> editor st = Some j"
  shows "live_count st \<le> 1"
proof -
  have "{j. j < length (widgets st) \<and> \<not> ew_destroyed (widgets st ! j)} \<subseteq>
        (case editor st of None \<Rightarrow> {} | Some g \<Rightarrow> {g})"
    using assms by (auto split: option.split)
  then have "card {j. j < length (widgets st) \<and> \<not> ew_destroyed (widgets st ! j)} \<le> 1"
    by (metis (no_types, lifting) card.empty card.insert card_mono empty_iff finite.emptyI
        finite.insertI le_zero_eq option.case_eq_if zero_le_one One_nat_def)
  then show ?thesis by (simp add: live_count_def length_filter_conv_card)
qed











subsection \<open>Properties of the editor builder\<close>

text \<open>
  C35: when the template fetch of a pending load answers 2xx with a template that
  has no truthy \<open>code\<close> and that \<open>Template.fromJson\<close> accepts, a new widget
  becomes the module's \<open>editor\<close>, created on the adapted view schema with the
  start value \<open>filterExtraProperties(getCombinedView(view), schema)\<close>; the
  buttons keep their state until the widget is ready, and the console shows the
  schema, the adapted schema and \<open>Editor loaded\<close>.
\<close>

theorem newEditor_load_success:
  "map_of (loads st) i = Some (tmplid, view) \<Longrightarrow>
   resp_ok r \<Longrightarrow> resp_json r = Inr data \<Longrightarrow> data \<noteq> JNull \<Longrightarrow>
   \<not> (case json_prop data ''code'' of None \<Rightarrow> False | Some c \<Rightarrow> js_truthy c) \<Longrightarrow>
   fromJson api data = Inr tmpl \<Longrightarrow>
   schema = modSchemaForJSONEditor api (getViewSchema api tmpl) \<Longrightarrow>
   defaults = filterExtraProperties api (getCombinedView api tmpl view) schema \<Longrightarrow>
   editor (load_settle api i (Response r) st) = Some (length (widgets st)) \<and>
   widgets (load_settle api i (Response r) st) =
     widgets st @ [\<lparr>ew_tmplid = tmplid, ew_tmpl = tmpl, ew_schema = schema, ew_startval = defaults,
                    ew_value = defaults, ew_errors = validate api schema defaults, ew_ready = False,
                    ew_destroyed = False\<rparr>] \<and>
   btns (load_settle api i (Response r) st) = btns st \<and>
   console_log (ed_console (load_settle api i (Response r) st)) =
     console_log (ed_console st) @
       [''Creating editor with schema:'' @ nl # stringify2 (getViewSchema api tmpl),
        ''Schema modified for the editor:'' @ nl # stringify2 schema, ''Editor loaded'']"
  by (simp add: load_settle_ok load_result_ok create_editor_def Let_def)

theorem newEditor_load_success_witness:
  "ew_startval (last (widgets (load_settle
      \<lparr>fromJson = \<lambda>d. Inr d,
       getViewSchema = \<lambda>t. JObj [(''properties'', JObj [(''a'', JObj []), (''b'', JObj [])])],
       getCombinedView = \<lambda>t. spec_getCombinedView (JObj [(''a'', JNum 1), (''b'', JNum 2)]),
       templateText = \<lambda>t. '''', render = \<lambda>t v. '''', modSchemaForJSONEditor = \<lambda>s. s,
       filterExtraProperties = spec_filterExtraProperties, safeLoad = \<lambda>s. Inr JNull, validate = \<lambda>s v. 0, notReadyError = Error ''JSONEditor not ready''\<rparr>
      0 (Response \<lparr>resp_status = 200, resp_status_text = ''OK'', resp_json = Inr (JObj [(''name'', JStr ''A'')])\<rparr>)
      (newEditor ''examples/simple_http'' (Some (JObj [(''b'', JNum 3), (''c'', JNum 4)])) (init_page blank_console disabled_buttons))))) =
   JObj [(''a'', JNum 1), (''b'', JNum 3)]"
proof -
  let ?api = "\<lparr>fromJson = \<lambda>d. Inr d,
       getViewSchema = \<lambda>t. JObj [(''properties'', JObj [(''a'', JObj []), (''b'', JObj [])])],
       getCombinedView = \<lambda>t. spec_getCombinedView (JObj [(''a'', JNum 1), (''b'', JNum 2)]),
       templateText = \<lambda>t. '''', render = \<lambda>t v. '''', modSchemaForJSONEditor = \<lambda>s. s,
       filterExtraProperties = spec_filterExtraProperties, safeLoad = \<lambda>s. Inr JNull, validate = \<lambda>s v. 0, notReadyError = Error ''JSONEditor not ready''\<rparr>
       :: json fast_api"
  let ?st = "newEditor ''examples/simple_http'' (Some (JObj [(''b'', JNum 3), (''c'', JNum 4)])) (init_page blank_console disabled_buttons)
             :: json editor_page"
  have l: "map_of (loads ?st) 0 = Some (''examples/simple_http'', Some (JObj [(''b'', JNum 3), (''c'', JNum 4)]))"
    by (simp add: newEditor_def init_page_def destroy_editor_def)
  have w: "widgets ?st = []" by (simp add: newEditor_def init_page_def destroy_editor_def)
  show ?thesis
    using newEditor_load_success[OF l, where api = ?api and tmpl = "JObj [(''name'', JStr ''A'')]",
            of "\<lparr>resp_status = 200, resp_status_text = ''OK'', resp_json = Inr (JObj [(''name'', JStr ''A'')])\<rparr>"]
    by (simp add: w resp_ok_def json_prop_def spec_getCombinedView_def spec_filterExtraProperties_def)
qed

text \<open>
  C37: the widget's \<open>ready\<close> event enables all five buttons, the submit button
  included, whatever the validation of the start value; a \<open>change\<close> of the
  current widget then disables the submit button exactly when the new value has
  validation errors.
\<close>

theorem editor_form_button:
  "live_widget st w \<Longrightarrow> editor st = Some w \<Longrightarrow>
   btns (widget_ready w st) = all_enabled \<and>
   (form_disabled (btns (widget_change api w v st)) \<longleftrightarrow> validate api (ew_schema (widgets st ! w)) v \<noteq> 0)"
  by (simp add: widget_ready_def widget_change_def Let_def live_widget_def)

theorem editor_form_button_witness:
  "btns (widget_ready 0 (load_settle
      \<lparr>fromJson = \<lambda>d. Inr d, getViewSchema = \<lambda>t. JObj [], getCombinedView = \<lambda>t v. JObj [],
       templateText = \<lambda>t. '''', render = \<lambda>t v. '''', modSchemaForJSONEditor = \<lambda>s. s,
       filterExtraProperties = \<lambda>v s. v, safeLoad = \<lambda>s. Inr JNull, validate = \<lambda>s v. 1, notReadyError = Error ''JSONEditor not ready''\<rparr>
      0 (Response \<lparr>resp_status = 200, resp_status_text = ''OK'', resp_json = Inr (JObj [])\<rparr>)
      (newEditor ''examples/simple_http'' None (init_page blank_console disabled_buttons)))) = all_enabled \<and>
   form_disabled (btns (widget_change
      \<lparr>fromJson = \<lambda>d. Inr d, getViewSchema = \<lambda>t. JObj [], getCombinedView = \<lambda>t v. JObj [],
       templateText = \<lambda>t. '''', render = \<lambda>t v. '''', modSchemaForJSONEditor = \<lambda>s. s,
       filterExtraProperties = \<lambda>v s. v, safeLoad = \<lambda>s. Inr JNull, validate = \<lambda>s v. 1, notReadyError = Error ''JSONEditor not ready''\<rparr>
      0 (JStr ''x'') (load_settle
      \<lparr>fromJson = \<lambda>d. Inr d, getViewSchema = \<lambda>t. JObj [], getCombinedView = \<lambda>t v. JObj [],
       templateText = \<lambda>t. '''', render = \<lambda>t v. '''', modSchemaForJSONEditor = \<lambda>s. s,
       filterExtraProperties = \<lambda>v s. v, safeLoad = \<lambda>s. Inr JNull, validate = \<lambda>s v. 1, notReadyError = Error ''JSONEditor not ready''\<rparr>
      0 (Response \<lparr>resp_status = 200, resp_status_text = ''OK'', resp_json = Inr (JObj [])\<rparr>)
      (newEditor ''examples/simple_http'' None (init_page blank_console disabled_buttons)))))"
proof -
  let ?api = "\<lparr>fromJson = \<lambda>d. Inr d, getViewSchema = \<lambda>t. JObj [], getCombinedView = \<lambda>t v. JObj [],
       templateText = \<lambda>t. '''', render = \<lambda>t v. '''', modSchemaForJSONEditor = \<lambda>s. s,
       filterExtraProperties = \<lambda>v s. v, safeLoad = \<lambda>s. Inr JNull, validate = \<lambda>s v. 1, notReadyError = Error ''JSONEditor not ready''\<rparr> :: json fast_api"
  let ?st = "load_settle ?api 0 (Response \<lparr>resp_status = 200, resp_status_text = ''OK'', resp_json = Inr (JObj [])\<rparr>)
      (newEditor ''examples/simple_http'' None (init_page blank_console disabled_buttons))"
  have st: "live_widget ?st 0 \<and> editor ?st = Some 0 \<and> ew_schema (widgets ?st ! 0) = JObj []"
    by (simp add: live_widget_def load_settle_def load_result_def getJSON_def response_json_def resp_ok_def
                  template_of_data_def json_prop_def create_editor_def newEditor_def destroy_editor_def
                  init_page_def Let_def)
  show ?thesis using editor_form_button[of ?st 0 ?api "JStr ''x''"] st by simp
qed

text \<open>
  C38: a click on the enabled submit button POSTs \<open>{name, parameters}\<close> to
  \<open>/mgmt/shared/fast/applications\<close>, with the template id of the last
  successful load and the value of the current editor, when that editor is
  ready (\<open>getValue\<close> succeeds); once the answer's body
  parses, the page moves to \<open>#tasks\<close>, whatever the answer's status.
\<close>

theorem submit_then_tasks:
  "\<not> form_disabled (btns st) \<Longrightarrow> wired st = Some wr \<Longrightarrow>
   editor st = Some g \<Longrightarrow> ew_ready (widgets st ! g) \<Longrightarrow> resp_json r = Inr result \<Longrightarrow>
   sent (click api FormBtn st) =
     sent st @ [json_request ''/mgmt/shared/fast/applications''
                  (JObj [(''name'', JStr (wire_tmplid wr)), (''parameters'', ew_value (widgets st ! g))])] \<and>
   location (post_settle (next_id st) (Response r) (click api FormBtn st)) = Some ''#tasks''"
  by (simp add: click_def cur_value_def submit_def submit_body_def post_settle_def response_json_def
                api_url_def endPointUrl_def)

theorem submit_then_tasks_witness:
  "location (post_settle 1
      (Response \<lparr>resp_status = 500, resp_status_text = ''Internal Server Error'',
                 resp_json = Inr (JObj [(''message'', JStr ''declaration failed'')])\<rparr>)
      (click
        \<lparr>fromJson = \<lambda>d. Inr d, getViewSchema = \<lambda>t. JObj [], getCombinedView = \<lambda>t v. JObj [],
         templateText = \<lambda>t. '''', render = \<lambda>t v. '''', modSchemaForJSONEditor = \<lambda>s. s,
         filterExtraProperties = \<lambda>v s. v, safeLoad = \<lambda>s. Inr JNull, validate = \<lambda>s v. 0, notReadyError = Error ''JSONEditor not ready''\<rparr> FormBtn
        (widget_ready 0 (load_settle
          \<lparr>fromJson = \<lambda>d. Inr d, getViewSchema = \<lambda>t. JObj [], getCombinedView = \<lambda>t v. JObj [],
           templateText = \<lambda>t. '''', render = \<lambda>t v. '''', modSchemaForJSONEditor = \<lambda>s. s,
           filterExtraProperties = \<lambda>v s. v, safeLoad = \<lambda>s. Inr JNull, validate = \<lambda>s v. 0, notReadyError = Error ''JSONEditor not ready''\<rparr>
          0 (Response \<lparr>resp_status = 200, resp_status_text = ''OK'', resp_json = Inr (JObj [])\<rparr>)
          (newEditor ''examples/simple_http'' None (init_page blank_console disabled_buttons)))))) =
   Some ''#tasks''"
proof -
  let ?api = "\<lparr>fromJson = \<lambda>d. Inr d, getViewSchema = \<lambda>t. JObj [], getCombinedView = \<lambda>t v. JObj [],
       templateText = \<lambda>t. '''', render = \<lambda>t v. '''', modSchemaForJSONEditor = \<lambda>s. s,
       filterExtraProperties = \<lambda>v s. v, safeLoad = \<lambda>s. Inr JNull, validate = \<lambda>s v. 0, notReadyError = Error ''JSONEditor not ready''\<rparr> :: json fast_api"
  let ?st = "widget_ready 0 (load_settle ?api 0
            (Response \<lparr>resp_status = 200, resp_status_text = ''OK'', resp_json = Inr (JObj [])\<rparr>)
            (newEditor ''examples/simple_http'' None (init_page blank_console disabled_buttons)))"
  have st: "\<not> form_disabled (btns ?st) \<and> next_id ?st = 1 \<and>
            wired ?st = Some \<lparr>wire_tmplid = ''examples/simple_http'', wire_tmpl = JObj [], wire_schema = JObj []\<rparr> \<and>
            editor ?st = Some 0 \<and> ew_ready (widgets ?st ! 0)"
    by (simp add: widget_ready_def live_widget_def all_enabled_def load_settle_def load_result_def getJSON_def
                  response_json_def resp_ok_def template_of_data_def json_prop_def create_editor_def
                  newEditor_def destroy_editor_def init_page_def Let_def)
  show ?thesis
    using submit_then_tasks[of ?st, where api = ?api and g = 0 and result = "JObj [(''message'', JStr ''declaration failed'')]"
            and r = "\<lparr>resp_status = 500, resp_status_text = ''Internal Server Error'',
                      resp_json = Inr (JObj [(''message'', JStr ''declaration failed'')])\<rparr>"] st
    by simp
qed

text \<open>
  C32: when loads do not overlap (each \<open>newEditor\<close> call waits for the previous
  template fetch to complete), the only widget that is not destroyed is the one
  the module variable \<open>editor\<close> refers to: at most one form is live.
\<close>

theorem sequential_loads_single_editor:
  "seq_editor api (init_page c b) st \<Longrightarrow> live_widget st w \<Longrightarrow> editor st = Some w \<and> live_count st \<le> 1"
proof -
  assume r: "seq_editor api (init_page c b) st" and w: "live_widget st w"
  have inv: "editor_inv st" using seq_editor_inv[OF r editor_inv_init] .
  then have all: "\<forall>j < length (widgets st). \<not> ew_destroyed (widgets st ! j) \<longrightarrow> editor st = Some j"
    by (simp add: editor_inv_def Let_def)
  then show ?thesis using w live_count_le_1[OF all] by (simp add: live_widget_def)
qed

theorem sequential_loads_single_editor_witness:
  "editor (load_settle
      \<lparr>fromJson = \<lambda>d. Inr d, getViewSchema = \<lambda>t. JObj [], getCombinedView = \<lambda>t v. JObj [],
       templateText = \<lambda>t. '''', render = \<lambda>t v. '''', modSchemaForJSONEditor = \<lambda>s. s,
       filterExtraProperties = \<lambda>v s. v, safeLoad = \<lambda>s. Inr JNull, validate = \<lambda>s v. 0, notReadyError = Error ''JSONEditor not ready''\<rparr>
      0 (Response \<lparr>resp_status = 200, resp_status_text = ''OK'', resp_json = Inr (JObj [])\<rparr>)
      (newEditor ''examples/simple_http'' None (init_page blank_console disabled_buttons))) = Some 0"
proof -
  let ?api = "\<lparr>fromJson = \<lambda>d. Inr d, getViewSchema = \<lambda>t. JObj [], getCombinedView = \<lambda>t v. JObj [],
       templateText = \<lambda>t. '''', render = \<lambda>t v. '''', modSchemaForJSONEditor = \<lambda>s. s,
       filterExtraProperties = \<lambda>v s. v, safeLoad = \<lambda>s. Inr JNull, validate = \<lambda>s v. 0, notReadyError = Error ''JSONEditor not ready''\<rparr> :: json fast_api"
  let ?st = "load_settle ?api 0 (Response \<lparr>resp_status = 200, resp_status_text = ''OK'', resp_json = Inr (JObj [])\<rparr>)
      (newEditor ''examples/simple_http'' None (init_page blank_console disabled_buttons))"
  have r: "seq_editor ?api (init_page blank_console disabled_buttons) ?st"
    by (rule seq_editor.settle, rule seq_editor.new, rule seq_editor.start) (simp add: init_page_def)
  have l: "live_widget ?st 0"
    by (simp add: live_widget_def load_settle_def load_result_def getJSON_def response_json_def resp_ok_def
                  template_of_data_def json_prop_def create_editor_def newEditor_def destroy_editor_def init_page_def Let_def)
  show ?thesis using sequential_loads_single_editor[OF r l] by simp
qed

text \<open>
  C33: two overlapping loads leave two live forms: when a second template button
  is clicked before the first template arrived, neither call finds an editor
  to destroy, both fetches create a widget in the same form element, and the
  first is never destroyed.
\<close>

theorem overlapping_loads_two_editors:
  "resp_ok r \<Longrightarrow> resp_json r = Inr data \<Longrightarrow> data \<noteq> JNull \<Longrightarrow> json_prop data ''code'' = None \<Longrightarrow>
   fromJson api data = Inr tmpl \<Longrightarrow>
   live_count (editor_run api [NewEditor a va, NewEditor b vb, LoadSettle 0 (Response r), LoadSettle 1 (Response r)]
                 (init_page c bt)) = 2 \<and>
   editor (editor_run api [NewEditor a va, NewEditor b vb, LoadSettle 0 (Response r), LoadSettle 1 (Response r)]
             (init_page c bt)) = Some 1"
  by (simp add: newEditor_def destroy_editor_def init_page_def load_settle_def load_result_ok
                create_editor_def Let_def live_count_def)

theorem overlapping_loads_two_editors_witness:
  "live_count (editor_run
      \<lparr>fromJson = \<lambda>d. Inr d, getViewSchema = \<lambda>t. JObj [], getCombinedView = \<lambda>t v. JObj [],
       templateText = \<lambda>t. '''', render = \<lambda>t v. '''', modSchemaForJSONEditor = \<lambda>s. s,
       filterExtraProperties = \<lambda>v s. v, safeLoad = \<lambda>s. Inr JNull, validate = \<lambda>s v. 0, notReadyError = Error ''JSONEditor not ready''\<rparr>
      [NewEditor ''examples/simple_http'' None, NewEditor ''bigip-fast-templates/http'' None,
       LoadSettle 0 (Response \<lparr>resp_status = 200, resp_status_text = ''OK'', resp_json = Inr (JObj [])\<rparr>),
       LoadSettle 1 (Response \<lparr>resp_status = 200, resp_status_text = ''OK'', resp_json = Inr (JObj [])\<rparr>)]
      (init_page blank_console disabled_buttons)) = 2"
  using overlapping_loads_two_editors[where api = "\<lparr>fromJson = \<lambda>d. Inr d, getViewSchema = \<lambda>t. JObj [],
       getCombinedView = \<lambda>t v. JObj [], templateText = \<lambda>t. '''', render = \<lambda>t v. '''',
       modSchemaForJSONEditor = \<lambda>s. s, filterExtraProperties = \<lambda>v s. v, safeLoad = \<lambda>s. Inr JNull,
       validate = \<lambda>s v. 0, notReadyError = Error ''JSONEditor not ready''\<rparr>" and data = "JObj []" and tmpl = "JObj []"
       and r = "\<lparr>resp_status = 200, resp_status_text = ''OK'', resp_json = Inr (JObj [])\<rparr>"
       and a = "''examples/simple_http''" and b = "''bigip-fast-templates/http''" and va = None and vb = None
       and c = blank_console and bt = disabled_buttons]
  by (simp add: resp_ok_def json_prop_def)

text \<open>
  C36: a failed template load leaves a dead form behind: \<open>newEditor\<close> has
  already destroyed the previous widget and the catch only prints the error, but
  the buttons keep their enabled state and the previous load's handlers; a click
  on the submit button then throws \<open>getValue\<close>'s not-ready exception,
  uncaught, and nothing is sent.
\<close>

theorem failed_load_dead_submit:
  "editor st = Some g \<Longrightarrow> g < length (widgets st) \<Longrightarrow> wired st = Some wr \<Longrightarrow>
   \<not> form_disabled (btns st) \<Longrightarrow> loads st = [] \<Longrightarrow> load_result api b out = Inl e \<Longrightarrow>
   ew_destroyed (widgets (load_settle api (next_id st) out (newEditor b view st)) ! g) \<and>
   \<not> form_disabled (btns (load_settle api (next_id st) out (newEditor b view st))) \<and>
   wired (load_settle api (next_id st) out (newEditor b view st)) = Some wr \<and>
   last (console_log (ed_console (load_settle api (next_id st) out (newEditor b view st)))) =
     ''Error loading editor:'' @ nl # err_message e \<and>
   sent (click api FormBtn (load_settle api (next_id st) out (newEditor b view st))) =
     sent st @ [simple_request GET (''/mgmt/shared/fast/templates/'' @ b)] \<and>
   ed_uncaught (click api FormBtn (load_settle api (next_id st) out (newEditor b view st))) =
     ed_uncaught st @ [notReadyError api]"
proof -
  assume g: "editor st = Some g" "g < length (widgets st)" and w: "wired st = Some wr"
    and f: "\<not> form_disabled (btns st)" and l: "loads st = []" and e: "load_result api b out = Inl e"
  have m: "map_of (loads (newEditor b view st)) (next_id st) = Some (b, view)"
    using l by (simp add: newEditor_def Let_def)
  show ?thesis
    unfolding load_settle_error[OF m e]
    using g w f by (simp add: newEditor_def Let_def destroy_editor_def
                              click_def cur_value_def api_url_def endPointUrl_def)
qed

theorem failed_load_dead_submit_witness:
  "sent (click
      \<lparr>fromJson = \<lambda>d. Inr d, getViewSchema = \<lambda>t. JObj [], getCombinedView = \<lambda>t v. JObj [],
       templateText = \<lambda>t. '''', render = \<lambda>t v. '''', modSchemaForJSONEditor = \<lambda>s. s,
       filterExtraProperties = \<lambda>v s. v, safeLoad = \<lambda>s. Inr JNull, validate = \<lambda>s v. 0,
       notReadyError = Error ''JSONEditor not ready''\<rparr> FormBtn
     (load_settle
      \<lparr>fromJson = \<lambda>d. Inr d, getViewSchema = \<lambda>t. JObj [], getCombinedView = \<lambda>t v. JObj [],
       templateText = \<lambda>t. '''', render = \<lambda>t v. '''', modSchemaForJSONEditor = \<lambda>s. s,
       filterExtraProperties = \<lambda>v s. v, safeLoad = \<lambda>s. Inr JNull, validate = \<lambda>s v. 0,
       notReadyError = Error ''JSONEditor not ready''\<rparr>
       1 (Net_Error ''Failed to fetch'')
       (newEditor ''bigip-fast-templates/http'' None
         (widget_ready 0 (load_settle
            \<lparr>fromJson = \<lambda>d. Inr d, getViewSchema = \<lambda>t. JObj [], getCombinedView = \<lambda>t v. JObj [],
       templateText = \<lambda>t. '''', render = \<lambda>t v. '''', modSchemaForJSONEditor = \<lambda>s. s,
       filterExtraProperties = \<lambda>v s. v, safeLoad = \<lambda>s. Inr JNull, validate = \<lambda>s v. 0,
       notReadyError = Error ''JSONEditor not ready''\<rparr>
            0 (Response \<lparr>resp_status = 200, resp_status_text = ''OK'', resp_json = Inr (JObj [])\<rparr>)
            (newEditor ''examples/simple_http'' None (init_page blank_console disabled_buttons))))))) =
   [simple_request GET ''/mgmt/shared/fast/templates/examples/simple_http'',
    simple_request GET ''/mgmt/shared/fast/templates/bigip-fast-templates/http''] \<and>
   ed_uncaught (click
      \<lparr>fromJson = \<lambda>d. Inr d, getViewSchema = \<lambda>t. JObj [], getCombinedView = \<lambda>t v. JObj [],
       templateText = \<lambda>t. '''', render = \<lambda>t v. '''', modSchemaForJSONEditor = \<lambda>s. s,
       filterExtraProperties = \<lambda>v s. v, safeLoad = \<lambda>s. Inr JNull, validate = \<lambda>s v. 0,
       notReadyError = Error ''JSONEditor not ready''\<rparr> FormBtn
     (load_settle
      \<lparr>fromJson = \<lambda>d. Inr d, getViewSchema = \<lambda>t. JObj [], getCombinedView = \<lambda>t v. JObj [],
       templateText = \<lambda>t. '''', render = \<lambda>t v. '''', modSchemaForJSONEditor = \<lambda>s. s,
       filterExtraProperties = \<lambda>v s. v, safeLoad = \<lambda>s. Inr JNull, validate = \<lambda>s v. 0,
       notReadyError = Error ''JSONEditor not ready''\<rparr>
       1 (Net_Error ''Failed to fetch'')
       (newEditor ''bigip-fast-templates/http'' None
         (widget_ready 0 (load_settle
            \<lparr>fromJson = \<lambda>d. Inr d, getViewSchema = \<lambda>t. JObj [], getCombinedView = \<lambda>t v. JObj [],
       templateText = \<lambda>t. '''', render = \<lambda>t v. '''', modSchemaForJSONEditor = \<lambda>s. s,
       filterExtraProperties = \<lambda>v s. v, safeLoad = \<lambda>s. Inr JNull, validate = \<lambda>s v. 0,
       notReadyError = Error ''JSONEditor not ready''\<rparr>
            0 (Response \<lparr>resp_status = 200, resp_status_text = ''OK'', resp_json = Inr (JObj [])\<rparr>)
            (newEditor ''examples/simple_http'' None (init_page blank_console disabled_buttons))))))) = [Error ''JSONEditor not ready'']"
proof -
  let ?api = "\<lparr>fromJson = \<lambda>d. Inr d, getViewSchema = \<lambda>t. JObj [], getCombinedView = \<lambda>t v. JObj [],
       templateText = \<lambda>t. '''', render = \<lambda>t v. '''', modSchemaForJSONEditor = \<lambda>s. s,
       filterExtraProperties = \<lambda>v s. v, safeLoad = \<lambda>s. Inr JNull, validate = \<lambda>s v. 0, notReadyError = Error ''JSONEditor not ready''\<rparr> :: json fast_api"
  let ?st = "widget_ready 0 (load_settle ?api 0
            (Response \<lparr>resp_status = 200, resp_status_text = ''OK'', resp_json = Inr (JObj [])\<rparr>)
            (newEditor ''examples/simple_http'' None (init_page blank_console disabled_buttons)))"
  have st: "editor ?st = Some 0 \<and> 0 < length (widgets ?st) \<and>
            wired ?st = Some \<lparr>wire_tmplid = ''examples/simple_http'', wire_tmpl = JObj [], wire_schema = JObj []\<rparr> \<and>
            \<not> form_disabled (btns ?st) \<and> loads ?st = [] \<and> next_id ?st = 1 \<and>
            sent ?st = [simple_request GET ''/mgmt/shared/fast/templates/examples/simple_http''] \<and>
            ed_uncaught ?st = []"
    by (simp add: widget_ready_def live_widget_def all_enabled_def load_settle_def load_result_def getJSON_def
                  response_json_def resp_ok_def template_of_data_def json_prop_def create_editor_def
                  newEditor_def destroy_editor_def init_page_def Let_def api_url_def endPointUrl_def)
  have e: "load_result ?api ''bigip-fast-templates/http'' (Net_Error ''Failed to fetch'') =
           Inl (TypeError ''Failed to fetch'')"
    by (simp add: load_result_def getJSON_def)
  show ?thesis
    using failed_load_dead_submit[of ?st 0, OF _ _ _ _ _ e, where view = None] st
    by (simp add: widget_ready_def live_widget_def load_settle_def load_result_def getJSON_def response_json_def
                  resp_ok_def template_of_data_def json_prop_def create_editor_def newEditor_def
                  destroy_editor_def init_page_def Let_def)
qed


end
