(* ===== verification/Spec2Isabelle.thy ===== *)
theory Spec2Isabelle
  imports Prelude Http Upload Router Tasks AppList Templates Editor
begin

text \<open>
  \<^bold>\<open>A verification model of the FAST administrative console.\<close>

  The program is one browser script, \<open>src/iappslx/presentation/app.js\<close>: a
  single-page console that routes on the URL hash, renders list pages from the
  backend's REST answers, builds a form editor from a template's schema, and
  uploads template-set packages in chunks. \<open>src/iapplx/babel.config.js\<close> is
  build configuration and has no runtime behaviour.

  \<^bold>\<open>How the parts interact.\<close> A \<open>hashchange\<close> or \<open>load\<close> event runs
  \<open>router\<close>, which looks the hash's first segment up in the route table filled
  at startup by \<open>route\<close>/\<open>addRouteToHeader\<close>, redraws the nav bar, hides the
  page and calls one page controller; the controller fetches through
  \<open>getJSON\<close> or \<open>fetch\<close> and writes the page; when its promise settles the
  router's \<open>finally\<close> shows the page again. The tasks controller keeps
  polling with \<open>setTimeout\<close>; the templates controller drives
  \<open>multipartUpload\<close>. The backend is a black box.

  \<^bold>\<open>Theories.\<close>
  \<^item> \<open>Prelude\<close>: the JavaScript library as the script uses it (\<open>slice\<close>,
    \<open>split\<close>/\<open>join\<close>, integer printing, plain objects as association lists in
    property order, the list-view elements) and the \<open>js_simps\<close> collection.
  \<^item> \<open>Http\<close>: requests and responses, the backend as a function \<open>server\<close>
    from request to fetch outcome (network failure or response), rejections as
    the \<open>Inl\<close> branch of \<open>js_error + 'a\<close>; \<open>getJSON\<close> (lines 11-18) and
    \<open>dispOutput\<close> over a console record (lines 20-29).
  \<^item> \<open>Upload\<close>: \<open>multipartUpload\<close> and its \<open>uploadPart\<close> loop (lines 31-65)
    as a \<open>function\<close> whose termination measure is the distance of \<open>end\<close> to
    the last byte; \<open>CHUNK_SIZE\<close> is the source's 1,000,000. The abstract
    specification is a sequential run over the precomputed chunk requests;
    \<open>multipartUpload_refines\<close> proves the loop implements it, and the other
    lemmas give count (\<open>\<lceil>S/C\<rceil>\<close>), contiguity, the byte round trip, the
    \<open>Content-Length\<close> bound and the first-failure behaviour.
  \<^item> \<open>Router\<close>: the route table with \<open>Object.prototype\<close> inheritance, the
    hash parsing (the \<open>/application.*?/edit\<close> regex, split, join), the nav
    bar, the listener \<open>router\<close>, the \<open>finally\<close> continuation \<open>settle\<close>, and
    runs of \<open>Navigate\<close>/\<open>Settle\<close> events; controllers are a type variable.
    The startup table of lines 234-242 is \<open>startup_config\<close>. Lemmas: the three
    outcomes of a navigation, the restoring continuation, an invariant of
    sequential navigation (rule induction over \<open>seq_reach\<close>), and the
    overlapping-navigation run that leaves the nav bar hidden for good.
  \<^item> \<open>Tasks\<close>: \<open>renderTaskList\<close> as \<open>poll\<close>, a \<open>partial_function (option)\<close>
    over polling rounds, \<open>None\<close> being the loop that never ends; the server's
    answer and the presence of the task list are inputs per round. Lemmas: the
    in-progress test decides the re-poll, the loop returns iff some round stops
    it, the exact rounds fetched, and the poll surviving a page change.
  \<^item> \<open>AppList\<close>: the application list controller (lines 242-316), its row
    rendering with the \<open>count\<close>/\<open>lastTenant\<close> accumulators, and the Delete
    handler.
  \<^item> \<open>Templates\<close>: the templates page (lines 405-539): the \<open>Promise.all\<close>
    of the two fetches (which rejection wins is an input), the \<open>setMap\<close> and
    \<open>appDict\<close> reductions over plain objects, \<open>createRow\<close> with its shared
    counter, the Remove and Update actions, and the upload-then-install handler
    built on \<open>multipartUpload\<close>. Lemmas: \<open>appDict\<close> refines filtering by
    template, \<open>setMap\<close> equals a first-occurrence/last-value reference, the
    rows of the page, the install and update request sequences and the missing
    \<open>.catch\<close>.
  \<^item> \<open>Editor\<close>: \<open>newEditor\<close> (lines 68-158) and the create and modify
    controllers (lines 317-354). The template library, \<open>yaml.safeLoad\<close> and
    the widget's validator are the interface record \<open>fast_api\<close> over the
    template type; \<open>JSON.stringify\<close> (compact and indented) is written out.
    The state \<open>editor_page\<close> holds the module variable \<open>editor\<close>, every
    \<open>JSONEditor\<close> created (with its destroyed flag), the five buttons, the
    handlers of the last successful load and the pending fetches; the
    asynchronous points of \<open>newEditor\<close> are events of \<open>editor_step\<close>
    (\<open>NewEditor\<close>, \<open>LoadSettle\<close>, \<open>Ready\<close>, \<open>Change\<close>, \<open>Click\<close>,
    \<open>PostSettle\<close>). A widget is ready from its \<open>ready\<close> event until
    \<open>destroy()\<close>; \<open>editor.getValue()\<close> (\<open>cur_value\<close>) throws the
    library's not-ready exception otherwise, so the view and submit handlers
    fail, uncaught, on a widget that is not ready. Lemmas: the successful load,
    the button state machine, the submit request from a ready editor, the
    well-formedness of every run (the module variable refers to an existing
    widget, pending requests have distinct ids), an invariant of non-overlapping
    loads (rule induction over \<open>seq_editor\<close>: at most one live form), and the
    runs that show the two defects: overlapping loads leave two live forms, and
    a failed load leaves the buttons enabled and wired to the destroyed form,
    whose Submit throws.

  The last section below states a property across components: the route
  \<open>#modify/tenant/app\<close> reaches the modify controller through the router's
  hash parsing, which fetches the application and starts the editor.

  \<^bold>\<open>Bounds and fuel.\<close> No fuel is used: \<open>upload_part\<close> terminates by its
  measure for every file size, and the task poll, which the code does not bound,
  is partial by construction, with its returning characterised exactly
  (\<open>Tasks.poll_returns_iff\<close>). The editor page is a step function over an
  explicit event list, so every run is finite.

  \<^bold>\<open>Not modelled.\<close> \<open>src/iapplx/babel.config.js\<close> is build configuration
  (Babel presets and ignore globs) with no runtime behaviour. The API page's
  controller is \<open>Promise.resolve()\<close> and changes nothing; it is present only
  as the route \<open>ApiController\<close> of the startup table. The third-party
  libraries (js-yaml, \<open>@f5devcentral/fast\<close>, JSONEditor) are parameters:
  \<open>fast_api\<close> in \<open>Editor\<close>, with the specification's description of
  \<open>getCombinedView\<close> and \<open>filterExtraProperties\<close> given as
  \<open>spec_getCombinedView\<close>/\<open>spec_filterExtraProperties\<close> to run the
  model on the specification's example. Of JSONEditor the model keeps the
  instance's value, validation, readiness and destruction: a destroyed
  instance emits no events, and \<open>destroy()\<close> is taken to act on every
  instance (the library's no-op on an instance not yet ready is not
  represented). CSS, the HTML
  page (the page templates the router instantiates are a parameter, and the
  buttons' initial state is an argument of \<open>init_page\<close>) and the backend are
  outside the model. JSON numbers are integers; characters are bytes, so the
  Unicode line terminators of the router's regex and non-ASCII escapes of
  \<open>JSON.stringify\<close> are not represented; integer-like property names, which
  JavaScript orders first in a plain object, do not occur among the keys used.
\<close>

section \<open>Properties across components\<close>

text \<open>
  C39: navigating to \<open>#modify/tenant/app\<close> runs the modify controller with
  \<open>tenant/app\<close>; once \<open>GET /mgmt/shared/fast/applications/tenant/app\<close> answers
  with an application whose \<open>constants.fast\<close> names a template and a view, the
  editor builder is started on that template with that view.
\<close>

theorem modify_route_starts_editor:
  "CHR ''/'' \<notin> set t \<Longrightarrow> \<not> has_infix ''/application'' (''modify/'' @ t @ CHR ''/'' # a) \<Longrightarrow>
   srv (simple_request GET (''/mgmt/shared/fast/applications/'' @ t @ CHR ''/'' # a)) = Response r \<Longrightarrow>
   resp_ok r \<Longrightarrow> resp_json r = Inr appData \<Longrightarrow> app_fast_def appData = Inr (tmplid, view) \<Longrightarrow>
   invoked (router (startup_config console_pages) (''#modify/'' @ t @ CHR ''/'' # a) s) =
     invoked s @ [(Some ModifyController, t @ CHR ''/'' # a)] \<and>
   modify_controller srv (route_arg (''#modify/'' @ t @ CHR ''/'' # a)) st =
     newEditor tmplid view
       (st\<lparr>ed_console := dispOutput (''Fetching app data for '' @ t @ CHR ''/'' # a) (set_outputElem (ed_console st))\<rparr>)"
proof -
  assume t: "CHR ''/'' \<notin> set t" and n: "\<not> has_infix ''/application'' (''modify/'' @ t @ CHR ''/'' # a)"
    and sr: "srv (simple_request GET (''/mgmt/shared/fast/applications/'' @ t @ CHR ''/'' # a)) = Response r"
    and ok: "resp_ok r" "resp_json r = Inr appData" and d: "app_fast_def appData = Inr (tmplid, view)"
  let ?h = "''#modify/'' @ t @ CHR ''/'' # a"
  have split: "route_key (CHR ''#'' # k @ CHR ''/'' # x) = k \<and> route_arg (CHR ''#'' # k @ CHR ''/'' # x) = x"
    if "CHR ''/'' \<notin> set k" "\<not> has_infix ''/application'' (k @ CHR ''/'' # x)" for k x
    using that by (simp add: route_key_def route_arg_def url_parts_def url_of_def raw_url_hash
                             strip_app_edit_id split_on_append_sep join_split_on)
  have key: "route_key ?h = ''modify''" and arg: "route_arg ?h = t @ CHR ''/'' # a"
    using split[of "''modify''" "t @ CHR ''/'' # a"] n by simp_all
  have own: "obj_get (routes (startup_config console_pages)) ''modify'' =
               Own \<lparr>pageName = ''create'', pageFunc = Some ModifyController\<rparr>"
    by (simp add: router_eval)
  have inv: "invoked (router (startup_config console_pages) ?h s) = invoked s @ [(Some ModifyController, t @ CHR ''/'' # a)]"
    using own key arg by (simp add: router_def Let_def router_eval)
  have g: "getJSON srv (''applications/'' @ t @ CHR ''/'' # a) = Inr appData"
    using sr ok by (simp add: getJSON_def api_url_def endPointUrl_def response_json_def)
  show ?thesis using inv g d arg by (simp add: modify_controller_def Let_def)
qed

theorem modify_route_starts_editor_witness:
  "invoked (router (startup_config console_pages) ''#modify/tenant/app'' (init_state '''' '''')) =
     [(Some ModifyController, ''tenant/app'')] \<and>
   loads (modify_controller
      (\<lambda>_. Response \<lparr>resp_status = 200, resp_status_text = ''OK'',
         resp_json = Inr (JObj [(''constants'', JObj [(''fast'', JObj [(''template'', JStr ''examples/simple_http''),
                                                                   (''view'', JObj [(''tenant_name'', JStr ''tenant'')])])])])\<rparr>)
      (route_arg ''#modify/tenant/app'') (init_page blank_console disabled_buttons :: json editor_page)) =
     [(0, ''examples/simple_http'', Some (JObj [(''tenant_name'', JStr ''tenant'')]))]"
proof -
  have d: "app_fast_def (JObj [(''constants'', JObj [(''fast'', JObj [(''template'', JStr ''examples/simple_http''),
                                                     (''view'', JObj [(''tenant_name'', JStr ''tenant'')])])])]) =
           Inr (''examples/simple_http'', Some (JObj [(''tenant_name'', JStr ''tenant'')]))"
    by (simp add: app_fast_def_def json_prop_def template_literal_def)
  let ?srv = "\<lambda>_. Response \<lparr>resp_status = 200, resp_status_text = ''OK'',
         resp_json = Inr (JObj [(''constants'', JObj [(''fast'', JObj [(''template'', JStr ''examples/simple_http''),
                                                                   (''view'', JObj [(''tenant_name'', JStr ''tenant'')])])])])\<rparr>"
  have c: "invoked (router (startup_config console_pages) (''#modify/'' @ ''tenant'' @ CHR ''/'' # ''app'')
             (init_state '''' '''')) =
           invoked (init_state '''' '''') @ [(Some ModifyController, ''tenant'' @ CHR ''/'' # ''app'')] \<and>
           modify_controller ?srv (route_arg (''#modify/'' @ ''tenant'' @ CHR ''/'' # ''app'')) (init_page blank_console disabled_buttons :: json editor_page) =
           newEditor ''examples/simple_http'' (Some (JObj [(''tenant_name'', JStr ''tenant'')]))
             ((init_page blank_console disabled_buttons :: json editor_page)\<lparr>ed_console := dispOutput (''Fetching app data for '' @ ''tenant'' @ CHR ''/'' # ''app'')
                                  (set_outputElem (ed_console (init_page blank_console disabled_buttons :: json editor_page)))\<rparr>)"
    using modify_route_starts_editor[OF _ _ _ _ _ d, where t = "''tenant''" and a = "''app''" and srv = ?srv
            and r = "\<lparr>resp_status = 200, resp_status_text = ''OK'',
         resp_json = Inr (JObj [(''constants'', JObj [(''fast'', JObj [(''template'', JStr ''examples/simple_http''),
                                                                   (''view'', JObj [(''tenant_name'', JStr ''tenant'')])])])])\<rparr>"
            and s = "init_state '''' ''''" and st = "init_page blank_console disabled_buttons :: json editor_page"]
    by (simp add: starts_with_def resp_ok_def)
  have h: "''#modify/'' @ ''tenant'' @ CHR ''/'' # ''app'' = ''#modify/tenant/app''" by simp
  show ?thesis
    using c unfolding h
    by (simp add: init_state_def newEditor_def destroy_editor_def init_page_def Let_def)
qed

end
